theory Spec2Isabelle
  imports Complex_Main "HOL-Library.AList"
begin

section \<open>Indicator library (src/lib/indicators.ts)\<close>

text \<open>
  A JavaScript \<open>number\<close> is modelled as a \<open>real\<close>: rounding, overflow and the
  non-finite values of IEEE doubles are left out, except where a function of the
  source divides by a quantity that can be zero on ordinary input; those places are
  written out case by case. A result \<open>number | null\<close> is a \<open>real option\<close>.
  A window length (\<open>period\<close>) is a \<open>nat\<close>; the source only ever passes positive
  integers, and the theorems below assume \<open>0 < period\<close>. A decimal constant of the
  source, such as \<open>0.65\<close>, is the rational number it denotes. The two exceptions
  are the scoring of a signal and the adaptive adjustment in the engine, whose outcome
  depends on how sums of decimal constants are rounded: their arithmetic is modelled in
  double precision (see the section on the signal engine).
\<close>

text \<open>\<open>xs.reduce((sum, val) => sum + val, 0)\<close>\<close>

definition reduce_sum :: "real list \<Rightarrow> real" where
  "reduce_sum xs = foldl (+) 0 xs"

text \<open>\<open>data.slice(-period)\<close>: the last \<open>period\<close> elements (all of them when there are
  fewer); \<open>slice(-0)\<close> is \<open>slice(0)\<close>, the whole array.\<close>

definition slice_last :: "nat \<Rightarrow> 'a list \<Rightarrow> 'a list" where
  "slice_last period data = (if period = 0 then data else drop (length data - period) data)"

definition calculateSMA :: "real list \<Rightarrow> nat \<Rightarrow> real option" where
  "calculateSMA data period =
     (if length data < period then None
      else Some (reduce_sum (slice_last period data) / real period))"

definition calculateEMA :: "real list \<Rightarrow> nat \<Rightarrow> real option" where
  "calculateEMA data period =
     (if length data < period then None
      else let multiplier = 2 / (real period + 1);
               ema0 = reduce_sum (take period data) / real period
           in Some (foldl (\<lambda>ema x. (x - ema) * multiplier + ema) ema0 (drop period data)))"

text \<open>\<open>changes[i-1] = data[i] - data[i-1]\<close> for \<open>1 \<le> i < data.length\<close>.\<close>

fun price_changes :: "real list \<Rightarrow> real list" where
  "price_changes (x # y # ys) = (y - x) # price_changes (y # ys)"
| "price_changes _ = []"

text \<open>The two loops of \<open>calculateRSI\<close>, on the pair \<open>(avgGain, avgLoss)\<close>.\<close>

definition rsi_initial_step :: "real \<times> real \<Rightarrow> real \<Rightarrow> real \<times> real" where
  "rsi_initial_step acc c =
     (case acc of (avgGain, avgLoss) \<Rightarrow>
        if c > 0 then (avgGain + c, avgLoss) else (avgGain, avgLoss + \<bar>c\<bar>))"

definition rsi_smooth_step :: "nat \<Rightarrow> real \<times> real \<Rightarrow> real \<Rightarrow> real \<times> real" where
  "rsi_smooth_step period acc c =
     (case acc of (avgGain, avgLoss) \<Rightarrow>
        if c > 0
        then ((avgGain * (real period - 1) + c) / real period,
              (avgLoss * (real period - 1)) / real period)
        else ((avgGain * (real period - 1)) / real period,
              (avgLoss * (real period - 1) + \<bar>c\<bar>) / real period))"

definition rsi_averages :: "real list \<Rightarrow> nat \<Rightarrow> real \<times> real" where
  "rsi_averages data period =
     (let changes = price_changes data;
          (g0, l0) = foldl rsi_initial_step (0, 0) (take period changes);
          seed = (g0 / real period, l0 / real period)
      in foldl (rsi_smooth_step period) seed (drop period changes))"

definition calculateRSI :: "real list \<Rightarrow> nat \<Rightarrow> real option" where
  "calculateRSI data period =
     (if length data < period + 1 then None
      else case rsi_averages data period of (avgGain, avgLoss) \<Rightarrow>
        if avgLoss = 0 then Some 100
        else let rs = avgGain / avgLoss in Some (100 - (100 / (1 + rs))))"


subsection \<open>ADX\<close>

text \<open>
  \<open>calculateADX\<close> divides by the smoothed true range, which is zero on a flat
  stretch of prices. JavaScript then yields \<open>Infinity\<close> (positive numerator) or
  \<open>NaN\<close> (zero numerator) where HOL's \<open>x / 0\<close> is \<open>0\<close>, so that case is written
  out. The only non-finite value that can reach the result is \<open>NaN\<close>.
\<close>

datatype jsnum = Num real | NaN

text \<open>The first loop: one entry per index \<open>1 \<le> i < highs.length\<close>. The three arrays are
  parallel sequences of equal length (section 4.1 of the specification).\<close>

definition trueRanges :: "real list \<Rightarrow> real list \<Rightarrow> real list \<Rightarrow> real list" where
  "trueRanges highs lows closes =
     map (\<lambda>i. max (max (highs ! i - lows ! i) \<bar>highs ! i - closes ! (i - 1)\<bar>)
                    \<bar>lows ! i - closes ! (i - 1)\<bar>)
         [1 ..< length highs]"

definition plusDM :: "real list \<Rightarrow> real list \<Rightarrow> real list" where
  "plusDM highs lows =
     map (\<lambda>i. let highDiff = highs ! i - highs ! (i - 1);
                   lowDiff = lows ! (i - 1) - lows ! i
               in if highDiff > lowDiff \<and> highDiff > 0 then highDiff else 0)
         [1 ..< length highs]"

definition minusDM :: "real list \<Rightarrow> real list \<Rightarrow> real list" where
  "minusDM highs lows =
     map (\<lambda>i. let highDiff = highs ! i - highs ! (i - 1);
                   lowDiff = lows ! (i - 1) - lows ! i
               in if lowDiff > highDiff \<and> lowDiff > 0 then lowDiff else 0)
         [1 ..< length highs]"

text \<open>
  The directional index of one step, from the three smoothed sums: \<open>None\<close> when the
  test \<open>diSum > 0\<close> fails and nothing is pushed to \<open>dx\<close>. With \<open>smoothedTR = 0\<close> the
  two DI values are \<open>Infinity\<close> or \<open>NaN\<close>: their sum passes the test only when both
  are \<open>Infinity\<close>, and then \<open>diDiff\<close> (and the pushed value) is \<open>NaN\<close>.
\<close>

definition adx_dx :: "real \<Rightarrow> real \<Rightarrow> real \<Rightarrow> jsnum option" where
  "adx_dx smoothedTR smoothedPlusDM smoothedMinusDM =
     (if smoothedTR = 0
      then (if smoothedPlusDM > 0 \<and> smoothedMinusDM > 0 then Some NaN else None)
      else let plusDI = (smoothedPlusDM / smoothedTR) * 100;
               minusDI = (smoothedMinusDM / smoothedTR) * 100;
               diDiff = \<bar>plusDI - minusDI\<bar>;
               diSum = plusDI + minusDI
           in if diSum > 0 then Some (Num ((diDiff / diSum) * 100)) else None)"

text \<open>The loop state: \<open>(smoothedTR, smoothedPlusDM, smoothedMinusDM, dx)\<close>; one step
  consumes \<open>(trueRanges[i], plusDM[i], minusDM[i])\<close>.\<close>

type_synonym adx_state = "real \<times> real \<times> real \<times> jsnum list"

definition adx_step :: "nat \<Rightarrow> adx_state \<Rightarrow> real \<times> real \<times> real \<Rightarrow> adx_state" where
  "adx_step period st x =
     (case st of (smoothedTR, smoothedPlusDM, smoothedMinusDM, dx) \<Rightarrow>
      case x of (tr, pdm, mdm) \<Rightarrow>
        let smoothedTR' = smoothedTR - (smoothedTR / real period) + tr;
            smoothedPlusDM' = smoothedPlusDM - (smoothedPlusDM / real period) + pdm;
            smoothedMinusDM' = smoothedMinusDM - (smoothedMinusDM / real period) + mdm
        in (smoothedTR', smoothedPlusDM', smoothedMinusDM',
            (case adx_dx smoothedTR' smoothedPlusDM' smoothedMinusDM' of
               None \<Rightarrow> dx | Some d \<Rightarrow> dx @ [d])))"

definition adx_loop :: "real list \<Rightarrow> real list \<Rightarrow> real list \<Rightarrow> nat \<Rightarrow> adx_state" where
  "adx_loop highs lows closes period =
     (let trs = trueRanges highs lows closes;
          pdm = plusDM highs lows;
          mdm = minusDM highs lows
      in foldl (adx_step period)
           (reduce_sum (take period trs), reduce_sum (take period pdm),
            reduce_sum (take period mdm), [])
           (drop period (zip trs (zip pdm mdm))))"

text \<open>The values of a list of numbers, unless one of them is \<open>NaN\<close>.\<close>

fun num_values :: "jsnum list \<Rightarrow> real list option" where
  "num_values [] = Some []"
| "num_values (NaN # _) = None"
| "num_values (Num v # ds) = map_option ((#) v) (num_values ds)"

text \<open>Wilder smoothing of a series: the mean of the first \<open>period\<close> values, then
  \<open>a = (a * (period - 1) + x) / period\<close> for each later value.\<close>

definition wilder_average :: "nat \<Rightarrow> real list \<Rightarrow> real" where
  "wilder_average period xs =
     foldl (\<lambda>a x. ((a * (real period - 1)) + x) / real period)
           (reduce_sum (take period xs) / real period) (drop period xs)"

definition calculateADX :: "real list \<Rightarrow> real list \<Rightarrow> real list \<Rightarrow> nat \<Rightarrow> jsnum option" where
  "calculateADX highs lows closes period =
     (if length highs < period * 2 then None
      else case adx_loop highs lows closes period of (_, _, _, dx) \<Rightarrow>
        if length dx < period then None
        else (case num_values dx of
                None \<Rightarrow> Some NaN
              | Some vs \<Rightarrow> Some (Num (wilder_average period vs))))"

subsection \<open>Bollinger bands, MACD, ATR\<close>

record bands =
  upper :: real
  middle :: real
  lower :: real

definition calculateBollingerBands :: "real list \<Rightarrow> nat \<Rightarrow> real \<Rightarrow> bands option" where
  "calculateBollingerBands data period stdDev =
     (if length data < period then None
      else let slice = slice_last period data;
               middle = reduce_sum slice / real period;
               squaredDiffs = map (\<lambda>val. (val - middle) ^ 2) slice;
               variance = reduce_sum squaredDiffs / real period;
               standardDeviation = sqrt variance
           in Some \<lparr>upper = middle + (standardDeviation * stdDev),
                    middle = middle,
                    lower = middle - (standardDeviation * stdDev)\<rparr>)"

record macd_result =
  macd :: real
  signal :: real
  histogram :: real

definition macd_values :: "real list \<Rightarrow> nat \<Rightarrow> nat \<Rightarrow> real list" where
  "macd_values data fastPeriod slowPeriod =
     List.map_filter
       (\<lambda>i. case (calculateEMA (take i data) fastPeriod, calculateEMA (take i data) slowPeriod) of
               (Some fast, Some slow) \<Rightarrow> Some (fast - slow)
             | _ \<Rightarrow> None)
       [slowPeriod ..< length data + 1]"

definition calculateMACD :: "real list \<Rightarrow> nat \<Rightarrow> nat \<Rightarrow> nat \<Rightarrow> macd_result option" where
  "calculateMACD data fastPeriod slowPeriod signalPeriod =
     (if length data < slowPeriod + signalPeriod then None
      else case (calculateEMA data fastPeriod, calculateEMA data slowPeriod) of
             (Some fastEMA, Some slowEMA) \<Rightarrow>
               (let macdLine = fastEMA - slowEMA
                in case calculateEMA (macd_values data fastPeriod slowPeriod) signalPeriod of
                     None \<Rightarrow> None
                   | Some signalLine \<Rightarrow>
                       Some \<lparr>macd = macdLine, signal = signalLine,
                             histogram = macdLine - signalLine\<rparr>)
           | _ \<Rightarrow> None)"

definition calculateATR :: "real list \<Rightarrow> real list \<Rightarrow> real list \<Rightarrow> nat \<Rightarrow> real option" where
  "calculateATR highs lows closes period =
     (if length highs < period + 1 then None
      else let trs = trueRanges highs lows closes
           in if length trs < period then None
              else Some (wilder_average period trs))"

subsection \<open>The snapshot of all indicators\<close>

record IndicatorResult =
  rsi :: "real option"
  adx :: "jsnum option"
  bollingerUpper :: "real option"
  bollingerMiddle :: "real option"
  bollingerLower :: "real option"
  sma :: "real option"
  ema :: "real option"
  macd_snapshot :: "macd_result option"
  atr :: "real option"

text \<open>\<open>bollinger?.upper || null\<close>: \<open>null\<close> when there are no bands, and also when the
  number is falsy, that is \<open>0\<close>.\<close>

definition or_null :: "real option \<Rightarrow> real option" where
  "or_null v = (case v of None \<Rightarrow> None | Some x \<Rightarrow> if x = 0 then None else Some x)"

text \<open>\<open>highs || prices\<close>: an omitted argument falls back to the prices (an array, even an
  empty one, is truthy).\<close>

definition calculateAllIndicators ::
  "real list \<Rightarrow> real list option \<Rightarrow> real list option \<Rightarrow> IndicatorResult" where
  "calculateAllIndicators prices highs lows =
     (let h = (case highs of None \<Rightarrow> prices | Some hs \<Rightarrow> hs);
          l = (case lows of None \<Rightarrow> prices | Some ls \<Rightarrow> ls);
          bollinger = calculateBollingerBands prices 20 2
      in \<lparr>rsi = calculateRSI prices 14,
          adx = calculateADX h l prices 14,
          bollingerUpper = or_null (map_option upper bollinger),
          bollingerMiddle = or_null (map_option middle bollinger),
          bollingerLower = or_null (map_option lower bollinger),
          sma = calculateSMA prices 20,
          ema = calculateEMA prices 12,
          macd_snapshot = calculateMACD prices 12 26 9,
          atr = calculateATR h l prices 14\<rparr>)"

subsection \<open>Auxiliary notions for the ADX loop\<close>

text \<open>The smoothed sums \<open>(smoothedTR, smoothedPlusDM, smoothedMinusDM)\<close> that the loop
  of \<open>calculateADX\<close> visits, one per iteration, in order.\<close>

fun adx_smoothed :: "nat \<Rightarrow> real \<times> real \<times> real \<Rightarrow> (real \<times> real \<times> real) list \<Rightarrow> (real \<times> real \<times> real) list" where
  "adx_smoothed period s [] = []"
| "adx_smoothed period s (x # xs) =
     (case s of (smoothedTR, smoothedPlusDM, smoothedMinusDM) \<Rightarrow>
      case x of (tr, pdm, mdm) \<Rightarrow>
        let s' = (smoothedTR - (smoothedTR / real period) + tr,
                  smoothedPlusDM - (smoothedPlusDM / real period) + pdm,
                  smoothedMinusDM - (smoothedMinusDM / real period) + mdm)
        in s' # adx_smoothed period s' xs)"

definition adx_sums :: "real list \<Rightarrow> real list \<Rightarrow> real list \<Rightarrow> nat \<Rightarrow> (real \<times> real \<times> real) list" where
  "adx_sums highs lows closes period =
     (let trs = trueRanges highs lows closes;
          pdm = plusDM highs lows;
          mdm = minusDM highs lows
      in adx_smoothed period
           (reduce_sum (take period trs), reduce_sum (take period pdm), reduce_sum (take period mdm))
           (drop period (zip trs (zip pdm mdm))))"

definition nonneg3 :: "real \<times> real \<times> real \<Rightarrow> bool" where
  "nonneg3 s = (case s of (a, b, c) \<Rightarrow> 0 \<le> a \<and> 0 \<le> b \<and> 0 \<le> c)"


text \<open>The DI sum \<open>plusDI + minusDI\<close> of one iteration; it is a number when the smoothed
  true range is not zero.\<close>

definition di_sum :: "real \<times> real \<times> real \<Rightarrow> real" where
  "di_sum s = (case s of (smoothedTR, smoothedPlusDM, smoothedMinusDM) \<Rightarrow>
      (smoothedPlusDM / smoothedTR) * 100 + (smoothedMinusDM / smoothedTR) * 100)"


section \<open>Strings and clocks\<close>

text \<open>
  A string is a \<open>char list\<close> (ASCII). \<open>Date.now()\<close> is a parameter \<open>now\<close>, in
  milliseconds: every call made within one synchronous run of a handler reads the
  same value.
\<close>

text \<open>Template interpolation \<open>`${n}`\<close> of a non-negative integer: its decimal digits.\<close>

function string_of_nat :: "nat \<Rightarrow> string" where
  "string_of_nat n =
     (if n < 10 then [''0123456789'' ! n]
      else string_of_nat (n div 10) @ [''0123456789'' ! (n mod 10)])"
  by pat_completeness auto
termination
  by (relation "measure id") auto

declare string_of_nat.simps [simp del]

definition toLowerCase_char :: "char \<Rightarrow> char" where
  "toLowerCase_char c =
     (case map_of (zip ''ABCDEFGHIJKLMNOPQRSTUVWXYZ'' ''abcdefghijklmnopqrstuvwxyz'') c of
        Some l \<Rightarrow> l | None \<Rightarrow> c)"

definition toLowerCase :: "string \<Rightarrow> string" where
  "toLowerCase s = map toLowerCase_char s"

text \<open>\<open>s.includes(p)\<close>: \<open>p\<close> occurs in \<open>s\<close> as a contiguous substring.\<close>

fun str_includes :: "string \<Rightarrow> string \<Rightarrow> bool" where
  "str_includes [] p = (p = [])"
| "str_includes (c # cs) p = (take (length p) (c # cs) = p \<or> str_includes cs p)"

section \<open>Trade execution queue (TradeQueue)\<close>

datatype contract_type = CALL | PUT

datatype duration_unit = unit_t | unit_s | unit_m | unit_h | unit_d

record TradeResult =
  success :: bool
  contractId :: "string option"
  buyPrice :: "real option"
  error :: "string option"
  profit :: "real option"

text \<open>An object literal \<open>{ success: false, error: message }\<close>.\<close>

definition failure :: "string \<Rightarrow> TradeResult" where
  "failure message =
     \<lparr>success = False, contractId = None, buyPrice = None, error = Some message, profit = None\<rparr>"

datatype queued_status = Pending | Executing | Completed | Failed | Cancelled

text \<open>The \<open>resolve\<close> and \<open>reject\<close> callbacks of a queued trade belong to the promise
  that \<open>addTrade\<close> returned; a call \<open>trade.resolve(result)\<close> is recorded as the event
  \<open>Settled trade result\<close>, with the trade as it is at that moment.\<close>

record QueuedTrade =
  id_queued :: string
  symbol :: string
  contractType :: contract_type
  amount :: real
  duration :: nat
  durationUnit :: duration_unit
  priority :: int
  addedAt :: nat
  status :: queued_status

record QueueStats =
  queueSize :: nat
  pendingSymbols :: "string list"
  isThrottled :: bool
  throttleEndsAt :: "nat option"
  lastExecutionTime :: "nat option"

text \<open>
  What the queue tells the outside: a message to the throttle handlers, a snapshot to
  the statistics handlers, the settlement of a queued trade's promise, and the
  immediate settlement of a submission that was never queued (by its trade id).
\<close>

datatype queue_event =
    Throttle string
  | Stats QueueStats
  | Settled QueuedTrade TradeResult
  | Rejected string TradeResult

text \<open>The fields of the class. \<open>pendingSymbols\<close> is a \<open>Set\<close>, kept as a duplicate-free
  list in insertion order; \<open>symbolCooldowns\<close> is a \<open>Map\<close>; \<open>events\<close> is the trace of
  everything delivered to handlers and promises, oldest first.\<close>

record TradeQueue =
  queue :: "QueuedTrade list"
  pendingSymbols :: "string list"
  symbolCooldowns :: "string \<rightharpoonup> nat"
  isProcessing :: bool
  isThrottled :: bool
  throttleEndsAt :: "nat option"
  lastExecutionTime :: "nat option"
  events :: "queue_event list"

definition MIN_EXECUTION_INTERVAL_MS :: nat where "MIN_EXECUTION_INTERVAL_MS = 2000"
definition COOLDOWN_PER_ASSET_MS :: nat where "COOLDOWN_PER_ASSET_MS = 60000"
definition RATE_LIMIT_BACKOFF_MS :: nat where "RATE_LIMIT_BACKOFF_MS = 5000"

definition new_TradeQueue :: TradeQueue where
  "new_TradeQueue =
     \<lparr>queue = [], pendingSymbols = [], symbolCooldowns = Map.empty, isProcessing = False,
      isThrottled = False, throttleEndsAt = None, lastExecutionTime = None, events = []\<rparr>"

definition set_add :: "'a \<Rightarrow> 'a list \<Rightarrow> 'a list" where
  "set_add x xs = (if x \<in> set xs then xs else xs @ [x])"

definition set_delete :: "'a \<Rightarrow> 'a list \<Rightarrow> 'a list" where
  "set_delete x xs = removeAll x xs"

definition emit :: "queue_event \<Rightarrow> TradeQueue \<Rightarrow> TradeQueue" where
  "emit e q = q\<lparr>events := events q @ [e]\<rparr>"

definition notifyThrottle :: "string \<Rightarrow> TradeQueue \<Rightarrow> TradeQueue" where
  "notifyThrottle message q = emit (Throttle message) q"

definition getStats :: "TradeQueue \<Rightarrow> QueueStats" where
  "getStats q =
     \<lparr>queueSize = length (queue q),
      QueueStats.pendingSymbols = pendingSymbols q,
      QueueStats.isThrottled = isThrottled q,
      QueueStats.throttleEndsAt = throttleEndsAt q,
      QueueStats.lastExecutionTime = lastExecutionTime q\<rparr>"

definition updateStats :: "TradeQueue \<Rightarrow> TradeQueue" where
  "updateStats q = emit (Stats (getStats q)) q"

text \<open>\<open>queue.sort(compare)\<close> is a stable sort; \<open>compare a b \<le> 0\<close> keeps \<open>a\<close> first.\<close>

definition queue_compare :: "QueuedTrade \<Rightarrow> QueuedTrade \<Rightarrow> int" where
  "queue_compare a b =
     (if priority b \<noteq> priority a then priority b - priority a
      else int (addedAt a) - int (addedAt b))"

fun insort_compare :: "QueuedTrade \<Rightarrow> QueuedTrade list \<Rightarrow> QueuedTrade list" where
  "insort_compare x [] = [x]"
| "insort_compare x (y # ys) =
     (if queue_compare x y \<le> 0 then x # y # ys else y # insort_compare x ys)"

definition sort_queue :: "QueuedTrade list \<Rightarrow> QueuedTrade list" where
  "sort_queue xs = foldr insort_compare xs []"

definition contract_type_string :: "contract_type \<Rightarrow> string" where
  "contract_type_string c = (case c of CALL \<Rightarrow> ''CALL'' | PUT \<Rightarrow> ''PUT'')"

text \<open>\<open>Math.ceil(remainingMs / 1000)\<close> on a non-negative integer.\<close>

definition ceil_seconds :: "nat \<Rightarrow> nat" where
  "ceil_seconds remainingMs = (remainingMs + 999) div 1000"

definition addTrade ::
  "nat \<Rightarrow> string \<Rightarrow> contract_type \<Rightarrow> real \<Rightarrow> nat \<Rightarrow> duration_unit \<Rightarrow> int \<Rightarrow> TradeQueue \<Rightarrow> TradeQueue" where
  "addTrade now symb ctype amt dur dunit prio q =
     (let tradeId = symb @ ''_'' @ contract_type_string ctype @ ''_'' @ string_of_nat now;
          trade = \<lparr>id_queued = tradeId, symbol = symb, contractType = ctype, amount = amt,
                   duration = dur, durationUnit = dunit, priority = prio, addedAt = now,
                   status = Pending\<rparr>;
          enqueue = updateStats (q\<lparr>queue := sort_queue (queue q @ [trade]),
                                   pendingSymbols := set_add symb (pendingSymbols q)\<rparr>)
      in if symb \<in> set (pendingSymbols q)
         then emit (Rejected tradeId (failure ''Trade already pending for this symbol''))
                (notifyThrottle (''Signal debounced: '' @ symb @ '' already has pending request'') q)
         else case symbolCooldowns q symb of
                None \<Rightarrow> enqueue
              | Some cooldownEnd \<Rightarrow>
                  if cooldownEnd \<noteq> 0 \<and> now < cooldownEnd
                  then let remainingMs = cooldownEnd - now
                       in emit (Rejected tradeId
                                 (failure (''Asset on cooldown. '' @ string_of_nat (ceil_seconds remainingMs)
                                           @ ''s remaining'')))
                            (notifyThrottle (''Cooldown active: '' @ symb @ '' blocked for ''
                                             @ string_of_nat (ceil_seconds remainingMs) @ ''s'') q)
                  else enqueue)"

text \<open>
  \<open>handleRateLimitError\<close>: announce the throttle, set the backoff window, splice the
  whole queue out and cancel each of its trades, announce the count, publish the
  statistics.
\<close>

definition cancel_trade :: "string \<Rightarrow> TradeQueue \<Rightarrow> QueuedTrade \<Rightarrow> TradeQueue" where
  "cancel_trade message q trade =
     emit (Settled (trade\<lparr>status := Cancelled\<rparr>) (failure message))
       (q\<lparr>pendingSymbols := set_delete (symbol trade) (pendingSymbols q)\<rparr>)"

definition handleRateLimitError :: "nat \<Rightarrow> TradeQueue \<Rightarrow> TradeQueue" where
  "handleRateLimitError now q =
     (let q1 = notifyThrottle ''API THROTTLING: Rate limit detected. Backing off for 5 seconds...'' q;
          q2 = q1\<lparr>isThrottled := True, throttleEndsAt := Some (now + RATE_LIMIT_BACKOFF_MS)\<rparr>;
          cancelledTrades = queue q2;
          q3 = q2\<lparr>queue := []\<rparr>;
          q4 = foldl (cancel_trade ''Trade cancelled due to rate limit backoff'') q3 cancelledTrades;
          q5 = notifyThrottle (''Queue cleared: '' @ string_of_nat (length cancelledTrades)
                               @ '' trades cancelled'') q4
      in updateStats q5)"

definition clearQueue :: "TradeQueue \<Rightarrow> TradeQueue" where
  "clearQueue q =
     (let cancelledTrades = queue q;
          q1 = q\<lparr>queue := []\<rparr>
      in updateStats (foldl (cancel_trade ''Trade cancelled manually'') q1 cancelledTrades))"

text \<open>
  \<open>executeTrade\<close> awaits \<open>derivWS.buyContract\<close>. The call either yields a result
  or throws; a thrown value reaches the \<open>catch\<close> block as its message
  (\<open>error.message\<close> or \<open>String(error)\<close>).
\<close>

datatype buy_outcome = Returned TradeResult | Threw string

text \<open>The test on a returned result that sends \<open>executeTrade\<close> to the rate-limit branch:
  not a success, a non-empty error message, and one of three phrases in its
  lower-cased text.\<close>

definition is_rate_limit_error :: "TradeResult \<Rightarrow> bool" where
  "is_rate_limit_error result =
     (\<not> success result \<and>
      (case error result of
         None \<Rightarrow> False
       | Some e \<Rightarrow> e \<noteq> [] \<and>
           (let errorLower = toLowerCase e
            in str_includes errorLower ''rate limit'' \<or> str_includes errorLower ''too many'' \<or>
               str_includes errorLower ''throttle'')))"

text \<open>\<open>executeTrade\<close> from the point where the awaited call has settled, at time
  \<open>now\<close>, in the state the queue has by then. Before the call the trade was marked
  \<open>executing\<close>.\<close>

definition executeTrade :: "nat \<Rightarrow> QueuedTrade \<Rightarrow> buy_outcome \<Rightarrow> TradeQueue \<Rightarrow> TradeQueue" where
  "executeTrade now trade outcome q =
     (case outcome of
        Returned result \<Rightarrow>
          (let q1 = q\<lparr>lastExecutionTime := Some now\<rparr>
           in if is_rate_limit_error result
              then emit (Settled (trade\<lparr>status := Failed\<rparr>) result) (handleRateLimitError now q1)
              else emit (Settled (trade\<lparr>status := (if success result then Completed else Failed)\<rparr>) result)
                     (q1\<lparr>symbolCooldowns := (symbolCooldowns q1)(symbol trade \<mapsto> now + COOLDOWN_PER_ASSET_MS)\<rparr>))
      | Threw errorMessage \<Rightarrow>
          (let q1 = (if str_includes (toLowerCase errorMessage) ''rate limit''
                     then handleRateLimitError now q else q)
           in emit (Settled (trade\<lparr>status := Failed\<rparr>) (failure errorMessage)) q1))"

text \<open>
  One turn of \<open>processLoop\<close> after its 100 ms sleep, up to the call of
  \<open>executeTrade\<close>: the trade taken from the head of the queue, if the turn takes one.
\<close>

definition processLoop_poll :: "nat \<Rightarrow> TradeQueue \<Rightarrow> QueuedTrade option \<times> TradeQueue" where
  "processLoop_poll now q =
     (if isProcessing q \<or> queue q = [] then (None, q)
      else if isThrottled q \<and> now < (case throttleEndsAt q of None \<Rightarrow> 0 | Some t \<Rightarrow> t) then (None, q)
      else let q1 = (if isThrottled q
                     then updateStats (notifyThrottle ''Throttle ended. Resuming execution...''
                            (q\<lparr>isThrottled := False, throttleEndsAt := None\<rparr>))
                     else q)
           in case lastExecutionTime q1 of
                Some t \<Rightarrow>
                  if t \<noteq> 0 \<and> int now - int t < int MIN_EXECUTION_INTERVAL_MS then (None, q1)
                  else (Some ((hd (queue q1))\<lparr>status := Executing\<rparr>),
                        q1\<lparr>queue := tl (queue q1), isProcessing := True\<rparr>)
              | None \<Rightarrow>
                  (Some ((hd (queue q1))\<lparr>status := Executing\<rparr>),
                   q1\<lparr>queue := tl (queue q1), isProcessing := True\<rparr>))"

text \<open>The \<open>finally\<close> block of that turn.\<close>

definition processLoop_finally :: "QueuedTrade \<Rightarrow> TradeQueue \<Rightarrow> TradeQueue" where
  "processLoop_finally trade q =
     updateStats (q\<lparr>isProcessing := False,
                    pendingSymbols := set_delete (symbol trade) (pendingSymbols q)\<rparr>)"

definition isInCooldown :: "nat \<Rightarrow> string \<Rightarrow> TradeQueue \<Rightarrow> bool" where
  "isInCooldown now symb q =
     (case symbolCooldowns q symb of
        None \<Rightarrow> False
      | Some cooldownEnd \<Rightarrow> cooldownEnd \<noteq> 0 \<and> now < cooldownEnd)"


subsection \<open>A sample run of the queue\<close>

text \<open>Two submissions, for \<open>R_10\<close> at time 1000 with priority 0 and for \<open>R_25\<close> at time
  1001 with priority 5; the turn of the loop at time 1100 takes the \<open>R_25\<close> trade.\<close>

definition q_R10 :: TradeQueue where
  "q_R10 = addTrade 1000 ''R_10'' CALL 1 5 unit_t 0 new_TradeQueue"

definition q_two :: TradeQueue where
  "q_two = addTrade 1001 ''R_25'' PUT 1 5 unit_t 5 q_R10"

definition trade_R25 :: QueuedTrade where
  "trade_R25 = \<lparr>id_queued = ''R_25_PUT_1001'', symbol = ''R_25'', contractType = PUT,
      amount = 1, duration = 5, durationUnit = unit_t, priority = 5,
      addedAt = 1001, status = Executing\<rparr>"

definition trade_R10 :: QueuedTrade where
  "trade_R10 = \<lparr>id_queued = ''R_10_CALL_1000'', symbol = ''R_10'', contractType = CALL,
      amount = 1, duration = 5, durationUnit = unit_t, priority = 0,
      addedAt = 1000, status = Pending\<rparr>"

definition q_polled :: TradeQueue where
  "q_polled = snd (processLoop_poll 1100 q_two)"


section \<open>Venue connection: request handlers (DerivWebSocket)\<close>

text \<open>
  The part of the connection that correlates \<open>buy\<close> and \<open>sell\<close> requests with their
  responses. The only message handlers registered in this repository are the closures
  that \<open>buyContract\<close> and \<open>sellContract\<close> create. A closure is identified by the
  number of the promise it resolves (closures are compared by reference in
  \<open>indexOf\<close>) and carries the \<open>reqId\<close> it captured.
\<close>

datatype message_handler = BuyHandler nat nat | SellHandler nat nat

text \<open>The fields of an inbound message that the handlers read: \<open>data.msg_type\<close>,
  \<open>data.buy\<close>, \<open>data.sell\<close> and \<open>data.error.message\<close>.\<close>

record buy_payload =
  contract_id :: nat
  buy_price :: "real option"

record sell_payload =
  sell_contract_id :: nat
  sold_for :: real
  sell_buy_price :: "real option"

record message =
  msg_type :: "string option"
  buy :: "buy_payload option"
  sell :: "sell_payload option"
  error_message :: "string option"

datatype request =
    BuyRequest nat string contract_type real nat duration_unit string
  | SellRequest nat string real

text \<open>
  \<open>messageHandlers\<close> maps a message type to its array of handlers. \<open>promises\<close> holds
  the result of every promise that has been resolved (a later \<open>resolve\<close> of the same
  promise does nothing). \<open>timeouts\<close> are the pending \<open>setTimeout\<close> callbacks: the
  time they are due, the promise they resolve and the message they resolve it with.
  \<open>calls\<close> is the trace of handler invocations, \<open>sent\<close> the trace of requests
  written to the socket.
\<close>

record DerivWebSocket =
  messageHandlers :: "string \<rightharpoonup> message_handler list"
  promises :: "nat \<rightharpoonup> TradeResult"
  nextPromise :: nat
  timeouts :: "(nat \<times> nat \<times> string) list"
  calls :: "message_handler list"
  socketOpen :: bool
  accountCurrency :: string
  sent :: "request list"

text \<open>A connection whose socket is open, before any request.\<close>

definition new_DerivWebSocket :: DerivWebSocket where
  "new_DerivWebSocket =
     \<lparr>messageHandlers = Map.empty, promises = Map.empty, nextPromise = 0, timeouts = [],
      calls = [], socketOpen = True, accountCurrency = ''USD'', sent = []\<rparr>"

text \<open>\<open>this.messageHandlers.get(msgType) || []\<close>\<close>

definition handlers_of :: "string \<Rightarrow> DerivWebSocket \<Rightarrow> message_handler list" where
  "handlers_of msgType ws = (case messageHandlers ws msgType of None \<Rightarrow> [] | Some hs \<Rightarrow> hs)"

definition onMessage :: "string \<Rightarrow> message_handler \<Rightarrow> DerivWebSocket \<Rightarrow> DerivWebSocket" where
  "onMessage msgType handler ws =
     ws\<lparr>messageHandlers := (messageHandlers ws)(msgType \<mapsto> handlers_of msgType ws @ [handler])\<rparr>"

definition send :: "request \<Rightarrow> DerivWebSocket \<Rightarrow> DerivWebSocket" where
  "send data ws = (if socketOpen ws then ws\<lparr>sent := sent ws @ [data]\<rparr> else ws)"

definition resolve :: "nat \<Rightarrow> TradeResult \<Rightarrow> DerivWebSocket \<Rightarrow> DerivWebSocket" where
  "resolve p result ws =
     (case promises ws p of
        None \<Rightarrow> ws\<lparr>promises := (promises ws)(p \<mapsto> result)\<rparr>
      | Some _ \<Rightarrow> ws)"

text \<open>\<open>buyContract\<close> and \<open>sellContract\<close> up to the return of their promise, whose number
  is the first component of the result.\<close>

definition buyContract ::
  "nat \<Rightarrow> string \<Rightarrow> contract_type \<Rightarrow> real \<Rightarrow> nat \<Rightarrow> duration_unit \<Rightarrow> DerivWebSocket \<Rightarrow> nat \<times> DerivWebSocket" where
  "buyContract now symb ctype amt dur dunit ws =
     (let p = nextPromise ws;
          reqId = now;
          handler = BuyHandler p reqId;
          ws1 = onMessage ''buy'' handler (ws\<lparr>nextPromise := p + 1\<rparr>);
          currency = accountCurrency ws1;
          ws2 = send (BuyRequest reqId symb ctype amt dur dunit currency) ws1
      in (p, ws2\<lparr>timeouts := timeouts ws2 @ [(now + 10000, p, ''Trade execution timeout'')]\<rparr>))"

definition sellContract :: "nat \<Rightarrow> string \<Rightarrow> real \<Rightarrow> DerivWebSocket \<Rightarrow> nat \<times> DerivWebSocket" where
  "sellContract now contract price ws =
     (let p = nextPromise ws;
          reqId = now;
          handler = SellHandler p reqId;
          ws1 = onMessage ''sell'' handler (ws\<lparr>nextPromise := p + 1\<rparr>);
          ws2 = send (SellRequest reqId contract price) ws1
      in (p, ws2\<lparr>timeouts := timeouts ws2 @ [(now + 10000, p, ''Sell contract timeout'')]\<rparr>))"

text \<open>The body of a handler, applied to a message \<open>data\<close>.\<close>

fun invoke :: "message_handler \<Rightarrow> message \<Rightarrow> DerivWebSocket \<Rightarrow> DerivWebSocket" where
  "invoke (BuyHandler p reqId) data ws =
     (let ws0 = ws\<lparr>calls := calls ws @ [BuyHandler p reqId]\<rparr>;
          ws1 = (case buy data of
                   Some b \<Rightarrow>
                     resolve p \<lparr>success = True, contractId = Some (string_of_nat (contract_id b)),
                                buyPrice = buy_price b, error = None, profit = None\<rparr> ws0
                 | None \<Rightarrow>
                     (case error_message data of
                        Some m \<Rightarrow> resolve p (failure m) ws0
                      | None \<Rightarrow> ws0))
      in ws1\<lparr>messageHandlers := (messageHandlers ws1)(''buy_'' @ string_of_nat reqId := None)\<rparr>)"
| "invoke (SellHandler p reqId) data ws =
     (let ws0 = ws\<lparr>calls := calls ws @ [SellHandler p reqId]\<rparr>;
          ws1 = (case sell data of
                   Some s \<Rightarrow>
                     resolve p \<lparr>success = True, contractId = Some (string_of_nat (sell_contract_id s)),
                                buyPrice = None, error = None,
                                profit = Some (sold_for s - (case sell_buy_price s of None \<Rightarrow> 0 | Some b \<Rightarrow> b))\<rparr> ws0
                 | None \<Rightarrow>
                     (case error_message data of
                        Some m \<Rightarrow> resolve p (failure m) ws0
                      | None \<Rightarrow> ws0))
      in case messageHandlers ws1 ''sell'' of
           None \<Rightarrow> ws1
         | Some handlers \<Rightarrow>
             ws1\<lparr>messageHandlers := (messageHandlers ws1)(''sell'' \<mapsto> remove1 (SellHandler p reqId) handlers)\<rparr>)"

text \<open>
  \<open>handlers.forEach(handler => handler(data))\<close> on the array stored under \<open>key\<close>:
  \<open>forEach\<close> fixes the number of indices it visits when it starts, visits them in
  order and skips an index that the array no longer has; the array is the live one,
  so a handler that splices itself out moves its successors one place down.
\<close>

fun forEach_handlers :: "string \<Rightarrow> message \<Rightarrow> nat \<Rightarrow> nat \<Rightarrow> DerivWebSocket \<Rightarrow> DerivWebSocket" where
  "forEach_handlers key data k 0 ws = ws"
| "forEach_handlers key data k (Suc n) ws =
     forEach_handlers key data (Suc k) n
       (if k < length (handlers_of key ws) then invoke (handlers_of key ws ! k) data ws else ws)"

text \<open>The end of \<open>handleMessage\<close> ("Call message handlers"). The earlier parts of the
  function record the account, call tick and contract handlers and log errors; they
  do not touch \<open>messageHandlers\<close>.\<close>

definition handleMessage :: "message \<Rightarrow> DerivWebSocket \<Rightarrow> DerivWebSocket" where
  "handleMessage data ws =
     (case msg_type data of
        None \<Rightarrow> ws
      | Some msgType \<Rightarrow>
          if msgType = [] then ws
          else let ws1 = forEach_handlers msgType data 0 (length (handlers_of msgType ws)) ws
               in forEach_handlers ''*'' data 0 (length (handlers_of ''*'' ws1)) ws1)"

text \<open>A pending \<open>setTimeout\<close> callback of \<open>buyContract\<close> or \<open>sellContract\<close> runs: it
  resolves its promise with a failure and does nothing else.\<close>

definition timeout_fires :: "nat \<times> nat \<times> string \<Rightarrow> DerivWebSocket \<Rightarrow> DerivWebSocket" where
  "timeout_fires t ws =
     (case t of (due, p, message) \<Rightarrow>
        resolve p (failure message) (ws\<lparr>timeouts := remove1 t (timeouts ws)\<rparr>))"

subsection \<open>A sample exchange\<close>

definition buy_response :: "nat \<Rightarrow> message" where
  "buy_response c =
     \<lparr>msg_type = Some ''buy'', buy = Some \<lparr>contract_id = c, buy_price = Some 1\<rparr>,
      sell = None, error_message = None\<rparr>"

text \<open>A first order at time 1000 and the venue's answer to it, then a second order at
  time 2000 and its answer.\<close>

definition ws_first_call :: DerivWebSocket where
  "ws_first_call = snd (buyContract 1000 ''R_10'' CALL 1 5 unit_t new_DerivWebSocket)"

definition ws_first_done :: DerivWebSocket where
  "ws_first_done = handleMessage (buy_response 77) ws_first_call"

definition ws_second_call :: DerivWebSocket where
  "ws_second_call = snd (buyContract 2000 ''R_10'' CALL 1 5 unit_t ws_first_done)"

definition ws_second_done :: DerivWebSocket where
  "ws_second_done = handleMessage (buy_response 78) ws_second_call"

text \<open>A sale at time 1000 that the venue never answers.\<close>

definition ws_sell_call :: DerivWebSocket where
  "ws_sell_call = snd (sellContract 1000 ''77'' 0 new_DerivWebSocket)"

definition ws_sell_timed_out :: DerivWebSocket where
  "ws_sell_timed_out = timeout_fires (11000, 0, ''Sell contract timeout'') ws_sell_call"


section \<open>Signal engine (TradingEngine)\<close>

text \<open>
  The methods \<open>executeTrade\<close> and \<open>updateStats\<close> of the engine carry the prefix
  \<open>engine_\<close>, since the queue has methods of the same names.
\<close>

subsection \<open>Configuration (DERIV_CONFIG)\<close>

definition SYMBOLS :: "string list" where
  "SYMBOLS = [''R_10'', ''R_25'', ''R_50'', ''R_75'', ''R_100'', ''1HZ100V'']"

definition DEFAULT_STAKE :: real where "DEFAULT_STAKE = 1"
definition MAX_STAKE :: real where "MAX_STAKE = 100"
definition MIN_PROBABILITY :: real where "MIN_PROBABILITY = 75 / 100"
definition WIN_RATE_FLOOR :: real where "WIN_RATE_FLOOR = 65 / 100"
definition CALIBRATION_PAUSE_MS :: nat where "CALIBRATION_PAUSE_MS = 60000"
definition RSI_OVERBOUGHT :: real where "RSI_OVERBOUGHT = 70"
definition RSI_OVERSOLD :: real where "RSI_OVERSOLD = 30"
definition ADX_TREND_THRESHOLD :: real where "ADX_TREND_THRESHOLD = 25"
definition HISTORY_SIZE :: nat where "HISTORY_SIZE = 100"

subsection \<open>Double-precision arithmetic\<close>

text \<open>
  \<open>calculateTradeProbability\<close> adds decimal constants to two scores and compares the
  sums, and \<open>closeTrade\<close> adds \<open>0.02\<close> to a stored adjustment. Which score is ahead,
  and which number an adjustment is, depends on the rounding of these sums
  (\<open>0.2 + 0.15 + 0.1\<close> is \<open>0.44999999999999996\<close>, below \<open>0.25 + 0.2\<close>). The arithmetic
  of the scoring and of the adjustment is therefore modelled as the source performs it,
  in IEEE 754 binary64 with rounding to nearest, ties to even: an operation returns the
  double nearest to the exact result, and a decimal literal \<open>d\<close> denotes the double
  nearest to \<open>d\<close>.

  \<open>round64 x\<close> is the double nearest to \<open>x\<close>, for \<open>x\<close> in the range of the normal doubles
  (a magnitude from \<open>2 ^ -1022\<close> up to, but excluding, \<open>2 ^ 1024\<close>): with \<open>k\<close> the largest
  integer such that \<open>2 ^ k \<le> \<bar>x\<bar>\<close>, the significand \<open>\<bar>x\<bar> / 2 ^ (k - 52)\<close> lies between
  \<open>2 ^ 52\<close> and \<open>2 ^ 53\<close> and is rounded to an integer, to the even one of two equally
  near. Subnormal results, overflow and the non-finite values are left out; the scores
  and adjustments of the engine are far from them.
\<close>

definition round_half_even :: "real \<Rightarrow> int" where
  "round_half_even x =
     (let f = \<lfloor>x\<rfloor>; d = x - of_int f
      in if d < 1 / 2 then f else if 1 / 2 < d then f + 1 else if even f then f else f + 1)"

definition round64 :: "real \<Rightarrow> real" where
  "round64 x =
     (if x = 0 then 0
      else let e = \<lfloor>log 2 \<bar>x\<bar>\<rfloor> - 52; ulp = 2 powr (of_int e)
           in sgn x * of_int (round_half_even (\<bar>x\<bar> / ulp)) * ulp)"

text \<open>The operations \<open>x + y\<close>, \<open>x - y\<close> and \<open>x / y\<close> on doubles (the last for \<open>y \<noteq> 0\<close>).\<close>

definition fadd :: "real \<Rightarrow> real \<Rightarrow> real" where
  "fadd x y = round64 (x + y)"

definition fsub :: "real \<Rightarrow> real \<Rightarrow> real" where
  "fsub x y = round64 (x - y)"

definition fdiv :: "real \<Rightarrow> real \<Rightarrow> real" where
  "fdiv x y = round64 (x / y)"

subsection \<open>Data\<close>

datatype direction = LONG | SHORT

datatype trade_status = trade_open | trade_closed | trade_pending

datatype trade_result = win | loss

datatype log_type = LogInfo | LogSignal | LogTrade | LogWarning | LogError | LogAi

record TickUpdate =
  symbol :: string
  quote :: real
  epoch :: nat

text \<open>A signal without its \<open>reasoning\<close> text, which formats numbers with \<open>toFixed\<close> and
  plays no part in any decision.\<close>

record TradeSignal =
  symbol :: string
  direction :: direction
  probability :: real
  indicators :: IndicatorResult
  timestamp :: nat

record Trade =
  id_trade :: string
  symbol :: string
  direction :: direction
  entryPrice :: real
  currentPrice :: real
  stake :: real
  profit :: real
  status :: trade_status
  openTime :: nat
  closeTime :: "nat option"
  result :: "trade_result option"

record TradingStats =
  totalTrades :: nat
  wins :: nat
  losses :: nat
  winRate :: real
  totalProfit :: real
  activeTradesCount :: nat
  isPaused :: bool
  pauseReason :: "string option"

text \<open>
  What the engine hands to its observers and to the venue connection, in order: a log
  entry (its type and symbol; the message text is left out), a copy of the statistics,
  a signal, a trade as it is when the trade handlers are called, and a call of
  \<open>derivWS.buyContract\<close> for the trade object with the given reference.
\<close>

datatype engine_event =
    Log log_type "string option"
  | StatsEvent TradingStats
  | SignalEvent TradeSignal
  | TradeEvent Trade
  | BuyCall nat string contract_type real nat duration_unit

text \<open>
  A \<open>Trade\<close> is a mutable object that the map of active trades, the journal and the
  continuation of \<open>executeTrade\<close> share: \<open>objects\<close> holds every trade object created,
  and a reference is its index there. \<open>activeTrades\<close> is the \<open>Map\<close> from trade id to
  object, in insertion order. \<open>timers\<close> holds the due times of the pending callbacks
  that end a calibration pause.
\<close>

record TradingEngine =
  priceHistory :: "string \<rightharpoonup> real list"
  objects :: "Trade list"
  activeTrades :: "(string \<times> nat) list"
  tradeJournal :: "nat list"
  stats :: TradingStats
  isRunning :: bool
  stake :: real
  symbolAdjustments :: "string \<rightharpoonup> real"
  timers :: "nat list"
  out :: "engine_event list"

text \<open>The constructor, and \<open>start()\<close> and \<open>stop()\<close>. Their calls to the venue
  connection (subscriptions, the registration of the tick handler) change nothing in
  the engine and are left out.\<close>

definition new_TradingEngine :: TradingEngine where
  "new_TradingEngine =
     \<lparr>priceHistory = map_of (map (\<lambda>s. (s, [])) SYMBOLS),
      objects = [], activeTrades = [], tradeJournal = [],
      stats = \<lparr>totalTrades = 0, wins = 0, losses = 0, winRate = 0, totalProfit = 0,
               activeTradesCount = 0, isPaused = False, pauseReason = None\<rparr>,
      isRunning = False, stake = DEFAULT_STAKE, symbolAdjustments = Map.empty,
      timers = [], out = []\<rparr>"

definition log :: "log_type \<Rightarrow> string option \<Rightarrow> TradingEngine \<Rightarrow> TradingEngine" where
  "log type symb e = e\<lparr>out := out e @ [Log type symb]\<rparr>"

definition start :: "TradingEngine \<Rightarrow> TradingEngine" where
  "start e =
     (if isRunning e then e
      else foldl (\<lambda>e s. log LogInfo (Some s) e) (log LogInfo None (e\<lparr>isRunning := True\<rparr>)) SYMBOLS)"

definition stop :: "TradingEngine \<Rightarrow> TradingEngine" where
  "stop e = (if \<not> isRunning e then e else log LogInfo None (e\<lparr>isRunning := False\<rparr>))"

definition engine_updateStats :: "TradingEngine \<Rightarrow> TradingEngine" where
  "engine_updateStats e =
     (let s = (stats e)\<lparr>activeTradesCount := length (activeTrades e)\<rparr>
      in e\<lparr>stats := s, out := out e @ [StatsEvent s]\<rparr>)"

subsection \<open>Tick handling\<close>

definition direction_sign :: "direction \<Rightarrow> real" where
  "direction_sign d = (case d of LONG \<Rightarrow> 1 | SHORT \<Rightarrow> -1)"

text \<open>The body of the \<open>forEach\<close> in \<open>updateActiveTrades\<close>, for one entry of the map.\<close>

definition update_trade :: "TickUpdate \<Rightarrow> TradingEngine \<Rightarrow> string \<times> nat \<Rightarrow> TradingEngine" where
  "update_trade tick e entry =
     (let r = snd entry; trade = objects e ! r
      in if Trade.symbol trade = TickUpdate.symbol tick \<and> status trade = trade_open
         then let priceDiff = quote tick - entryPrice trade;
                  trade' = trade\<lparr>currentPrice := quote tick,
                                 profit := priceDiff * direction_sign (Trade.direction trade) * 100\<rparr>
              in e\<lparr>objects := (objects e)[r := trade'], out := out e @ [TradeEvent trade']\<rparr>
         else e)"

definition updateActiveTrades :: "TickUpdate \<Rightarrow> TradingEngine \<Rightarrow> TradingEngine" where
  "updateActiveTrades tick e = engine_updateStats (foldl (update_trade tick) e (activeTrades e))"

text \<open>What \<open>updateActiveTrades\<close> does to one trade object.\<close>

definition mark_to_market :: "TickUpdate \<Rightarrow> Trade \<Rightarrow> Trade" where
  "mark_to_market tick trade =
     (if Trade.symbol trade = TickUpdate.symbol tick \<and> status trade = trade_open
      then trade\<lparr>currentPrice := quote tick,
                 profit := (quote tick - entryPrice trade) * direction_sign (Trade.direction trade) * 100\<rparr>
      else trade)"

subsection \<open>Scoring\<close>

text \<open>
  \<open>calculateTradeProbability\<close>, without the texts it collects. Each rule maps the pair
  \<open>(longScore, shortScore)\<close> to its new value. The arithmetic is in double precision:
  \<open>longScore += 0.25\<close> is \<open>fadd longScore (round64 (25 / 100))\<close>. The indicator values
  and the price are the numbers the function is given.
\<close>

definition score_rsi :: "IndicatorResult \<Rightarrow> real \<times> real \<Rightarrow> real \<times> real" where
  "score_rsi ind sc =
     (case sc of (longScore, shortScore) \<Rightarrow>
      case rsi ind of
        None \<Rightarrow> sc
      | Some r \<Rightarrow>
          if r < RSI_OVERSOLD then (fadd longScore (round64 (25 / 100)), shortScore)
          else if r > RSI_OVERBOUGHT then (longScore, fadd shortScore (round64 (25 / 100)))
          else if r > 50 then (fadd longScore (round64 (1 / 10)), shortScore)
          else (longScore, fadd shortScore (round64 (1 / 10))))"

text \<open>A comparison with \<open>NaN\<close> is false.\<close>

definition score_adx :: "IndicatorResult \<Rightarrow> real \<times> real \<Rightarrow> real \<times> real" where
  "score_adx ind sc =
     (case sc of (longScore, shortScore) \<Rightarrow>
      case adx ind of
        Some (Num a) \<Rightarrow>
          if a > ADX_TREND_THRESHOLD
          then let trendBonus = min (round64 (2 / 10)) (fdiv (fsub a 25) 100)
               in if longScore > shortScore then (fadd longScore trendBonus, shortScore)
                  else (longScore, fadd shortScore trendBonus)
          else sc
      | _ \<Rightarrow> sc)"

text \<open>
  \<open>position = (price - lower) / bandwidth\<close>. A zero bandwidth makes the quotient
  \<open>Infinity\<close>, \<open>-Infinity\<close> or (for \<open>0 / 0\<close>) \<open>NaN\<close>; the two comparisons are then
  decided by the sign of the numerator, and both fail for \<open>NaN\<close>. The difference of two
  doubles is zero only if they are equal.
\<close>

definition score_bollinger :: "real \<Rightarrow> IndicatorResult \<Rightarrow> real \<times> real \<Rightarrow> real \<times> real" where
  "score_bollinger price ind sc =
     (case sc of (longScore, shortScore) \<Rightarrow>
      case (bollingerUpper ind, bollingerLower ind) of
        (Some u, Some l) \<Rightarrow>
          (let bandwidth = fsub u l;
               numerator = fsub price l
           in if bandwidth = 0
              then (if numerator < 0 then (fadd longScore (round64 (2 / 10)), shortScore)
                    else if numerator > 0 then (longScore, fadd shortScore (round64 (2 / 10)))
                    else sc)
              else let position = fdiv numerator bandwidth
                   in if position < round64 (1 / 10)
                      then (fadd longScore (round64 (2 / 10)), shortScore)
                      else if position > round64 (9 / 10)
                      then (longScore, fadd shortScore (round64 (2 / 10)))
                      else sc)
      | _ \<Rightarrow> sc)"

definition score_macd :: "IndicatorResult \<Rightarrow> real \<times> real \<Rightarrow> real \<times> real" where
  "score_macd ind sc =
     (case sc of (longScore, shortScore) \<Rightarrow>
      case macd_snapshot ind of
        None \<Rightarrow> sc
      | Some m \<Rightarrow>
          if histogram m > 0 \<and> macd m > signal m
          then (fadd longScore (round64 (15 / 100)), shortScore)
          else if histogram m < 0 \<and> macd m < signal m
          then (longScore, fadd shortScore (round64 (15 / 100)))
          else sc)"

definition score_averages :: "real \<Rightarrow> IndicatorResult \<Rightarrow> real \<times> real \<Rightarrow> real \<times> real" where
  "score_averages price ind sc =
     (case sc of (longScore, shortScore) \<Rightarrow>
      case (sma ind, ema ind) of
        (Some s, Some e) \<Rightarrow>
          if price > s \<and> e > s then (fadd longScore (round64 (1 / 10)), shortScore)
          else if price < s \<and> e < s then (longScore, fadd shortScore (round64 (1 / 10)))
          else sc
      | _ \<Rightarrow> sc)"

definition calculateTradeProbability :: "string \<Rightarrow> real \<Rightarrow> IndicatorResult \<Rightarrow> real \<times> direction" where
  "calculateTradeProbability symb price ind =
     (case score_averages price ind (score_macd ind (score_bollinger price ind
             (score_adx ind (score_rsi ind (0, 0))))) of
        (longScore, shortScore) \<Rightarrow>
          (let dir = (if longScore \<ge> shortScore then LONG else SHORT);
               maxScore = max longScore shortScore
           in (min (round64 (95 / 100)) (fadd maxScore (round64 (4 / 10))), dir)))"

subsection \<open>Signals and orders\<close>

definition direction_string :: "direction \<Rightarrow> string" where
  "direction_string d = (case d of LONG \<Rightarrow> ''LONG'' | SHORT \<Rightarrow> ''SHORT'')"

text \<open>\<open>executeTrade\<close> up to its \<open>await\<close>: a pending trade object is created and stored
  under the id \<open>`${symbol}_${direction}_${Date.now()}`\<close>, and the order is handed to the
  venue connection.\<close>

definition engine_executeTrade :: "nat \<Rightarrow> TradeSignal \<Rightarrow> TradingEngine \<Rightarrow> TradingEngine" where
  "engine_executeTrade now sig e =
     (let tradeId = TradeSignal.symbol sig @ ''_'' @ direction_string (TradeSignal.direction sig)
                    @ ''_'' @ string_of_nat now;
          trade = \<lparr>id_trade = tradeId, symbol = TradeSignal.symbol sig,
                   direction = TradeSignal.direction sig, entryPrice = 0, currentPrice = 0,
                   stake = stake e, profit = 0, status = trade_pending, openTime = now,
                   closeTime = None, result = None\<rparr>;
          r = length (objects e);
          e1 = e\<lparr>objects := objects e @ [trade],
                 activeTrades := AList.update tradeId r (activeTrades e)\<rparr>;
          e2 = log LogTrade (Some (TradeSignal.symbol sig)) e1;
          contractType = (if TradeSignal.direction sig = LONG then CALL else PUT)
      in e2\<lparr>out := out e2 @ [BuyCall r (TradeSignal.symbol sig) contractType (stake e) 5 unit_t]\<rparr>)"

text \<open>\<open>executeTrade\<close> after the \<open>await\<close>, for the trade object \<open>r\<close> it created.
  \<open>priceHistory.get(symbol)?.slice(-1)[0] || 0\<close> is the last price, or 0.\<close>

definition last_price :: "string \<Rightarrow> TradingEngine \<Rightarrow> real" where
  "last_price symb e =
     (case priceHistory e symb of
        None \<Rightarrow> 0
      | Some h \<Rightarrow> if h = [] then 0 else last h)"

definition engine_executeTrade_settled :: "nat \<Rightarrow> buy_outcome \<Rightarrow> TradingEngine \<Rightarrow> TradingEngine" where
  "engine_executeTrade_settled r outcome e =
     (let trade = objects e ! r;
          opened = (case outcome of Returned res \<Rightarrow> success res | Threw _ \<Rightarrow> False)
      in engine_updateStats
           (if opened
            then log LogTrade (Some (Trade.symbol trade))
                   (e\<lparr>objects := (objects e)[r := trade\<lparr>status := trade_open,
                                     entryPrice := last_price (Trade.symbol trade) e\<rparr>]\<rparr>)
            else log LogError (Some (Trade.symbol trade))
                   (e\<lparr>objects := (objects e)[r := trade\<lparr>status := trade_closed\<rparr>],
                      activeTrades := AList.delete (id_trade trade) (activeTrades e)\<rparr>)))"

definition clamp01 :: "real \<Rightarrow> real" where
  "clamp01 x = max 0 (min 1 x)"

text \<open>\<open>this.symbolAdjustments.get(symbol) || 0\<close>\<close>

definition adjustment_of :: "string \<Rightarrow> TradingEngine \<Rightarrow> real" where
  "adjustment_of symb e = (case symbolAdjustments e symb of None \<Rightarrow> 0 | Some a \<Rightarrow> a)"

definition analyzeSymbol :: "nat \<Rightarrow> string \<Rightarrow> real \<Rightarrow> TradingEngine \<Rightarrow> TradingEngine" where
  "analyzeSymbol now symb price e =
     (if isPaused (stats e) then e
      else let history = (case priceHistory e symb of None \<Rightarrow> [] | Some h \<Rightarrow> h);
               ind = calculateAllIndicators history None None;
               (prob, dir) = calculateTradeProbability symb price ind;
               adjustment = adjustment_of symb e;
               adjustedProbability = clamp01 (fsub prob adjustment)
           in if adjustedProbability \<ge> MIN_PROBABILITY
              then let sig = \<lparr>TradeSignal.symbol = symb, TradeSignal.direction = dir,
                               probability = adjustedProbability, indicators = ind,
                               timestamp = now\<rparr>;
                       e1 = log LogSignal (Some symb) e;
                       e2 = e1\<lparr>out := out e1 @ [SignalEvent sig]\<rparr>
                   in if map_of (activeTrades e2) (symb @ ''_'' @ direction_string dir) = None
                      then engine_executeTrade now sig e2
                      else e2
              else e)"

definition handleTick :: "nat \<Rightarrow> TickUpdate \<Rightarrow> TradingEngine \<Rightarrow> TradingEngine" where
  "handleTick now tick e =
     (if \<not> isRunning e then e
      else let pushed = (case priceHistory e (TickUpdate.symbol tick) of None \<Rightarrow> [] | Some h \<Rightarrow> h)
                          @ [quote tick];
               history = (if length pushed > HISTORY_SIZE then tl pushed else pushed);
               e1 = e\<lparr>priceHistory := (priceHistory e)(TickUpdate.symbol tick \<mapsto> history)\<rparr>;
               e2 = updateActiveTrades tick e1
           in if length history \<ge> 30
              then analyzeSymbol now (TickUpdate.symbol tick) (quote tick) e2
              else e2)"

subsection \<open>Outcome recording and calibration\<close>

definition pauseForCalibration :: "nat \<Rightarrow> TradingEngine \<Rightarrow> TradingEngine" where
  "pauseForCalibration now e =
     (let e1 = e\<lparr>stats := (stats e)\<lparr>isPaused := True,
                   pauseReason := Some ''Market Calibration - Win rate below threshold''\<rparr>\<rparr>;
          e2 = log LogWarning None e1;
          e3 = e2\<lparr>symbolAdjustments := Map.empty\<rparr>;
          e4 = e3\<lparr>timers := timers e3 @ [now + CALIBRATION_PAUSE_MS]\<rparr>
      in engine_updateStats e4)"

text \<open>The callback that \<open>pauseForCalibration\<close> passed to \<open>setTimeout\<close>, running when
  the timer due at \<open>due\<close> expires.\<close>

definition calibration_timer_fires :: "nat \<Rightarrow> TradingEngine \<Rightarrow> TradingEngine" where
  "calibration_timer_fires due e =
     (let e1 = e\<lparr>timers := remove1 due (timers e),
                 stats := (stats e)\<lparr>isPaused := False, pauseReason := None\<rparr>\<rparr>
      in engine_updateStats (log LogInfo None e1))"

definition closeTrade :: "nat \<Rightarrow> string \<Rightarrow> trade_result \<Rightarrow> real \<Rightarrow> TradingEngine \<Rightarrow> TradingEngine" where
  "closeTrade now tradeId res pl e =
     (case map_of (activeTrades e) tradeId of
        None \<Rightarrow> e
      | Some r \<Rightarrow>
          (let trade = (objects e ! r)\<lparr>status := trade_closed, closeTime := Some now,
                                      result := Some res, profit := pl\<rparr>;
               e1 = e\<lparr>objects := (objects e)[r := trade],
                      tradeJournal := tradeJournal e @ [r],
                      activeTrades := AList.delete tradeId (activeTrades e)\<rparr>;
               e2 = e1\<lparr>stats := (stats e1)\<lparr>totalTrades := totalTrades (stats e1) + 1\<rparr>\<rparr>;
               e3 = (case res of
                       win \<Rightarrow>
                         log LogTrade (Some (Trade.symbol trade))
                           (e2\<lparr>stats := (stats e2)\<lparr>wins := wins (stats e2) + 1\<rparr>\<rparr>)
                     | loss \<Rightarrow>
                         (let e' = log LogTrade (Some (Trade.symbol trade))
                                     (e2\<lparr>stats := (stats e2)\<lparr>losses := losses (stats e2) + 1\<rparr>\<rparr>);
                              currentAdj = adjustment_of (Trade.symbol trade) e'
                          in log LogAi (Some (Trade.symbol trade))
                               (e'\<lparr>symbolAdjustments :=
                                     (symbolAdjustments e')(Trade.symbol trade \<mapsto>
                                        fadd currentAdj (round64 (2 / 100)))\<rparr>)));
               s3 = stats e3;
               s4 = s3\<lparr>totalProfit := totalProfit s3 + pl,
                        winRate := (if totalTrades s3 > 0
                                    then real (wins s3) / real (totalTrades s3) else 0)\<rparr>;
               e4 = e3\<lparr>stats := s4\<rparr>;
               e5 = (if totalTrades s4 \<ge> 10 \<and> winRate s4 < WIN_RATE_FLOOR
                     then pauseForCalibration now e4 else e4)
           in engine_updateStats e5))"

definition setStake :: "real \<Rightarrow> TradingEngine \<Rightarrow> TradingEngine" where
  "setStake s e = log LogInfo None (e\<lparr>stake := max DEFAULT_STAKE (min MAX_STAKE s)\<rparr>)"

text \<open>\<open>getActiveTrades()\<close>: the trade objects of the map, in its order.\<close>

definition getActiveTrades :: "TradingEngine \<Rightarrow> Trade list" where
  "getActiveTrades e = map (\<lambda>entry. objects e ! snd entry) (activeTrades e)"


subsection \<open>The engine as a transition system\<close>

text \<open>
  Everything that changes the engine: its public methods, a tick from the connection,
  the settlement of an awaited order and the expiry of a calibration timer.
\<close>

datatype engine_input =
    Start
  | Stop
  | Tick nat TickUpdate
  | BuySettled nat buy_outcome
  | CloseTrade nat string trade_result real
  | TimerFires nat
  | SetStake real

fun engine_step :: "engine_input \<Rightarrow> TradingEngine \<Rightarrow> TradingEngine" where
  "engine_step Start e = start e"
| "engine_step Stop e = stop e"
| "engine_step (Tick now tick) e = handleTick now tick e"
| "engine_step (BuySettled r outcome) e = engine_executeTrade_settled r outcome e"
| "engine_step (CloseTrade now tradeId res pl) e = closeTrade now tradeId res pl e"
| "engine_step (TimerFires due) e = calibration_timer_fires due e"
| "engine_step (SetStake s) e = setStake s e"

text \<open>A calibration pause begins in a step when the step schedules a new resume timer;
  a loss is recorded on a symbol when \<open>closeTrade\<close> finds the trade, the trade is on
  that symbol and the outcome is a loss.\<close>

definition pause_begins :: "engine_input \<Rightarrow> TradingEngine \<Rightarrow> bool" where
  "pause_begins i e = (length (timers e) < length (timers (engine_step i e)))"

definition recorded_loss :: "string \<Rightarrow> engine_input \<Rightarrow> TradingEngine \<Rightarrow> bool" where
  "recorded_loss symb i e =
     (case i of
        CloseTrade now tradeId res pl \<Rightarrow>
          res = loss \<and>
          (case map_of (activeTrades e) tradeId of
             None \<Rightarrow> False
           | Some r \<Rightarrow> Trade.symbol (objects e ! r) = symb)
      | _ \<Rightarrow> False)"

text \<open>A run of the engine that counts, beside the state, the losses recorded on a symbol
  since the last pause began.\<close>

fun run_counting :: "string \<Rightarrow> engine_input list \<Rightarrow> TradingEngine \<times> nat \<Rightarrow> TradingEngine \<times> nat" where
  "run_counting symb [] st = st"
| "run_counting symb (i # inputs) st =
     run_counting symb inputs
       (engine_step i (fst st),
        if pause_begins i (fst st) then 0
        else if recorded_loss symb i (fst st) then Suc (snd st) else snd st)"

text \<open>The adjustment after \<open>n\<close> losses in a row on a symbol: \<open>0.02\<close> added \<open>n\<close> times to
  zero, each sum rounded as \<open>closeTrade\<close> rounds it.\<close>

fun repeated_increment :: "nat \<Rightarrow> real" where
  "repeated_increment 0 = 0"
| "repeated_increment (Suc n) = fadd (repeated_increment n) (round64 (2 / 100))"

text \<open>The inputs that are a call of \<open>closeTrade\<close>.\<close>

fun closes_trade :: "engine_input \<Rightarrow> bool" where
  "closes_trade (CloseTrade _ _ _ _) = True"
| "closes_trade _ = False"

text \<open>The events that are a signal or an order.\<close>

fun is_signal_or_order :: "engine_event \<Rightarrow> bool" where
  "is_signal_or_order (SignalEvent _) = True"
| "is_signal_or_order (BuyCall _ _ _ _ _ _) = True"
| "is_signal_or_order _ = False"

text \<open>The test of \<open>closeTrade\<close> on the updated statistics.\<close>

definition pause_triggered :: "TradingStats \<Rightarrow> bool" where
  "pause_triggered s = (10 \<le> totalTrades s \<and> winRate s < WIN_RATE_FLOOR)"

text \<open>The statistics after a trade found in the map has been closed.\<close>

definition closed_stats :: "trade_result \<Rightarrow> real \<Rightarrow> TradingStats \<Rightarrow> TradingStats" where
  "closed_stats res pl s =
     s\<lparr>totalTrades := totalTrades s + 1,
       wins := (if res = win then wins s + 1 else wins s),
       losses := (if res = loss then losses s + 1 else losses s),
       totalProfit := totalProfit s + pl,
       winRate := real (if res = win then wins s + 1 else wins s) / real (totalTrades s + 1)\<rparr>"


text \<open>Every key of the map of active trades ends in a decimal digit, as the trade ids
  made by \<open>executeTrade\<close> do.\<close>

definition dated_keys :: "TradingEngine \<Rightarrow> bool" where
  "dated_keys e = (\<forall>k \<in> fst ` set (activeTrades e). k \<noteq> [] \<and> last k \<in> set ''0123456789'')"

text \<open>Every reference in the map of active trades denotes a trade object.\<close>

definition valid_refs :: "TradingEngine \<Rightarrow> bool" where
  "valid_refs e = (\<forall>r \<in> snd ` set (activeTrades e). r < length (objects e))"

text \<open>A run of the engine on a sequence of inputs.\<close>

fun run_engine :: "engine_input list \<Rightarrow> TradingEngine \<Rightarrow> TradingEngine" where
  "run_engine [] e = e"
| "run_engine (i # inputs) e = run_engine inputs (engine_step i e)"


subsection \<open>A sample run of the engine\<close>

text \<open>
  The started engine receives ticks for \<open>R_10\<close>: a quote of 101 followed by quotes of
  100. After 29 ticks the history is \<open>hist29\<close>; the tick at time 2000 brings it to 30
  prices, the first analysis runs and places an order, which the venue confirms; the
  tick at time 3000 brings the second analysis, and the ticks at times 4000, 5000, 6000
  and 7000 four more.
\<close>

definition tick_R10 :: "real \<Rightarrow> TickUpdate" where
  "tick_R10 q = \<lparr>TickUpdate.symbol = ''R_10'', quote = q, epoch = 0\<rparr>"

definition feed :: "nat \<Rightarrow> real list \<Rightarrow> TradingEngine \<Rightarrow> TradingEngine" where
  "feed now qs e = foldl (\<lambda>e q. handleTick now (tick_R10 q) e) e qs"

definition hist29 :: "real list" where "hist29 = 101 # replicate 28 100"
definition hist30 :: "real list" where "hist30 = 101 # replicate 29 100"
definition hist31 :: "real list" where "hist31 = 101 # replicate 30 100"
definition hist32 :: "real list" where "hist32 = 101 # replicate 31 100"
definition hist33 :: "real list" where "hist33 = 101 # replicate 32 100"
definition hist34 :: "real list" where "hist34 = 101 # replicate 33 100"
definition hist35 :: "real list" where "hist35 = 101 # replicate 34 100"

definition engine_warm :: TradingEngine where
  "engine_warm = feed 1000 hist29 (start new_TradingEngine)"

definition engine_first :: TradingEngine where
  "engine_first = handleTick 2000 (tick_R10 100) engine_warm"

definition bought :: TradeResult where
  "bought = \<lparr>success = True, contractId = Some ''77'', buyPrice = Some 1, error = None, TradeResult.profit = None\<rparr>"

definition engine_first_open :: TradingEngine where
  "engine_first_open = engine_executeTrade_settled 0 (Returned bought) engine_first"

definition engine_second :: TradingEngine where
  "engine_second = handleTick 3000 (tick_R10 100) engine_first_open"

definition engine_third :: TradingEngine where
  "engine_third = handleTick 4000 (tick_R10 100) engine_second"

definition engine_fourth :: TradingEngine where
  "engine_fourth = handleTick 5000 (tick_R10 100) engine_third"

definition engine_fifth :: TradingEngine where
  "engine_fifth = handleTick 6000 (tick_R10 100) engine_fourth"

definition engine_sixth :: TradingEngine where
  "engine_sixth = handleTick 7000 (tick_R10 100) engine_fifth"


text \<open>The state of the sample run after the confirmation, with nine earlier trades on
  record, six of them won; and the closing of the first position of the sample run at
  a loss.\<close>

definition engine_nine :: TradingEngine where
  "engine_nine = engine_first_open\<lparr>stats := (stats engine_first_open)
       \<lparr>totalTrades := 9, wins := 6, losses := 3, winRate := 6 / 9\<rparr>\<rparr>"

definition close_first :: engine_input where
  "close_first = CloseTrade 5000 ''R_10_LONG_2000'' loss (- 1)"

text \<open>
  The sample run as a sequence of inputs to a new engine, up to its sixth order; then
  \<open>closeTrade\<close> is called for the six positions in turn, each with a loss of 1.
\<close>

definition opening_run :: "engine_input list" where
  "opening_run =
     Start # map (\<lambda>q. Tick 1000 (tick_R10 q)) hist29 @
     [Tick 2000 (tick_R10 100), BuySettled 0 (Returned bought), Tick 3000 (tick_R10 100),
      Tick 4000 (tick_R10 100), Tick 5000 (tick_R10 100), Tick 6000 (tick_R10 100),
      Tick 7000 (tick_R10 100)]"

definition five_closes :: "engine_input list" where
  "five_closes =
     [CloseTrade 8000 ''R_10_LONG_2000'' loss (- 1), CloseTrade 9000 ''R_10_LONG_3000'' loss (- 1),
      CloseTrade 10000 ''R_10_LONG_4000'' loss (- 1), CloseTrade 11000 ''R_10_LONG_5000'' loss (- 1),
      CloseTrade 12000 ''R_10_LONG_6000'' loss (- 1)]"

definition sixth_close :: engine_input where
  "sixth_close = CloseTrade 13000 ''R_10_LONG_7000'' loss (- 1)"

definition five_losses_run :: "engine_input list" where
  "five_losses_run = opening_run @ five_closes"

definition six_losses_run :: "engine_input list" where
  "six_losses_run = five_losses_run @ [sixth_close]"

definition engine_five_losses :: TradingEngine where
  "engine_five_losses = run_engine five_closes engine_sixth"




section \<open>Verified properties of the indicator library\<close>

subsection \<open>RSI\<close>

lemma rsi_initial_nonneg:
  "0 \<le> fst acc \<Longrightarrow> 0 \<le> snd acc \<Longrightarrow>
   0 \<le> fst (foldl rsi_initial_step acc cs) \<and> 0 \<le> snd (foldl rsi_initial_step acc cs)"
proof (induction cs arbitrary: acc)
  case Nil
  then show ?case by simp
next
  case (Cons c cs)
  have "0 \<le> fst (rsi_initial_step acc c) \<and> 0 \<le> snd (rsi_initial_step acc c)"
    using Cons.prems by (cases acc) (simp add: rsi_initial_step_def)
  then show ?case using Cons.IH by simp
qed

lemma rsi_smooth_step_nonneg:
  assumes "0 < period" "0 \<le> fst acc" "0 \<le> snd acc"
  shows "0 \<le> fst (rsi_smooth_step period acc c) \<and> 0 \<le> snd (rsi_smooth_step period acc c)"
proof -
  obtain g l where acc: "acc = (g, l)" by (cases acc)
  have p: "0 \<le> real period - 1" using assms(1) by simp
  have "0 \<le> g * (real period - 1)" "0 \<le> l * (real period - 1)"
    using assms(2,3) p acc by simp_all
  then show ?thesis
    using assms(1) by (simp add: acc rsi_smooth_step_def)
qed

lemma rsi_smooth_nonneg:
  "0 < period \<Longrightarrow> 0 \<le> fst acc \<Longrightarrow> 0 \<le> snd acc \<Longrightarrow>
   0 \<le> fst (foldl (rsi_smooth_step period) acc cs) \<and>
   0 \<le> snd (foldl (rsi_smooth_step period) acc cs)"
proof (induction cs arbitrary: acc)
  case Nil
  then show ?case by simp
next
  case (Cons c cs)
  then show ?case using rsi_smooth_step_nonneg [of period acc c] by simp
qed

lemma rsi_averages_nonneg:
  assumes "0 < period"
  shows "0 \<le> fst (rsi_averages data period) \<and> 0 \<le> snd (rsi_averages data period)"
proof -
  obtain g0 l0 where s: "foldl rsi_initial_step (0, 0) (take period (price_changes data)) = (g0, l0)"
    by (cases "foldl rsi_initial_step (0, 0) (take period (price_changes data))")
  have "0 \<le> g0 \<and> 0 \<le> l0"
    using rsi_initial_nonneg [of "(0, 0)" "take period (price_changes data)"] s by simp
  then have "0 \<le> fst (g0 / real period, l0 / real period) \<and> 0 \<le> snd (g0 / real period, l0 / real period)"
    by simp
  then show ?thesis
    unfolding rsi_averages_def Let_def s prod.case
    by (intro rsi_smooth_nonneg [OF assms]) simp_all
qed

lemma rsi_value_range:
  assumes "0 \<le> g" "0 < l"
  shows "0 \<le> 100 - 100 / (1 + g / l) \<and> 100 - 100 / (1 + g / l) \<le> (100::real)"
proof -
  have "1 \<le> 1 + g / l" using assms by simp
  then have "100 / (1 + g / l) \<le> 100 / 1"
    by (intro divide_left_mono) simp_all
  moreover have "0 \<le> 100 / (1 + g / l)" using assms by simp
  ultimately show ?thesis by simp
qed

lemma price_changes_sorted: "sorted data \<Longrightarrow> \<forall>c \<in> set (price_changes data). 0 \<le> c"
  by (induction data rule: price_changes.induct) auto

text \<open>A change that is not a loss leaves the average loss as it is: with no loss at all it
  stays 0.\<close>
lemma rsi_initial_no_loss:
  "\<forall>c \<in> set cs. 0 \<le> c \<Longrightarrow> snd (foldl rsi_initial_step acc cs) = snd acc"
  by (induction cs arbitrary: acc) (auto simp: rsi_initial_step_def split: prod.splits)

lemma rsi_smooth_no_loss:
  "\<forall>c \<in> set cs. 0 \<le> c \<Longrightarrow> snd acc = 0 \<Longrightarrow> snd (foldl (rsi_smooth_step period) acc cs) = 0"
  by (induction cs arbitrary: acc) (auto simp: rsi_smooth_step_def split: prod.splits)

lemma rsi_averages_sorted:
  assumes "sorted data"
  shows "snd (rsi_averages data period) = 0"
proof -
  have all: "\<forall>c \<in> set (price_changes data). 0 \<le> c"
    using assms by (rule price_changes_sorted)
  have t: "\<forall>c \<in> set (take period (price_changes data)). 0 \<le> c"
    using all by (meson in_set_takeD)
  have d: "\<forall>c \<in> set (drop period (price_changes data)). 0 \<le> c"
    using all by (meson in_set_dropD)
  obtain g0 l0 where s: "foldl rsi_initial_step (0, 0) (take period (price_changes data)) = (g0, l0)"
    by (cases "foldl rsi_initial_step (0, 0) (take period (price_changes data))")
  have "l0 = 0" using rsi_initial_no_loss [OF t, of "(0, 0)"] s by simp
  then show ?thesis
    unfolding rsi_averages_def Let_def s prod.case
    by (intro rsi_smooth_no_loss [OF d]) simp
qed

text \<open>
  Claim C8. For a positive period and a price sequence of at least \<open>period + 1\<close> samples,
  \<open>calculateRSI\<close> returns a number between 0 and 100; whenever the Wilder-smoothed
  average loss is exactly zero it returns exactly 100, and this is the case for every
  non-decreasing sequence.
\<close>

theorem calculateRSI_range:
  assumes "0 < period" and "period + 1 \<le> length data"
  shows "(\<exists>r. calculateRSI data period = Some r \<and> 0 \<le> r \<and> r \<le> 100) \<and>
         (snd (rsi_averages data period) = 0 \<longrightarrow> calculateRSI data period = Some 100) \<and>
         (sorted data \<longrightarrow> calculateRSI data period = Some 100)"
proof -
  obtain g l where a: "rsi_averages data period = (g, l)"
    by (cases "rsi_averages data period")
  have nn: "0 \<le> g" "0 \<le> l"
    using rsi_averages_nonneg [OF assms(1), of data] a by simp_all
  have len: "\<not> length data < period + 1" using assms(2) by simp
  have zero: "l = 0 \<Longrightarrow> calculateRSI data period = Some 100"
    using len by (simp add: calculateRSI_def a)
  have range: "\<exists>r. calculateRSI data period = Some r \<and> 0 \<le> r \<and> r \<le> 100"
  proof (cases "l = 0")
    case True
    then show ?thesis using zero by simp
  next
    case False
    then have "0 < l" using nn(2) by simp
    then show ?thesis
      using len False rsi_value_range [OF nn(1), of l]
      by (simp add: calculateRSI_def a Let_def)
  qed
  have sorted: "sorted data \<Longrightarrow> calculateRSI data period = Some 100"
    using rsi_averages_sorted [of data period] a zero by simp
  show ?thesis using range zero sorted a by simp
qed

theorem calculateRSI_range_witness:
  "calculateRSI [3, 1, 2, 5, 4] 2 = Some (700 / 13) \<and>
   snd (rsi_averages [1, 1, 2, 3] 2) = 0 \<and> sorted [1, 1, 2, 3 :: real] \<and>
   calculateRSI [1, 1, 2, 3] 2 = Some 100"
proof -
  have v: "calculateRSI [3, 1, 2, 5, 4] 2 = Some (700 / 13)"
    by (simp add: calculateRSI_def rsi_averages_def rsi_initial_step_def rsi_smooth_step_def)
  have s: "sorted [1, 1, 2, 3 :: real]" by simp
  have "(0::nat) < 2" "(2::nat) + 1 \<le> length [1, 1, 2, 3 :: real]" by simp_all
  from calculateRSI_range [OF this] s rsi_averages_sorted [OF s, of 2] v
  show ?thesis by simp
qed

subsection \<open>ADX\<close>

lemma length_adx_smoothed: "length (adx_smoothed period s xs) = length xs"
  by (induction xs arbitrary: s) (auto split: prod.splits simp: Let_def)

lemma adx_fold_dx:
  "snd (snd (snd (foldl (adx_step period) (a, b, c, dx) xs))) =
     dx @ List.map_filter (\<lambda>(t, p, m). adx_dx t p m) (adx_smoothed period (a, b, c) xs)"
proof (induction xs arbitrary: a b c dx)
  case Nil
  then show ?case by (simp add: map_filter_simps)
next
  case (Cons x xs)
  obtain tr pdm mdm where x: "x = (tr, pdm, mdm)" by (cases x)
  define a' where "a' = a - (a / real period) + tr"
  define b' where "b' = b - (b / real period) + pdm"
  define c' where "c' = c - (c / real period) + mdm"
  define dx' where "dx' = (case adx_dx a' b' c' of None \<Rightarrow> dx | Some d \<Rightarrow> dx @ [d])"
  have step: "adx_step period (a, b, c, dx) x = (a', b', c', dx')"
    by (simp add: adx_step_def x Let_def a'_def b'_def c'_def dx'_def)
  have sm: "adx_smoothed period (a, b, c) (x # xs) = (a', b', c') # adx_smoothed period (a', b', c') xs"
    by (simp add: x Let_def a'_def b'_def c'_def)
  have "snd (snd (snd (foldl (adx_step period) (a, b, c, dx) (x # xs)))) =
        dx' @ List.map_filter (\<lambda>(t, p, m). adx_dx t p m) (adx_smoothed period (a', b', c') xs)"
    using Cons.IH [of a' b' c' dx'] by (simp only: foldl.simps step)
  also have "\<dots> = dx @ List.map_filter (\<lambda>(t, p, m). adx_dx t p m) (adx_smoothed period (a, b, c) (x # xs))"
    by (simp only: sm) (simp add: map_filter_simps dx'_def split: option.splits)
  finally show ?case .
qed

lemma adx_loop_dx:
  "snd (snd (snd (adx_loop highs lows closes period))) =
     List.map_filter (\<lambda>(t, p, m). adx_dx t p m) (adx_sums highs lows closes period)"
  by (simp add: adx_loop_def adx_sums_def Let_def adx_fold_dx)

lemma length_map_filter_le: "length (List.map_filter f xs) \<le> length xs"
  by (induction xs) (auto simp: map_filter_simps split: option.splits)

lemma length_adx_sums:
  "length (adx_sums highs lows closes period) = length highs - 1 - period"
  by (simp add: adx_sums_def Let_def length_adx_smoothed trueRanges_def plusDM_def minusDM_def)

lemma calculateADX_short:
  assumes "0 < period" "length highs \<le> 2 * period"
  shows "calculateADX highs lows closes period = None"
proof -
  obtain a b c dx where l: "adx_loop highs lows closes period = (a, b, c, dx)"
    by (cases "adx_loop highs lows closes period")
  have "dx = List.map_filter (\<lambda>(t, p, m). adx_dx t p m) (adx_sums highs lows closes period)"
    using adx_loop_dx [of highs lows closes period] l by simp
  then have "length dx \<le> length highs - 1 - period"
    using length_map_filter_le [of "\<lambda>(t, p, m). adx_dx t p m" "adx_sums highs lows closes period"]
    by (simp add: length_adx_sums)
  then have "length dx < period" using assms by linarith
  then show ?thesis by (simp add: calculateADX_def l)
qed


lemma trueRanges_nonneg: "\<forall>t \<in> set (trueRanges highs lows closes). 0 \<le> t"
  by (auto simp: trueRanges_def)

lemma plusDM_nonneg: "\<forall>t \<in> set (plusDM highs lows). 0 \<le> t"
  by (auto simp: plusDM_def Let_def)

lemma minusDM_nonneg: "\<forall>t \<in> set (minusDM highs lows). 0 \<le> t"
  by (auto simp: minusDM_def Let_def)

lemma foldl_add_nonneg: "\<forall>x \<in> set xs. 0 \<le> x \<Longrightarrow> (0::real) \<le> a \<Longrightarrow> 0 \<le> foldl (+) a xs"
  by (induction xs arbitrary: a) auto

lemma reduce_sum_nonneg: "\<forall>x \<in> set xs. 0 \<le> x \<Longrightarrow> 0 \<le> reduce_sum xs"
  by (simp add: reduce_sum_def foldl_add_nonneg)

lemma wilder_sum_nonneg:
  assumes "0 < period" "0 \<le> s" "0 \<le> x"
  shows "0 \<le> s - (s / real period) + x"
proof -
  have "s / real period \<le> s / 1"
    using assms by (intro divide_left_mono) simp_all
  then show ?thesis using assms(3) by simp
qed

lemma adx_smoothed_nonneg:
  "0 < period \<Longrightarrow> nonneg3 s \<Longrightarrow> \<forall>x \<in> set xs. nonneg3 x \<Longrightarrow>
   \<forall>y \<in> set (adx_smoothed period s xs). nonneg3 y"
proof (induction xs arbitrary: s)
  case Nil
  then show ?case by simp
next
  case (Cons x xs)
  obtain a b c where s: "s = (a, b, c)" by (cases s)
  obtain tr pdm mdm where x: "x = (tr, pdm, mdm)" by (cases x)
  let ?s' = "(a - (a / real period) + tr, b - (b / real period) + pdm, c - (c / real period) + mdm)"
  have n: "nonneg3 ?s'"
    using Cons.prems by (simp add: nonneg3_def s x wilder_sum_nonneg)
  have "\<forall>y \<in> set (adx_smoothed period ?s' xs). nonneg3 y"
    using Cons.IH [OF Cons.prems(1) n] Cons.prems(3) by simp
  then show ?case using n by (simp add: s x Let_def)
qed

lemma adx_sums_nonneg:
  assumes "0 < period"
  shows "\<forall>y \<in> set (adx_sums highs lows closes period). nonneg3 y"
proof -
  have seed: "nonneg3 (reduce_sum (take period (trueRanges highs lows closes)),
                       reduce_sum (take period (plusDM highs lows)),
                       reduce_sum (take period (minusDM highs lows)))"
    unfolding nonneg3_def prod.case
    by (intro conjI reduce_sum_nonneg ballI)
       (use trueRanges_nonneg plusDM_nonneg minusDM_nonneg in \<open>meson in_set_takeD\<close>)+
  have xs: "\<forall>x \<in> set (drop period (zip (trueRanges highs lows closes)
                (zip (plusDM highs lows) (minusDM highs lows)))). nonneg3 x"
  proof
    fix x assume "x \<in> set (drop period (zip (trueRanges highs lows closes)
                (zip (plusDM highs lows) (minusDM highs lows))))"
    then have m: "x \<in> set (zip (trueRanges highs lows closes) (zip (plusDM highs lows) (minusDM highs lows)))"
      by (rule in_set_dropD)
    obtain t p m where x: "x = (t, p, m)" by (cases x)
    have "t \<in> set (trueRanges highs lows closes)" "p \<in> set (plusDM highs lows)" "m \<in> set (minusDM highs lows)"
      using m unfolding x by (auto dest: set_zip_leftD set_zip_rightD)
    then show "nonneg3 x"
      using trueRanges_nonneg plusDM_nonneg minusDM_nonneg by (simp add: nonneg3_def x)
  qed
  show ?thesis
    unfolding adx_sums_def Let_def
    by (rule adx_smoothed_nonneg [OF assms seed xs])
qed

lemma adx_dx_zero_sum:
  "fst s \<noteq> 0 \<Longrightarrow> di_sum s = 0 \<Longrightarrow> (case s of (t, p, m) \<Rightarrow> adx_dx t p m) = None"
  by (cases s) (simp add: adx_dx_def di_sum_def Let_def)

lemma adx_dx_nonzero_sum:
  assumes "nonneg3 s" "fst s \<noteq> 0" "di_sum s \<noteq> 0"
  shows "\<exists>v. (case s of (t, p, m) \<Rightarrow> adx_dx t p m) = Some (Num v)"
proof -
  obtain t p m where s: "s = (t, p, m)" by (cases s)
  have t: "0 < t" and p: "0 \<le> p" and m: "0 \<le> m"
    using assms(1,2) by (simp_all add: s nonneg3_def)
  have "0 \<le> (p / t) * 100 + (m / t) * 100" using t p m by simp
  then have "0 < (p / t) * 100 + (m / t) * 100"
    using assms(3) by (simp add: s di_sum_def)
  then show ?thesis using t by (simp add: s adx_dx_def Let_def)
qed

lemma map_filter_all_Num:
  "\<forall>x \<in> set xs. \<exists>v. f x = Some (Num v) \<Longrightarrow>
   length (List.map_filter f xs) = length xs \<and> (\<exists>vs. num_values (List.map_filter f xs) = Some vs)"
  by (induction xs) (auto simp: map_filter_simps)

lemma calculateADX_available:
  assumes "0 < period" and "2 * period + 1 \<le> length highs"
    and "\<forall>s \<in> set (adx_sums highs lows closes period). fst s \<noteq> 0 \<and> di_sum s \<noteq> 0"
  shows "\<exists>v. calculateADX highs lows closes period = Some (Num v)"
proof -
  obtain a b c dx where l: "adx_loop highs lows closes period = (a, b, c, dx)"
    by (cases "adx_loop highs lows closes period")
  have dx: "dx = List.map_filter (\<lambda>(t, p, m). adx_dx t p m) (adx_sums highs lows closes period)"
    using adx_loop_dx [of highs lows closes period] l by simp
  have "\<forall>s \<in> set (adx_sums highs lows closes period). \<exists>v. (case s of (t, p, m) \<Rightarrow> adx_dx t p m) = Some (Num v)"
  proof
    fix s assume s: "s \<in> set (adx_sums highs lows closes period)"
    have "nonneg3 s" using adx_sums_nonneg [OF assms(1), of highs lows closes] s by blast
    moreover have "fst s \<noteq> 0" "di_sum s \<noteq> 0" using assms(3) s by blast+
    ultimately show "\<exists>v. (case s of (t, p, m) \<Rightarrow> adx_dx t p m) = Some (Num v)"
      by (rule adx_dx_nonzero_sum)
  qed
  then have "length dx = length (adx_sums highs lows closes period) \<and> (\<exists>vs. num_values dx = Some vs)"
    unfolding dx by (rule map_filter_all_Num)
  then obtain vs where len: "length dx = length highs - 1 - period" and vs: "num_values dx = Some vs"
    by (auto simp: length_adx_sums)
  have "\<not> length dx < period" "\<not> length highs < period * 2"
    using len assms(2) by linarith+
  then show ?thesis by (simp add: calculateADX_def l vs)
qed

text \<open>
  Claim C9, as amended. For a positive period, \<open>calculateADX\<close> reports unavailable
  (\<open>null\<close>) for every input of at most \<open>2 \<times> period\<close> samples: the guard rejects
  fewer than \<open>2 \<times> period\<close>, and at exactly \<open>2 \<times> period\<close> the loop yields at most
  \<open>period - 1\<close> directional indices. For equal-length inputs of at least
  \<open>2 \<times> period + 1\<close> samples whose DI sum is a nonzero number at every iteration, it
  returns a number. An iteration whose DI sum is zero pushes no directional index.
\<close>

theorem calculateADX_window:
  assumes "0 < period"
  shows "(length highs \<le> 2 * period \<longrightarrow> calculateADX highs lows closes period = None) \<and>
         (2 * period + 1 \<le> length highs \<and> length lows = length highs \<and>
          length closes = length highs \<and>
          (\<forall>s \<in> set (adx_sums highs lows closes period). fst s \<noteq> 0 \<and> di_sum s \<noteq> 0)
          \<longrightarrow> (\<exists>v. calculateADX highs lows closes period = Some (Num v))) \<and>
         (\<forall>smoothedTR smoothedPlusDM smoothedMinusDM.
            smoothedTR \<noteq> 0 \<and> di_sum (smoothedTR, smoothedPlusDM, smoothedMinusDM) = 0
            \<longrightarrow> adx_dx smoothedTR smoothedPlusDM smoothedMinusDM = None)"
proof (intro conjI impI allI)
  assume "length highs \<le> 2 * period"
  then show "calculateADX highs lows closes period = None"
    using assms by (intro calculateADX_short)
next
  assume a: "2 * period + 1 \<le> length highs \<and> length lows = length highs \<and>
          length closes = length highs \<and>
          (\<forall>s \<in> set (adx_sums highs lows closes period). fst s \<noteq> 0 \<and> di_sum s \<noteq> 0)"
  then show "\<exists>v. calculateADX highs lows closes period = Some (Num v)"
    using assms by (intro calculateADX_available) simp_all
next
  fix smoothedTR smoothedPlusDM smoothedMinusDM :: real
  assume "smoothedTR \<noteq> 0 \<and> di_sum (smoothedTR, smoothedPlusDM, smoothedMinusDM) = 0"
  then show "adx_dx smoothedTR smoothedPlusDM smoothedMinusDM = None"
    using adx_dx_zero_sum [of "(smoothedTR, smoothedPlusDM, smoothedMinusDM)"] by simp
qed

lemma adx_sums_example5:
  "adx_sums [1, 2, 3, 2, 5] [1, 2, 3, 2, 5] [1, 2, 3, 2, 5] 2 = [(2, 1, 1), (4, 7 / 2, 1 / 2)]"
  by (simp add: adx_sums_def trueRanges_def plusDM_def minusDM_def reduce_sum_def upt_rec Let_def)

theorem calculateADX_window_witness:
  "calculateADX [1, 2, 3] [1, 2, 3] [1, 2, 3] 2 = None \<and>
   calculateADX [1, 2, 3, 4] [1, 2, 3, 4] [1, 2, 3, 4] 2 = None \<and>
   (\<exists>v. calculateADX [1, 2, 3, 2, 5] [1, 2, 3, 2, 5] [1, 2, 3, 2, 5] 2 = Some (Num v)) \<and>
   adx_dx 1 0 0 = None"
proof -
  have p: "(0::nat) < 2" by simp
  note w = calculateADX_window [OF p]
  have a: "calculateADX [1, 2, 3] [1, 2, 3] [1, 2, 3] 2 = None"
    using w [of "[1, 2, 3]" "[1, 2, 3]" "[1, 2, 3]"] by simp
  have b: "calculateADX [1, 2, 3, 4] [1, 2, 3, 4] [1, 2, 3, 4] 2 = None"
    using w [of "[1, 2, 3, 4]" "[1, 2, 3, 4]" "[1, 2, 3, 4]"] by simp
  have c: "\<exists>v. calculateADX [1, 2, 3, 2, 5] [1, 2, 3, 2, 5] [1, 2, 3, 2, 5] 2 = Some (Num v)"
    using w [of "[1, 2, 3, 2, 5]" "[1, 2, 3, 2, 5]" "[1, 2, 3, 2, 5]"]
    by (simp add: adx_sums_example5 di_sum_def)
  have d: "adx_dx 1 0 0 = None"
    using w [of "[]" "[]" "[]"] by (simp add: di_sum_def)
  show ?thesis using a b c d by simp
qed

theorem calculateADX_two_periods_counterexample:
  "length [1, 2, 3, 4 :: real] = 2 * 2 \<and>
   adx_sums [1, 2, 3, 4] [1, 2, 3, 4] [1, 2, 3, 4] 2 = [(2, 2, 0)] \<and>
   di_sum (2, 2, 0) = 100 \<and>
   calculateADX [1, 2, 3, 4] [1, 2, 3, 4] [1, 2, 3, 4] 2 = None"
  by (simp add: adx_sums_def trueRanges_def plusDM_def minusDM_def reduce_sum_def upt_rec
      Let_def di_sum_def calculateADX_def adx_loop_def adx_step_def adx_dx_def)

subsection \<open>The snapshot\<close>

text \<open>
  Claim C10. When \<open>calculateBollingerBands\<close> returns bands and one of them is exactly 0,
  \<open>calculateAllIndicators\<close> reports that field of the snapshot as absent.
\<close>

theorem bollinger_zero_band_absent:
  assumes "calculateBollingerBands prices 20 2 = Some b"
  shows "(upper b = 0 \<longrightarrow> bollingerUpper (calculateAllIndicators prices highs lows) = None) \<and>
         (middle b = 0 \<longrightarrow> bollingerMiddle (calculateAllIndicators prices highs lows) = None) \<and>
         (lower b = 0 \<longrightarrow> bollingerLower (calculateAllIndicators prices highs lows) = None)"
  using assms by (simp add: calculateAllIndicators_def or_null_def Let_def)

lemma bollinger_zeros:
  "calculateBollingerBands (replicate 20 0) 20 2 = Some \<lparr>upper = 0, middle = 0, lower = 0\<rparr>"
  by (simp add: calculateBollingerBands_def slice_last_def reduce_sum_def Let_def
      eval_nat_numeral)

theorem bollinger_zero_band_absent_witness:
  "calculateBollingerBands (replicate 20 0) 20 2 = Some \<lparr>upper = 0, middle = 0, lower = 0\<rparr> \<and>
   bollingerUpper (calculateAllIndicators (replicate 20 0) None None) = None \<and>
   bollingerMiddle (calculateAllIndicators (replicate 20 0) None None) = None \<and>
   bollingerLower (calculateAllIndicators (replicate 20 0) None None) = None"
  using bollinger_zero_band_absent [OF bollinger_zeros, of None None] bollinger_zeros
  by simp

section \<open>Verified properties of the trade execution queue\<close>

lemma emit_simps [simp]:
  "queue (emit e q) = queue q" "pendingSymbols (emit e q) = pendingSymbols q"
  "symbolCooldowns (emit e q) = symbolCooldowns q" "isProcessing (emit e q) = isProcessing q"
  "isThrottled (emit e q) = isThrottled q" "throttleEndsAt (emit e q) = throttleEndsAt q"
  "lastExecutionTime (emit e q) = lastExecutionTime q" "events (emit e q) = events q @ [e]"
  by (simp_all add: emit_def)

lemma getStats_emit [simp]: "getStats (emit e q) = getStats q"
  by (simp add: getStats_def)

lemma cancel_all_fields:
  "queue (foldl (cancel_trade m) q ts) = queue q \<and>
   symbolCooldowns (foldl (cancel_trade m) q ts) = symbolCooldowns q \<and>
   isProcessing (foldl (cancel_trade m) q ts) = isProcessing q \<and>
   isThrottled (foldl (cancel_trade m) q ts) = isThrottled q \<and>
   throttleEndsAt (foldl (cancel_trade m) q ts) = throttleEndsAt q \<and>
   lastExecutionTime (foldl (cancel_trade m) q ts) = lastExecutionTime q"
  by (induction ts arbitrary: q) (simp_all add: cancel_trade_def)

lemma cancel_all_events:
  "events (foldl (cancel_trade m) q ts) =
     events q @ map (\<lambda>t. Settled (t\<lparr>QueuedTrade.status := Cancelled\<rparr>) (failure m)) ts"
  by (induction ts arbitrary: q) (simp_all add: cancel_trade_def)

lemma filter_removeAll_image:
  "filter (\<lambda>s. s \<notin> f ` set ts) (removeAll (f t) xs) = filter (\<lambda>s. s \<notin> f ` set (t # ts)) xs"
  by (induction xs) auto

lemma cancel_trade_pending:
  "pendingSymbols (cancel_trade m q t) = removeAll (QueuedTrade.symbol t) (pendingSymbols q)"
  by (simp add: cancel_trade_def set_delete_def)

lemma cancel_all_pending:
  "pendingSymbols (foldl (cancel_trade m) q ts) =
     filter (\<lambda>s. s \<notin> QueuedTrade.symbol ` set ts) (pendingSymbols q)"
proof (induction ts arbitrary: q)
  case Nil
  then show ?case by simp
next
  case (Cons t ts)
  have "pendingSymbols (foldl (cancel_trade m) q (t # ts)) =
        filter (\<lambda>s. s \<notin> QueuedTrade.symbol ` set ts) (removeAll (QueuedTrade.symbol t) (pendingSymbols q))"
    using Cons.IH [of "cancel_trade m q t"] by (simp only: foldl.simps cancel_trade_pending)
  then show ?case
    by (simp only: filter_removeAll_image)
qed

lemma handleRateLimitError_state:
  "isThrottled (handleRateLimitError now q) \<and>
   throttleEndsAt (handleRateLimitError now q) = Some (now + RATE_LIMIT_BACKOFF_MS) \<and>
   queue (handleRateLimitError now q) = [] \<and>
   symbolCooldowns (handleRateLimitError now q) = symbolCooldowns q \<and>
   lastExecutionTime (handleRateLimitError now q) = lastExecutionTime q \<and>
   isProcessing (handleRateLimitError now q) = isProcessing q \<and>
   pendingSymbols (handleRateLimitError now q) =
     filter (\<lambda>s. s \<notin> QueuedTrade.symbol ` set (queue q)) (pendingSymbols q)"
  by (simp add: handleRateLimitError_def Let_def updateStats_def notifyThrottle_def
      cancel_all_fields cancel_all_pending)

lemma handleRateLimitError_events:
  "events (handleRateLimitError now q) =
     events q @ [Throttle ''API THROTTLING: Rate limit detected. Backing off for 5 seconds...''] @
     map (\<lambda>t. Settled (t\<lparr>QueuedTrade.status := Cancelled\<rparr>) (failure ''Trade cancelled due to rate limit backoff''))
         (queue q) @
     [Throttle (''Queue cleared: '' @ string_of_nat (length (queue q)) @ '' trades cancelled''),
      Stats (getStats (handleRateLimitError now q))]"
proof -
  have g: "getStats (handleRateLimitError now q) =
           \<lparr>queueSize = 0,
            QueueStats.pendingSymbols = filter (\<lambda>s. s \<notin> QueuedTrade.symbol ` set (queue q)) (pendingSymbols q),
            QueueStats.isThrottled = True,
            QueueStats.throttleEndsAt = Some (now + RATE_LIMIT_BACKOFF_MS),
            QueueStats.lastExecutionTime = lastExecutionTime q\<rparr>"
    using handleRateLimitError_state [of now q] by (simp add: getStats_def)
  show ?thesis
    unfolding g
    by (simp add: handleRateLimitError_def Let_def updateStats_def notifyThrottle_def
        cancel_all_events cancel_all_fields cancel_all_pending getStats_def)
qed

lemma q_polled_eq: "processLoop_poll 1100 q_two = (Some trade_R25, q_polled)"
  by (simp add: q_polled_def q_two_def q_R10_def addTrade_def new_TradeQueue_def Let_def
      processLoop_poll_def updateStats_def sort_queue_def queue_compare_def set_add_def
      contract_type_string_def string_of_nat.simps trade_R25_def)

lemma q_polled_fields:
  "queue q_polled = [trade_R10]" "pendingSymbols q_polled = [''R_10'', ''R_25'']"
  "symbolCooldowns q_polled = Map.empty"
  by (simp_all add: q_polled_def q_two_def q_R10_def addTrade_def new_TradeQueue_def Let_def
      processLoop_poll_def updateStats_def sort_queue_def queue_compare_def set_add_def
      contract_type_string_def string_of_nat.simps trade_R10_def)

lemma rate_limit_example: "is_rate_limit_error (failure ''Rate limit exceeded'')"
  by (simp add: is_rate_limit_error_def failure_def toLowerCase_def toLowerCase_char_def)

lemma ordinary_failure_example: "\<not> is_rate_limit_error (failure ''Insufficient balance'')"
  by (simp add: is_rate_limit_error_def failure_def toLowerCase_def toLowerCase_char_def)

text \<open>
  Claim C4. When the venue's result for the trade being executed is an error whose
  message indicates rate limiting, the queue is throttled until \<open>now\<close> plus the fixed
  backoff, the queue is emptied, every trade that was queued is marked cancelled, settled
  with a failure and taken out of the pending symbols, and the handlers receive the
  throttle message, the count of flushed trades (the length of the queue just before the
  flush) and the statistics; the executed trade itself is settled as failed.
\<close>

theorem rate_limit_flush:
  assumes "is_rate_limit_error res"
  shows "isThrottled (executeTrade now trade (Returned res) q) \<and>
         throttleEndsAt (executeTrade now trade (Returned res) q) = Some (now + RATE_LIMIT_BACKOFF_MS) \<and>
         queue (executeTrade now trade (Returned res) q) = [] \<and>
         pendingSymbols (executeTrade now trade (Returned res) q) =
           filter (\<lambda>s. s \<notin> QueuedTrade.symbol ` set (queue q)) (pendingSymbols q) \<and>
         events (executeTrade now trade (Returned res) q) =
           events q @ [Throttle ''API THROTTLING: Rate limit detected. Backing off for 5 seconds...''] @
           map (\<lambda>t. Settled (t\<lparr>QueuedTrade.status := Cancelled\<rparr>) (failure ''Trade cancelled due to rate limit backoff''))
               (queue q) @
           [Throttle (''Queue cleared: '' @ string_of_nat (length (queue q)) @ '' trades cancelled''),
            Stats (getStats (executeTrade now trade (Returned res) q)),
            Settled (trade\<lparr>QueuedTrade.status := Failed\<rparr>) res]"
proof -
  let ?q1 = "q\<lparr>lastExecutionTime := Some now\<rparr>"
  have e: "executeTrade now trade (Returned res) q =
           emit (Settled (trade\<lparr>QueuedTrade.status := Failed\<rparr>) res) (handleRateLimitError now ?q1)"
    using assms by (simp add: executeTrade_def Let_def)
  show ?thesis
    unfolding e
    using handleRateLimitError_state [of now ?q1] handleRateLimitError_events [of now ?q1]
    by simp
qed

theorem rate_limit_flush_witness:
  "is_rate_limit_error (failure ''Rate limit exceeded'') \<and>
   processLoop_poll 1100 q_two = (Some trade_R25, q_polled) \<and>
   queue q_polled = [trade_R10] \<and>
   isThrottled (executeTrade 1500 trade_R25 (Returned (failure ''Rate limit exceeded'')) q_polled) \<and>
   throttleEndsAt (executeTrade 1500 trade_R25 (Returned (failure ''Rate limit exceeded'')) q_polled) = Some 6500 \<and>
   queue (executeTrade 1500 trade_R25 (Returned (failure ''Rate limit exceeded'')) q_polled) = [] \<and>
   pendingSymbols (executeTrade 1500 trade_R25 (Returned (failure ''Rate limit exceeded'')) q_polled) = [''R_25''] \<and>
   drop (length (events q_polled)) (events (executeTrade 1500 trade_R25 (Returned (failure ''Rate limit exceeded'')) q_polled)) =
     [Throttle ''API THROTTLING: Rate limit detected. Backing off for 5 seconds...'',
      Settled (trade_R10\<lparr>QueuedTrade.status := Cancelled\<rparr>) (failure ''Trade cancelled due to rate limit backoff''),
      Throttle ''Queue cleared: 1 trades cancelled'',
      Stats \<lparr>queueSize = 0, QueueStats.pendingSymbols = [''R_25''], QueueStats.isThrottled = True,
             QueueStats.throttleEndsAt = Some 6500, QueueStats.lastExecutionTime = Some 1500\<rparr>,
      Settled (trade_R25\<lparr>QueuedTrade.status := Failed\<rparr>) (failure ''Rate limit exceeded'')]"
proof -
  note f = rate_limit_flush [OF rate_limit_example, of 1500 trade_R25 q_polled]
  have st: "getStats (executeTrade 1500 trade_R25 (Returned (failure ''Rate limit exceeded'')) q_polled) =
      \<lparr>queueSize = 0, QueueStats.pendingSymbols = [''R_25''], QueueStats.isThrottled = True,
             QueueStats.throttleEndsAt = Some 6500, QueueStats.lastExecutionTime = Some 1500\<rparr>"
    using f rate_limit_example
    by (simp add: getStats_def q_polled_fields trade_R10_def RATE_LIMIT_BACKOFF_MS_def
        executeTrade_def handleRateLimitError_state)
  show ?thesis
    using f rate_limit_example q_polled_eq
    by (simp add: st q_polled_fields trade_R10_def RATE_LIMIT_BACKOFF_MS_def string_of_nat.simps)
qed

text \<open>
  Claim C3, as amended. When the venue call returns a result that is not a rate-limit
  error, success or failure alike, the cooldown entry of the trade's symbol is set to
  \<open>now\<close> plus the fixed cooldown. When the result is a rate-limit error, or the call
  throws, the cooldown table is left as it was.
\<close>

theorem cooldown_after_execution:
  "(\<not> is_rate_limit_error res \<longrightarrow>
      symbolCooldowns (executeTrade now trade (Returned res) q) (QueuedTrade.symbol trade) =
        Some (now + COOLDOWN_PER_ASSET_MS)) \<and>
   (is_rate_limit_error res \<longrightarrow>
      symbolCooldowns (executeTrade now trade (Returned res) q) = symbolCooldowns q) \<and>
   symbolCooldowns (executeTrade now trade (Threw errorMessage) q) = symbolCooldowns q"
  using handleRateLimitError_state [of now "q\<lparr>lastExecutionTime := Some now\<rparr>"]
    handleRateLimitError_state [of now q]
  by (simp add: executeTrade_def Let_def)


theorem cooldown_after_execution_witness:
  "symbolCooldowns (executeTrade 1500 trade_R25 (Returned (failure ''Insufficient balance'')) q_polled) ''R_25'' = Some 61500 \<and>
   symbolCooldowns (executeTrade 1500 trade_R25 (Returned (failure ''Rate limit exceeded'')) q_polled) = Map.empty \<and>
   symbolCooldowns (executeTrade 1500 trade_R25 (Threw ''socket closed'') q_polled) = Map.empty"
  using cooldown_after_execution [of "failure ''Insufficient balance''" 1500 trade_R25 q_polled "''socket closed''"]
    cooldown_after_execution [of "failure ''Rate limit exceeded''" 1500 trade_R25 q_polled "''socket closed''"]
    rate_limit_example ordinary_failure_example
  by (simp add: q_polled_fields trade_R25_def COOLDOWN_PER_ASSET_MS_def)

theorem cooldown_rate_limit_counterexample:
  "processLoop_poll 1100 q_two = (Some trade_R25, q_polled) \<and>
   QueuedTrade.symbol trade_R25 = ''R_25'' \<and>
   is_rate_limit_error (failure ''Rate limit exceeded'') \<and>
   symbolCooldowns (executeTrade 1500 trade_R25 (Returned (failure ''Rate limit exceeded'')) q_polled) ''R_25''
     \<noteq> Some (1500 + COOLDOWN_PER_ASSET_MS) \<and>
   symbolCooldowns (executeTrade 1500 trade_R25 (Threw ''socket closed'') q_polled) ''R_25''
     \<noteq> Some (1500 + COOLDOWN_PER_ASSET_MS)"
  using q_polled_eq rate_limit_example
  by (simp add: executeTrade_def handleRateLimitError_state q_polled_fields trade_R25_def
      toLowerCase_def toLowerCase_char_def)

section \<open>Verified properties of the request handlers\<close>

lemma resolve_handlers [simp]: "messageHandlers (resolve p r ws) = messageHandlers ws"
  by (simp add: resolve_def split: option.splits)

text \<open>No handler body and no timeout ever changes the array stored under \<open>buy\<close>: the
  buy handler deletes the key \<open>buy_<reqId>\<close>, under which nothing is stored, and the
  sell handler edits the array under \<open>sell\<close>.\<close>

lemma invoke_keeps_buy: "messageHandlers (invoke h data ws) ''buy'' = messageHandlers ws ''buy''"
  by (cases h) (simp_all add: Let_def split: option.splits)

lemma forEach_keeps_buy:
  "messageHandlers (forEach_handlers key data k n ws) ''buy'' = messageHandlers ws ''buy''"
  by (induction n arbitrary: k ws) (simp_all add: invoke_keeps_buy)

lemma handleMessage_keeps_buy:
  "messageHandlers (handleMessage data ws) ''buy'' = messageHandlers ws ''buy''"
  by (simp add: handleMessage_def Let_def forEach_keeps_buy split: option.splits)

lemma timeout_keeps_handlers: "messageHandlers (timeout_fires t ws) = messageHandlers ws"
  by (cases t) (simp add: timeout_fires_def)

lemma buyContract_adds_handler:
  "handlers_of ''buy'' (snd (buyContract now symb ctype amt dur dunit ws)) =
     handlers_of ''buy'' ws @ [BuyHandler (nextPromise ws) now]"
  by (simp add: buyContract_def Let_def onMessage_def send_def handlers_of_def)

lemma ws_first_call_eq:
  "ws_first_call =
     \<lparr>messageHandlers = [''buy'' \<mapsto> [BuyHandler 0 1000]], promises = Map.empty, nextPromise = 1,
      timeouts = [(11000, 0, ''Trade execution timeout'')], calls = [], socketOpen = True,
      accountCurrency = ''USD'', sent = [BuyRequest 1000 ''R_10'' CALL 1 5 unit_t ''USD'']\<rparr>"
  by (simp add: ws_first_call_def buyContract_def new_DerivWebSocket_def Let_def onMessage_def
      send_def handlers_of_def)

lemma ws_first_done_eq:
  "messageHandlers ws_first_done ''buy'' = Some [BuyHandler 0 1000]"
  "promises ws_first_done 0 =
     Some \<lparr>success = True, contractId = Some ''77'', buyPrice = Some 1, error = None, profit = None\<rparr>"
  by (simp_all add: ws_first_done_def ws_first_call_eq handleMessage_def buy_response_def
      handlers_of_def Let_def resolve_def string_of_nat.simps)

lemma ws_second_done_eq:
  "messageHandlers ws_second_done ''buy'' = Some [BuyHandler 0 1000, BuyHandler 1 2000]"
  "calls ws_second_done = [BuyHandler 0 1000, BuyHandler 0 1000, BuyHandler 1 2000]"
  by (simp_all add: ws_second_done_def ws_second_call_def ws_first_done_def ws_first_call_eq
      handleMessage_def buy_response_def handlers_of_def Let_def resolve_def
      string_of_nat.simps buyContract_def onMessage_def send_def)

lemma ws_sell_timed_out_eq:
  "messageHandlers ws_sell_timed_out ''sell'' = Some [SellHandler 0 1000]"
  "promises ws_sell_timed_out 0 = Some (failure ''Sell contract timeout'')"
  by (simp_all add: ws_sell_timed_out_def ws_sell_call_def sellContract_def timeout_fires_def
      new_DerivWebSocket_def Let_def onMessage_def send_def handlers_of_def resolve_def)

text \<open>
  Claim C2 does not hold of the code. After \<open>buyContract\<close> at time 1000 and the
  venue's \<open>buy\<close> response, the promise is resolved and the handler is still registered
  under \<open>buy\<close>; after a second call and its response both handlers are registered and
  the first one has been invoked twice. After \<open>sellContract\<close> and its timeout, the
  promise is resolved with the timeout failure and the handler is still registered
  under \<open>sell\<close>.
\<close>

theorem buyContract_handler_leak:
  "messageHandlers ws_first_done ''buy'' = Some [BuyHandler 0 1000] \<and>
   promises ws_first_done 0 =
     Some \<lparr>success = True, contractId = Some ''77'', buyPrice = Some 1, error = None, profit = None\<rparr> \<and>
   messageHandlers ws_second_done ''buy'' = Some [BuyHandler 0 1000, BuyHandler 1 2000] \<and>
   calls ws_second_done = [BuyHandler 0 1000, BuyHandler 0 1000, BuyHandler 1 2000] \<and>
   messageHandlers ws_sell_timed_out ''sell'' = Some [SellHandler 0 1000] \<and>
   promises ws_sell_timed_out 0 = Some (failure ''Sell contract timeout'')"
  by (simp add: ws_first_done_eq ws_second_done_eq ws_sell_timed_out_eq)

section \<open>Verified properties of double rounding\<close>

subsection \<open>Evaluation\<close>

text \<open>\<open>round64\<close> is evaluated on a number by naming its binade: \<open>x\<close> lies between
  \<open>2 ^ k\<close> and \<open>2 ^ (k + 1)\<close>.\<close>

lemma binade_unique:
  assumes "0 < x" "2 powr (of_int k) \<le> x" "x < 2 powr (of_int (k + 1))"
  shows "\<lfloor>Transcendental.log 2 x\<rfloor> = k"
proof -
  have "of_int k \<le> Transcendental.log 2 x" using assms(1,2) by (simp add: le_log_iff)
  moreover have "Transcendental.log 2 x < of_int (k + 1)" using assms(1,3) by (simp add: log_less_iff)
  ultimately show ?thesis by (simp add: floor_eq_iff)
qed

lemma round64_binade:
  assumes "0 < x" "2 powr (of_int k) \<le> x" "x < 2 powr (of_int (k + 1))"
  shows "round64 x = of_int (round_half_even (x / 2 powr (of_int (k - 52)))) * 2 powr (of_int (k - 52))"
  using assms(1) binade_unique [OF assms] by (simp add: round64_def Let_def)

lemma powr_neg_nat: "(2::real) powr (- real n) = 1 / 2 ^ n"
  by (simp add: powr_minus_divide powr_realpow)

lemma round64_below_one:
  assumes "1 \<le> x * 2 ^ n" "x * 2 ^ n < 2"
  shows "round64 x = of_int (round_half_even (x * 2 ^ (n + 52))) / 2 ^ (n + 52)"
proof -
  have x: "0 < x"
  proof (rule ccontr)
    assume "\<not> 0 < x"
    then have "x * 2 ^ n \<le> 0" by (simp add: mult_le_0_iff)
    then show False using assms(1) by linarith
  qed
  have p: "2 powr (of_int (- int n)) = 1 / (2::real) ^ n"
    using powr_neg_nat [of n] by simp
  have q: "2 powr (of_int (- int n + 1)) = 2 / (2::real) ^ n"
  proof -
    have "(2::real) powr (- real n + 1) = 2 powr (- real n) * 2 powr 1"
      by (rule powr_add)
    moreover have "real_of_int (- int n + 1) = - real n + 1" by simp
    ultimately show ?thesis by (simp add: powr_neg_nat)
  qed
  have r: "2 powr (of_int (- int n - 52)) = 1 / (2::real) ^ (n + 52)"
  proof -
    have "real_of_int (- int n - 52) = - real (n + 52)" by simp
    then show ?thesis by (simp only: powr_neg_nat)
  qed
  have 1: "2 powr (of_int (- int n)) \<le> x" using assms(1) unfolding p by (simp add: field_simps)
  have 2: "x < 2 powr (of_int (- int n + 1))" using assms(2) unfolding q by (simp add: field_simps)
  have "round64 x = of_int (round_half_even (x / (1 / 2 ^ (n + 52)))) * (1 / 2 ^ (n + 52))"
    using round64_binade [OF x 1 2] unfolding r .
  then show ?thesis by simp
qed


lemma round64_above_one:
  assumes "2 ^ n \<le> x" "x < 2 * 2 ^ n" "n \<le> 52"
  shows "round64 x = of_int (round_half_even (x * 2 ^ (52 - n))) / 2 ^ (52 - n)"
proof -
  have x: "0 < x"
    using assms(1) zero_less_power [of "2::real" n] by linarith
  have p: "2 powr (of_int (int n)) = (2::real) ^ n"
    by (simp add: powr_realpow)
  have q: "2 powr (of_int (int n + 1)) = 2 * (2::real) ^ n"
  proof -
    have "(2::real) powr (real n + 1) = 2 powr (real n) * 2 powr 1"
      by (rule powr_add)
    moreover have "real_of_int (int n + 1) = real n + 1" by simp
    ultimately show ?thesis by (simp add: powr_realpow)
  qed
  have r: "2 powr (of_int (int n - 52)) = 1 / (2::real) ^ (52 - n)"
  proof -
    have "real_of_int (int n - 52) = - real (52 - n)" using assms(3) by simp
    then show ?thesis by (simp only: powr_neg_nat)
  qed
  have 1: "2 powr (of_int (int n)) \<le> x" using assms(1) unfolding p .
  have 2: "x < 2 powr (of_int (int n + 1))" using assms(2) unfolding q .
  have "round64 x = of_int (round_half_even (x / (1 / 2 ^ (52 - n)))) * (1 / 2 ^ (52 - n))"
    using round64_binade [OF x 1 2] unfolding r .
  then show ?thesis by simp
qed

subsection \<open>Order\<close>

text \<open>Rounding keeps a non-negative number non-negative, its result has a significand of
  at most \<open>2 ^ 53\<close>, and it does not fall below a double under the number. So adding a
  non-negative number to a double never gives a smaller double.\<close>

lemma round_half_even_ge_floor: "\<lfloor>x\<rfloor> \<le> round_half_even x"
  by (simp add: round_half_even_def Let_def)

lemma round_half_even_le_int:
  assumes "x \<le> of_int n"
  shows "round_half_even x \<le> n"
proof (cases "x = of_int \<lfloor>x\<rfloor>")
  case True
  then have "round_half_even x = \<lfloor>x\<rfloor>" by (simp add: round_half_even_def Let_def)
  then show ?thesis using assms by (simp add: floor_le_iff)
next
  case False
  then have "of_int \<lfloor>x\<rfloor> < x" using of_int_floor_le [of x] by linarith
  then have "of_int \<lfloor>x\<rfloor> < (of_int n :: real)" using assms by linarith
  then have "\<lfloor>x\<rfloor> < n" by simp
  moreover have "round_half_even x \<le> \<lfloor>x\<rfloor> + 1" by (simp add: round_half_even_def Let_def)
  ultimately show ?thesis by linarith
qed

lemma binade_bounds:
  assumes "0 < x"
  shows "2 powr (of_int \<lfloor>Transcendental.log 2 x\<rfloor>) \<le> x" "x < 2 powr (of_int (\<lfloor>Transcendental.log 2 x\<rfloor> + 1))"
proof -
  have "(real_of_int \<lfloor>Transcendental.log 2 x\<rfloor> \<le> Transcendental.log 2 x) = (2 powr (of_int \<lfloor>Transcendental.log 2 x\<rfloor>) \<le> x)"
    by (rule le_log_iff) (use assms in simp_all)
  then show "2 powr (of_int \<lfloor>Transcendental.log 2 x\<rfloor>) \<le> x"
    using of_int_floor_le [of "Transcendental.log 2 x"] by blast
  have "(Transcendental.log 2 x < real_of_int (\<lfloor>Transcendental.log 2 x\<rfloor> + 1)) = (x < 2 powr (of_int (\<lfloor>Transcendental.log 2 x\<rfloor> + 1)))"
    by (rule log_less_iff) (use assms in simp_all)
  moreover have "Transcendental.log 2 x < real_of_int (\<lfloor>Transcendental.log 2 x\<rfloor> + 1)"
    using floor_correct [of "Transcendental.log 2 x"] by simp
  ultimately show "x < 2 powr (of_int (\<lfloor>Transcendental.log 2 x\<rfloor> + 1))" by blast
qed

lemma round64_pos:
  assumes "0 < x"
  shows "round64 x = of_int (round_half_even (x / 2 powr (of_int (\<lfloor>Transcendental.log 2 x\<rfloor> - 52)))) *
           2 powr (of_int (\<lfloor>Transcendental.log 2 x\<rfloor> - 52))"
  using assms by (simp add: round64_def Let_def)

lemma round64_nonneg:
  assumes "0 \<le> x"
  shows "0 \<le> round64 x"
proof (cases "x = 0")
  case True
  then show ?thesis by (simp add: round64_def)
next
  case False
  then have x: "0 < x" using assms by simp
  let ?u = "(2::real) powr (of_int (\<lfloor>Transcendental.log 2 x\<rfloor> - 52))"
  have "0 \<le> x / ?u" using x by simp
  then have "0 \<le> \<lfloor>x / ?u\<rfloor>" by simp
  then have "0 \<le> round_half_even (x / ?u)"
    using round_half_even_ge_floor [of "x / ?u"] by linarith
  then show ?thesis unfolding round64_pos [OF x] by simp
qed

lemma round64_significand:
  assumes "0 < x"
  shows "\<exists>q e. round64 x = of_int q * 2 powr (of_int e) \<and> 0 \<le> q \<and> q \<le> 2 ^ 53"
proof -
  let ?k = "\<lfloor>Transcendental.log 2 x\<rfloor>"
  let ?u = "(2::real) powr (of_int (?k - 52))"
  have u: "0 < ?u" by simp
  have s: "2 powr (of_int (?k + 1)) = 2 ^ 53 * ?u"
  proof -
    have "(2::real) powr (real_of_int (?k - 52) + 53) = 2 powr (real_of_int (?k - 52)) * 2 powr 53"
      by (rule powr_add)
    moreover have "real_of_int (?k - 52) + 53 = real_of_int (?k + 1)" by simp
    moreover have "(2::real) powr 53 = 2 ^ 53"
      using powr_realpow [of "2::real" 53] by simp
    ultimately show ?thesis by (simp add: ac_simps)
  qed
  have "x < 2 ^ 53 * ?u" using binade_bounds(2) [OF assms] unfolding s .
  then have "x / ?u \<le> 2 ^ 53" using u by (simp add: field_simps)
  then have "x / ?u \<le> of_int (2 ^ 53)" by simp
  then have 1: "round_half_even (x / ?u) \<le> 2 ^ 53" by (rule round_half_even_le_int)
  have "0 \<le> \<lfloor>x / ?u\<rfloor>" using assms by simp
  then have 2: "0 \<le> round_half_even (x / ?u)"
    using round_half_even_ge_floor [of "x / ?u"] by linarith
  show ?thesis using round64_pos [OF assms] 1 2 by blast
qed

lemma round64_lower:
  assumes "0 < r" "0 \<le> q" "q \<le> 2 ^ 53" "of_int q * 2 powr (of_int e) \<le> r"
  shows "of_int q * 2 powr (of_int e) \<le> round64 r"
proof -
  let ?k = "\<lfloor>Transcendental.log 2 r\<rfloor>"
  let ?u = "(2::real) powr (of_int (?k - 52))"
  have u: "0 < ?u" by simp
  have f: "of_int \<lfloor>r / ?u\<rfloor> * ?u \<le> round64 r"
    unfolding round64_pos [OF assms(1)]
    using round_half_even_ge_floor [of "r / ?u"] u by simp
  have "real_of_int q * 2 powr (of_int e) \<le> of_int \<lfloor>r / ?u\<rfloor> * ?u"
  proof (cases "?k - 52 \<le> e")
    case True
    define m where "m = nat (e - (?k - 52))"
    have "(2::real) powr (real_of_int (?k - 52) + real m) = 2 powr (real_of_int (?k - 52)) * 2 powr (real m)"
      by (rule powr_add)
    moreover have "real_of_int (?k - 52) + real m = real_of_int e" using True by (simp add: m_def)
    ultimately have e: "2 powr (of_int e) = ?u * 2 ^ m" by (simp add: powr_realpow)
    have "of_int (q * 2 ^ m) * ?u \<le> r" using assms(4) unfolding e by (simp add: mult.commute mult.left_commute)
    then have "of_int (q * 2 ^ m) \<le> r / ?u" using u by (simp add: field_simps)
    then have "q * 2 ^ m \<le> \<lfloor>r / ?u\<rfloor>" by (simp add: le_floor_iff)
    then have "real_of_int (q * 2 ^ m) \<le> of_int \<lfloor>r / ?u\<rfloor>" by (simp only: of_int_le_iff)
    then have "real_of_int (q * 2 ^ m) * ?u \<le> of_int \<lfloor>r / ?u\<rfloor> * ?u"
      using u by (simp only: mult_le_cancel_right_pos)
    then show ?thesis unfolding e by (simp add: mult.commute mult.left_commute)
  next
    case False
    then have le: "e + 53 \<le> ?k" by simp
    have "(2::real) powr (real_of_int e + 53) = 2 powr (real_of_int e) * 2 powr 53"
      by (rule powr_add)
    moreover have "(2::real) powr 53 = 2 ^ 53"
      using powr_realpow [of "2::real" 53] by simp
    ultimately have a: "2 ^ 53 * 2 powr (of_int e) = (2::real) powr (of_int (e + 53))"
      by (simp add: add.commute)
    have "real_of_int q \<le> 2 ^ 53" using assms(3) by (metis of_int_le_iff of_int_numeral of_int_power)
    then have "real_of_int q * 2 powr (of_int e) \<le> 2 ^ 53 * 2 powr (of_int e)"
      by (simp add: mult_right_mono)
    also have "\<dots> = 2 powr (of_int (e + 53))" by (rule a)
    also have "\<dots> \<le> 2 powr (of_int ?k)" using le by simp
    finally have x: "real_of_int q * 2 powr (of_int e) \<le> 2 powr (of_int ?k)" .
    have "(2::real) powr (real_of_int (?k - 52) + 52) = 2 powr (real_of_int (?k - 52)) * 2 powr 52"
      by (rule powr_add)
    moreover have "(2::real) powr 52 = 2 ^ 52"
      using powr_realpow [of "2::real" 52] by simp
    moreover have "real_of_int (?k - 52) + 52 = real_of_int ?k" by simp
    ultimately have k: "2 powr (of_int ?k) = 2 ^ 52 * ?u" by (simp add: ac_simps)
    have "2 ^ 52 * ?u \<le> r" using binade_bounds(1) [OF assms(1)] unfolding k .
    then have "of_int (2 ^ 52) \<le> r / ?u" using u by (simp add: field_simps)
    then have "2 ^ 52 \<le> \<lfloor>r / ?u\<rfloor>" by (simp only: le_floor_iff)
    then have "real_of_int (2 ^ 52) \<le> of_int \<lfloor>r / ?u\<rfloor>" by (simp only: of_int_le_iff)
    then have "real_of_int (2 ^ 52) * ?u \<le> of_int \<lfloor>r / ?u\<rfloor> * ?u"
      using u by (simp only: mult_le_cancel_right_pos)
    then have "2 powr (of_int ?k) \<le> of_int \<lfloor>r / ?u\<rfloor> * ?u" unfolding k by simp
    then show ?thesis using x by linarith
  qed
  then show ?thesis using f by linarith
qed

lemma round64_add_mono:
  assumes "0 \<le> x" "0 \<le> c"
  shows "round64 x \<le> round64 (round64 x + c)"
proof (cases "round64 x + c = 0")
  case True
  then have "round64 x = 0" using round64_nonneg [OF assms(1)] assms(2) by linarith
  then show ?thesis using True by (simp add: round64_def)
next
  case False
  then have r: "0 < round64 x + c" using round64_nonneg [OF assms(1)] assms(2) by linarith
  show ?thesis
  proof (cases "x = 0")
    case True
    then have "round64 x = 0" by (simp add: round64_def)
    then show ?thesis using round64_nonneg [of "round64 x + c"] r by simp
  next
    case False
    then have "0 < x" using assms(1) by simp
    then obtain q e where q: "round64 x = of_int q * 2 powr (of_int e)" "0 \<le> q" "q \<le> 2 ^ 53"
      using round64_significand by blast
    have "of_int q * 2 powr (of_int e) \<le> round64 x + c" using q(1) assms(2) by linarith
    then have "of_int q * 2 powr (of_int e) \<le> round64 (round64 x + c)"
      by (rule round64_lower [OF r q(2,3)])
    then show ?thesis using q(1) by simp
  qed
qed

subsection \<open>The constants and sums of the engine\<close>

text \<open>
  The doubles denoted by the literals of the engine, and the sums that occur in the
  sample runs below: \<open>0.25 + 0.2\<close> is \<open>0.45\<close>, \<open>0.45 + 0.4\<close> is \<open>0.8500000000000001\<close> (a
  tie, rounded to the even significand), \<open>0.45 + 0.15\<close> is \<open>0.6\<close>, \<open>0.6 + 0.4\<close> is \<open>1\<close>;
  adding \<open>0.02\<close> repeatedly gives \<open>0.04\<close>, \<open>0.06\<close>, \<open>0.08\<close>, \<open>0.1\<close> and then
  \<open>0.12000000000000001\<close>, while \<open>6 * 0.02\<close> is \<open>0.12\<close>. The arguments are written as
  fractions in lowest terms.
\<close>

lemma double_0_25: "round64 (1 / 4) = 1 / 2 ^ 2"
  using round64_below_one [of "1 / 4" 2]
  by (simp add: round_half_even_def Let_def)

lemma double_0_1: "round64 (1 / 10) = 3602879701896397 / 2 ^ 55"
  using round64_below_one [of "1 / 10" 4]
  by (simp add: round_half_even_def Let_def)

lemma double_0_2: "round64 (1 / 5) = 3602879701896397 / 2 ^ 54"
  using round64_below_one [of "1 / 5" 3]
  by (simp add: round_half_even_def Let_def)

lemma double_0_15: "round64 (3 / 20) = 5404319552844595 / 2 ^ 55"
  using round64_below_one [of "3 / 20" 3]
  by (simp add: round_half_even_def Let_def)

lemma double_0_4: "round64 (2 / 5) = 3602879701896397 / 2 ^ 53"
  using round64_below_one [of "2 / 5" 2]
  by (simp add: round_half_even_def Let_def)

lemma double_0_95: "round64 (19 / 20) = 4278419646001971 / 2 ^ 52"
  using round64_below_one [of "19 / 20" 1]
  by (simp add: round_half_even_def Let_def)

lemma double_0_02: "round64 (1 / 50) = 5764607523034235 / 2 ^ 58"
  using round64_below_one [of "1 / 50" 6]
  by (simp add: round_half_even_def Let_def)

lemma double_75: "round64 (75) = 75"
  using round64_above_one [of 6 "75"]
  by (simp add: round_half_even_def Let_def)

lemma double_0_75: "round64 (3 / 4) = 3 / 2 ^ 2"
  using round64_below_one [of "3 / 4" 1]
  by (simp add: round_half_even_def Let_def)

lemma double_sum_0_45: "round64 (8106479329266893 / 18014398509481984) = 8106479329266893 / 2 ^ 54"
  using round64_below_one [of "8106479329266893 / 18014398509481984" 2]
  by (simp add: round_half_even_def Let_def)

lemma double_sum_0_85: "round64 (15312238733059687 / 18014398509481984) = 1914029841632461 / 2 ^ 51"
  using round64_below_one [of "15312238733059687 / 18014398509481984" 1]
  by (simp add: round_half_even_def Let_def)

lemma double_0_85: "round64 (1914029841632461 / 2251799813685248) = 1914029841632461 / 2 ^ 51"
  using round64_below_one [of "1914029841632461 / 2251799813685248" 1]
  by (simp add: round_half_even_def Let_def)

lemma double_sum_0_6: "round64 (21617278211378381 / 36028797018963968) = 5404319552844595 / 2 ^ 53"
  using round64_below_one [of "21617278211378381 / 36028797018963968" 1]
  by (simp add: round_half_even_def Let_def)

lemma double_1: "round64 (1) = 1"
  using round64_above_one [of 0 "1"]
  by (simp add: round_half_even_def Let_def)

lemma double_0_95_exact: "round64 (4278419646001971 / 4503599627370496) = 4278419646001971 / 2 ^ 52"
  using round64_below_one [of "4278419646001971 / 4503599627370496" 1]
  by (simp add: round_half_even_def Let_def)

lemma double_0_15_exact: "round64 (5404319552844595 / 36028797018963968) = 5404319552844595 / 2 ^ 55"
  using round64_below_one [of "5404319552844595 / 36028797018963968" 3]
  by (simp add: round_half_even_def Let_def)

lemma double_0_02_exact: "round64 (5764607523034235 / 288230376151711744) = 5764607523034235 / 2 ^ 58"
  using round64_below_one [of "5764607523034235 / 288230376151711744" 6]
  by (simp add: round_half_even_def Let_def)

lemma double_sum_0_02_2: "round64 (5764607523034235 / 144115188075855872) = 5764607523034235 / 2 ^ 57"
  using round64_below_one [of "5764607523034235 / 144115188075855872" 5]
  by (simp add: round_half_even_def Let_def)

lemma double_sum_0_02_3: "round64 (17293822569102705 / 288230376151711744) = 1080863910568919 / 2 ^ 54"
  using round64_below_one [of "17293822569102705 / 288230376151711744" 5]
  by (simp add: round_half_even_def Let_def)

lemma double_sum_0_02_4: "round64 (23058430092136939 / 288230376151711744) = 5764607523034235 / 2 ^ 56"
  using round64_below_one [of "23058430092136939 / 288230376151711744" 4]
  by (simp add: round_half_even_def Let_def)

lemma double_sum_0_02_5: "round64 (28823037615171175 / 288230376151711744) = 3602879701896397 / 2 ^ 55"
  using round64_below_one [of "28823037615171175 / 288230376151711744" 4]
  by (simp add: round_half_even_def Let_def)

lemma double_sum_0_02_6: "round64 (34587645138205411 / 288230376151711744) = 8646911284551353 / 2 ^ 56"
  using round64_below_one [of "34587645138205411 / 288230376151711744" 4]
  by (simp add: round_half_even_def Let_def)

lemma double_product_0_12: "round64 (17293822569102705 / 144115188075855872) = 1080863910568919 / 2 ^ 53"
  using round64_below_one [of "17293822569102705 / 144115188075855872" 4]
  by (simp add: round_half_even_def Let_def)

lemma double_0_04: "round64 (1 / 25) = 5764607523034235 / 2 ^ 57"
  using round64_below_one [of "1 / 25" 5]
  by (simp add: round_half_even_def Let_def)

lemma double_0_06: "round64 (3 / 50) = 1080863910568919 / 2 ^ 54"
  using round64_below_one [of "3 / 50" 5]
  by (simp add: round_half_even_def Let_def)

lemma double_0_08: "round64 (2 / 25) = 5764607523034235 / 2 ^ 56"
  using round64_below_one [of "2 / 25" 4]
  by (simp add: round_half_even_def Let_def)

lemma double_0_12: "round64 (3 / 25) = 1080863910568919 / 2 ^ 53"
  using round64_below_one [of "3 / 25" 4]
  by (simp add: round_half_even_def Let_def)


section \<open>Verified properties of the signal engine\<close>

subsection \<open>What each operation leaves unchanged\<close>

lemma log_fields [simp]:
  "priceHistory (log t s e) = priceHistory e" "objects (log t s e) = objects e"
  "activeTrades (log t s e) = activeTrades e" "tradeJournal (log t s e) = tradeJournal e"
  "stats (log t s e) = stats e" "isRunning (log t s e) = isRunning e"
  "stake (log t s e) = stake e" "symbolAdjustments (log t s e) = symbolAdjustments e"
  "timers (log t s e) = timers e" "out (log t s e) = out e @ [Log t s]"
  by (simp_all add: log_def)

lemma engine_updateStats_fields [simp]:
  "priceHistory (engine_updateStats e) = priceHistory e"
  "objects (engine_updateStats e) = objects e"
  "activeTrades (engine_updateStats e) = activeTrades e"
  "tradeJournal (engine_updateStats e) = tradeJournal e"
  "isRunning (engine_updateStats e) = isRunning e"
  "stake (engine_updateStats e) = stake e"
  "symbolAdjustments (engine_updateStats e) = symbolAdjustments e"
  "timers (engine_updateStats e) = timers e"
  "stats (engine_updateStats e) = (stats e)\<lparr>activeTradesCount := length (activeTrades e)\<rparr>"
  by (simp_all add: engine_updateStats_def Let_def)

lemma update_trade_fields [simp]:
  "priceHistory (update_trade tick e entry) = priceHistory e"
  "activeTrades (update_trade tick e entry) = activeTrades e"
  "tradeJournal (update_trade tick e entry) = tradeJournal e"
  "stats (update_trade tick e entry) = stats e"
  "isRunning (update_trade tick e entry) = isRunning e"
  "stake (update_trade tick e entry) = stake e"
  "symbolAdjustments (update_trade tick e entry) = symbolAdjustments e"
  "timers (update_trade tick e entry) = timers e"
  by (simp_all add: update_trade_def Let_def)

lemma update_trades_fields [simp]:
  "priceHistory (foldl (update_trade tick) e es) = priceHistory e"
  "activeTrades (foldl (update_trade tick) e es) = activeTrades e"
  "tradeJournal (foldl (update_trade tick) e es) = tradeJournal e"
  "stats (foldl (update_trade tick) e es) = stats e"
  "isRunning (foldl (update_trade tick) e es) = isRunning e"
  "stake (foldl (update_trade tick) e es) = stake e"
  "symbolAdjustments (foldl (update_trade tick) e es) = symbolAdjustments e"
  "timers (foldl (update_trade tick) e es) = timers e"
  by (induction es arbitrary: e) simp_all

lemma updateActiveTrades_fields [simp]:
  "priceHistory (updateActiveTrades tick e) = priceHistory e"
  "activeTrades (updateActiveTrades tick e) = activeTrades e"
  "tradeJournal (updateActiveTrades tick e) = tradeJournal e"
  "isRunning (updateActiveTrades tick e) = isRunning e"
  "stake (updateActiveTrades tick e) = stake e"
  "symbolAdjustments (updateActiveTrades tick e) = symbolAdjustments e"
  "timers (updateActiveTrades tick e) = timers e"
  "stats (updateActiveTrades tick e) = (stats e)\<lparr>activeTradesCount := length (activeTrades e)\<rparr>"
  "objects (updateActiveTrades tick e) = objects (foldl (update_trade tick) e (activeTrades e))"
  by (simp_all add: updateActiveTrades_def)

lemma engine_executeTrade_fields [simp]:
  "priceHistory (engine_executeTrade now sig e) = priceHistory e"
  "tradeJournal (engine_executeTrade now sig e) = tradeJournal e"
  "stats (engine_executeTrade now sig e) = stats e"
  "isRunning (engine_executeTrade now sig e) = isRunning e"
  "stake (engine_executeTrade now sig e) = stake e"
  "symbolAdjustments (engine_executeTrade now sig e) = symbolAdjustments e"
  "timers (engine_executeTrade now sig e) = timers e"
  "activeTrades (engine_executeTrade now sig e) =
     AList.update (TradeSignal.symbol sig @ ''_'' @ direction_string (TradeSignal.direction sig)
                    @ ''_'' @ string_of_nat now) (length (objects e)) (activeTrades e)"
  "objects (engine_executeTrade now sig e) = objects e @
     [\<lparr>id_trade = TradeSignal.symbol sig @ ''_'' @ direction_string (TradeSignal.direction sig)
                    @ ''_'' @ string_of_nat now, symbol = TradeSignal.symbol sig,
       direction = TradeSignal.direction sig, entryPrice = 0, currentPrice = 0,
       stake = stake e, profit = 0, status = trade_pending, openTime = now,
       closeTime = None, result = None\<rparr>]"
  by (simp_all add: engine_executeTrade_def Let_def)


subsection \<open>A tick that leads to an order\<close>

lemma handleTick_analysis:
  assumes "isRunning e" "priceHistory e (TickUpdate.symbol tick) = Some h"
    "length h < HISTORY_SIZE" "29 \<le> length h"
  shows "handleTick now tick e =
           analyzeSymbol now (TickUpdate.symbol tick) (quote tick)
             (updateActiveTrades tick
               (e\<lparr>priceHistory := (priceHistory e)(TickUpdate.symbol tick \<mapsto> h @ [quote tick])\<rparr>))"
  using assms by (simp add: handleTick_def Let_def)

text \<open>When the engine is not paused and the adjusted probability reaches the threshold,
  the signal is emitted, and the order is placed unless the map has the key
  \<open>symbol_direction\<close>.\<close>

lemma analyzeSymbol_signal:
  assumes "\<not> isPaused (stats e)" "priceHistory e symb = Some h"
    "calculateTradeProbability symb price (calculateAllIndicators h None None) = (prob, dir)"
    "MIN_PROBABILITY \<le> clamp01 (fsub prob (adjustment_of symb e))"
    "map_of (activeTrades e) (symb @ ''_'' @ direction_string dir) = None"
  shows "analyzeSymbol now symb price e =
           engine_executeTrade now
             \<lparr>TradeSignal.symbol = symb, TradeSignal.direction = dir,
               probability = clamp01 (fsub prob (adjustment_of symb e)),
               indicators = calculateAllIndicators h None None, timestamp = now\<rparr>
             ((log LogSignal (Some symb) e)
                \<lparr>out := out e @ [Log LogSignal (Some symb),
                   SignalEvent \<lparr>TradeSignal.symbol = symb, TradeSignal.direction = dir,
                     probability = clamp01 (fsub prob (adjustment_of symb e)),
                     indicators = calculateAllIndicators h None None, timestamp = now\<rparr>]\<rparr>)"
  using assms by (simp add: analyzeSymbol_def Let_def adjustment_of_def log_def)

subsection \<open>The sample run\<close>

lemma engine_warm_fields:
  "isRunning engine_warm" "\<not> isPaused (stats engine_warm)" "activeTrades engine_warm = []"
  "objects engine_warm = []" "symbolAdjustments engine_warm = Map.empty" "stake engine_warm = 1"
  "priceHistory engine_warm ''R_10'' = Some hist29"
  by (simp_all add: hist29_def engine_warm_def feed_def start_def new_TradingEngine_def SYMBOLS_def log_def
      handleTick_def updateActiveTrades_def engine_updateStats_def tick_R10_def HISTORY_SIZE_def
      Let_def DEFAULT_STAKE_def eval_nat_numeral)

lemma hist_snoc: "hist29 @ [100] = hist30" "hist30 @ [100] = hist31"
  by (simp_all add: hist29_def hist30_def hist31_def eval_nat_numeral)

lemma hist_length: "length hist29 = 29" "length hist30 = 30"
  by (simp_all add: hist29_def hist30_def)

lemma hist30_list: "hist30 = [101,100,100,100,100,100,100,100,100,100,100,100,100,100,100,100,100,100,100,100,100,100,100,100,100,100,100,100,100,100]"
  by (simp add: hist30_def eval_nat_numeral)

lemma hist31_list: "hist31 = [101,100,100,100,100,100,100,100,100,100,100,100,100,100,100,100,100,100,100,100,100,100,100,100,100,100,100,100,100,100,100]"
  by (simp add: hist31_def eval_nat_numeral)

lemma upt30: "[1..<30] = [1,2,3,4,5,6,7,8,9,10,11,12,13,14,15,16,17,18,19,20,21,22,23,24,25,26,27,28,29]"
  by (simp add: upt_rec)

lemma upt31: "[1..<31] = [1,2,3,4,5,6,7,8,9,10,11,12,13,14,15,16,17,18,19,20,21,22,23,24,25,26,27,28,29,30]"
  by (simp add: upt_rec)

lemma rsi30: "calculateRSI hist30 14 = Some 0"
  unfolding hist30_list
  by (simp add: calculateRSI_def rsi_averages_def rsi_initial_step_def rsi_smooth_step_def Let_def)

lemma rsi31: "calculateRSI hist31 14 = Some 0"
  unfolding hist31_list
  by (simp add: calculateRSI_def rsi_averages_def rsi_initial_step_def rsi_smooth_step_def Let_def)

lemma adx30: "calculateADX hist30 hist30 hist30 14 = Some (Num 100)"
  unfolding hist30_list
  by (simp add: calculateADX_def adx_loop_def adx_step_def adx_dx_def trueRanges_def plusDM_def
      minusDM_def reduce_sum_def upt30 Let_def wilder_average_def)

lemma adx31: "calculateADX hist31 hist31 hist31 14 = Some (Num 100)"
  unfolding hist31_list
  by (simp add: calculateADX_def adx_loop_def adx_step_def adx_dx_def trueRanges_def plusDM_def
      minusDM_def reduce_sum_def upt31 Let_def wilder_average_def)

lemma boll30: "calculateBollingerBands hist30 20 2 = Some \<lparr>upper = 100, middle = 100, lower = 100\<rparr>"
  unfolding hist30_list
  by (simp add: calculateBollingerBands_def slice_last_def reduce_sum_def Let_def)

lemma boll31: "calculateBollingerBands hist31 20 2 = Some \<lparr>upper = 100, middle = 100, lower = 100\<rparr>"
  unfolding hist31_list
  by (simp add: calculateBollingerBands_def slice_last_def reduce_sum_def Let_def)

lemma sma30: "calculateSMA hist30 20 = Some 100"
  unfolding hist30_list by (simp add: calculateSMA_def slice_last_def reduce_sum_def)

lemma sma31: "calculateSMA hist31 20 = Some 100"
  unfolding hist31_list by (simp add: calculateSMA_def slice_last_def reduce_sum_def)

lemma macd30: "calculateMACD hist30 12 26 9 = None"
  by (simp add: calculateMACD_def hist30_def)

lemma macd31: "calculateMACD hist31 12 26 9 = None"
  by (simp add: calculateMACD_def hist31_def)

lemma calculateEMA_available: "period \<le> length data \<Longrightarrow> \<exists>v. calculateEMA data period = Some v"
  by (simp add: calculateEMA_def Let_def)

lemma falling_then_flat_probability:
  assumes "calculateRSI h 14 = Some 0" "calculateADX h h h 14 = Some (Num 100)"
    "calculateBollingerBands h 20 2 = Some \<lparr>upper = 100, middle = 100, lower = 100\<rparr>"
    "calculateSMA h 20 = Some 100" "calculateMACD h 12 26 9 = None" "12 \<le> length h"
  shows "calculateTradeProbability symb 100 (calculateAllIndicators h None None) =
           (1914029841632461 / 2 ^ 51, LONG)"
proof -
  obtain v where v: "calculateEMA h 12 = Some v"
    using calculateEMA_available [OF assms(6)] by blast
  let ?ind = "calculateAllIndicators h None None"
  have f: "rsi ?ind = Some 0" "adx ?ind = Some (Num 100)" "bollingerUpper ?ind = Some 100"
    "bollingerLower ?ind = Some 100" "sma ?ind = Some 100" "ema ?ind = Some v"
    "macd_snapshot ?ind = None"
    using assms v by (simp_all add: calculateAllIndicators_def Let_def or_null_def)
  have 1: "score_rsi ?ind (0, 0) = (1 / 4, 0)"
    by (simp add: score_rsi_def f RSI_OVERSOLD_def fadd_def double_0_25)
  have 2: "score_adx ?ind (1 / 4, 0) = (8106479329266893 / 2 ^ 54, 0)"
    by (simp add: score_adx_def f ADX_TREND_THRESHOLD_def Let_def fadd_def fsub_def fdiv_def
        double_0_2 double_75 double_0_75 double_sum_0_45)
  have 3: "score_bollinger 100 ?ind (8106479329266893 / 2 ^ 54, 0) = (8106479329266893 / 2 ^ 54, 0)"
    by (simp add: score_bollinger_def f Let_def fsub_def round64_def)
  have 4: "score_macd ?ind (8106479329266893 / 2 ^ 54, 0) = (8106479329266893 / 2 ^ 54, 0)"
    by (simp add: score_macd_def f)
  have 5: "score_averages 100 ?ind (8106479329266893 / 2 ^ 54, 0) = (8106479329266893 / 2 ^ 54, 0)"
    by (simp add: score_averages_def f)
  show ?thesis
    by (simp only: calculateTradeProbability_def 1 2 3 4 5)
       (simp add: Let_def fadd_def double_0_4 double_0_95 double_sum_0_85)
qed


lemma engine_first_eq:
  "engine_first =
     engine_executeTrade 2000
       \<lparr>TradeSignal.symbol = ''R_10'', TradeSignal.direction = LONG, probability = 1914029841632461 / 2 ^ 51,
         indicators = calculateAllIndicators hist30 None None, timestamp = 2000\<rparr>
       ((log LogSignal (Some ''R_10'')
          (updateActiveTrades (tick_R10 100)
            (engine_warm\<lparr>priceHistory := (priceHistory engine_warm)(''R_10'' \<mapsto> hist30)\<rparr>)))
        \<lparr>out := out (updateActiveTrades (tick_R10 100)
            (engine_warm\<lparr>priceHistory := (priceHistory engine_warm)(''R_10'' \<mapsto> hist30)\<rparr>)) @
           [Log LogSignal (Some ''R_10''),
            SignalEvent \<lparr>TradeSignal.symbol = ''R_10'', TradeSignal.direction = LONG,
              probability = 1914029841632461 / 2 ^ 51, indicators = calculateAllIndicators hist30 None None,
              timestamp = 2000\<rparr>]\<rparr>)"
proof -
  let ?e1 = "engine_warm\<lparr>priceHistory := (priceHistory engine_warm)(''R_10'' \<mapsto> hist30)\<rparr>"
  let ?e2 = "updateActiveTrades (tick_R10 100) ?e1"
  have 1: "engine_first = analyzeSymbol 2000 ''R_10'' 100 ?e2"
    unfolding engine_first_def
    using handleTick_analysis [of engine_warm "tick_R10 100" hist29 2000]
    by (simp add: engine_warm_fields tick_R10_def HISTORY_SIZE_def hist_snoc hist_length)
  have p: "calculateTradeProbability ''R_10'' 100 (calculateAllIndicators hist30 None None) = (1914029841632461 / 2 ^ 51, LONG)"
    by (rule falling_then_flat_probability [OF rsi30 adx30 boll30 sma30 macd30]) (simp add: hist30_def)
  have 2: "analyzeSymbol 2000 ''R_10'' 100 ?e2 = engine_executeTrade 2000
       \<lparr>TradeSignal.symbol = ''R_10'', TradeSignal.direction = LONG,
         probability = clamp01 (fsub (1914029841632461 / 2 ^ 51) (adjustment_of ''R_10'' ?e2)),
         indicators = calculateAllIndicators hist30 None None, timestamp = 2000\<rparr>
       ((log LogSignal (Some ''R_10'') ?e2)
        \<lparr>out := out ?e2 @
           [Log LogSignal (Some ''R_10''),
            SignalEvent \<lparr>TradeSignal.symbol = ''R_10'', TradeSignal.direction = LONG,
              probability = clamp01 (fsub (1914029841632461 / 2 ^ 51) (adjustment_of ''R_10'' ?e2)),
              indicators = calculateAllIndicators hist30 None None,
              timestamp = 2000\<rparr>]\<rparr>)"
    by (rule analyzeSymbol_signal [OF _ _ p])
       (simp_all add: engine_warm_fields adjustment_of_def clamp01_def MIN_PROBABILITY_def
          fsub_def double_0_85)
  have c: "clamp01 (fsub (1914029841632461 / 2 ^ 51) (adjustment_of ''R_10'' ?e2)) = 1914029841632461 / 2 ^ 51"
    by (simp add: engine_warm_fields adjustment_of_def clamp01_def fsub_def double_0_85)
  show ?thesis unfolding 1 2 c ..
qed

lemma engine_first_fields:
  "isRunning engine_first" "\<not> isPaused (stats engine_first)"
  "activeTrades engine_first = [(''R_10_LONG_2000'', 0)]"
  "objects engine_first =
     [\<lparr>id_trade = ''R_10_LONG_2000'', symbol = ''R_10'', direction = LONG, entryPrice = 0,
       currentPrice = 0, stake = 1, profit = 0, status = trade_pending, openTime = 2000,
       closeTime = None, result = None\<rparr>]"
  "symbolAdjustments engine_first = Map.empty" "stake engine_first = 1"
  "priceHistory engine_first ''R_10'' = Some hist30"
  unfolding engine_first_eq
  by (simp_all add: engine_warm_fields direction_string_def string_of_nat.simps)

lemma engine_first_open_fields:
  "isRunning engine_first_open" "\<not> isPaused (stats engine_first_open)"
  "activeTrades engine_first_open = [(''R_10_LONG_2000'', 0)]"
  "objects engine_first_open =
     [\<lparr>id_trade = ''R_10_LONG_2000'', symbol = ''R_10'', direction = LONG, entryPrice = 100,
       currentPrice = 0, stake = 1, profit = 0, status = trade_open, openTime = 2000,
       closeTime = None, result = None\<rparr>]"
  "symbolAdjustments engine_first_open = Map.empty" "stake engine_first_open = 1"
  "priceHistory engine_first_open ''R_10'' = Some hist30"
  by (simp_all add: engine_first_open_def engine_executeTrade_settled_def engine_first_fields
      bought_def Let_def last_price_def hist30_def)

lemma engine_second_eq:
  "engine_second =
     engine_executeTrade 3000
       \<lparr>TradeSignal.symbol = ''R_10'', TradeSignal.direction = LONG, probability = 1914029841632461 / 2 ^ 51,
         indicators = calculateAllIndicators hist31 None None, timestamp = 3000\<rparr>
       ((log LogSignal (Some ''R_10'')
          (updateActiveTrades (tick_R10 100)
            (engine_first_open\<lparr>priceHistory := (priceHistory engine_first_open)(''R_10'' \<mapsto> hist31)\<rparr>)))
        \<lparr>out := out (updateActiveTrades (tick_R10 100)
            (engine_first_open\<lparr>priceHistory := (priceHistory engine_first_open)(''R_10'' \<mapsto> hist31)\<rparr>)) @
           [Log LogSignal (Some ''R_10''),
            SignalEvent \<lparr>TradeSignal.symbol = ''R_10'', TradeSignal.direction = LONG,
              probability = 1914029841632461 / 2 ^ 51, indicators = calculateAllIndicators hist31 None None,
              timestamp = 3000\<rparr>]\<rparr>)"
proof -
  let ?e1 = "engine_first_open\<lparr>priceHistory := (priceHistory engine_first_open)(''R_10'' \<mapsto> hist31)\<rparr>"
  let ?e2 = "updateActiveTrades (tick_R10 100) ?e1"
  have 1: "engine_second = analyzeSymbol 3000 ''R_10'' 100 ?e2"
    unfolding engine_second_def
    using handleTick_analysis [of engine_first_open "tick_R10 100" hist30 3000]
    by (simp add: engine_first_open_fields tick_R10_def HISTORY_SIZE_def hist_snoc hist_length)
  have p: "calculateTradeProbability ''R_10'' 100 (calculateAllIndicators hist31 None None) = (1914029841632461 / 2 ^ 51, LONG)"
    by (rule falling_then_flat_probability [OF rsi31 adx31 boll31 sma31 macd31]) (simp add: hist31_def)
  have 2: "analyzeSymbol 3000 ''R_10'' 100 ?e2 = engine_executeTrade 3000
       \<lparr>TradeSignal.symbol = ''R_10'', TradeSignal.direction = LONG,
         probability = clamp01 (fsub (1914029841632461 / 2 ^ 51) (adjustment_of ''R_10'' ?e2)),
         indicators = calculateAllIndicators hist31 None None, timestamp = 3000\<rparr>
       ((log LogSignal (Some ''R_10'') ?e2)
        \<lparr>out := out ?e2 @
           [Log LogSignal (Some ''R_10''),
            SignalEvent \<lparr>TradeSignal.symbol = ''R_10'', TradeSignal.direction = LONG,
              probability = clamp01 (fsub (1914029841632461 / 2 ^ 51) (adjustment_of ''R_10'' ?e2)),
              indicators = calculateAllIndicators hist31 None None,
              timestamp = 3000\<rparr>]\<rparr>)"
    by (rule analyzeSymbol_signal [OF _ _ p])
       (simp_all add: engine_first_open_fields adjustment_of_def clamp01_def MIN_PROBABILITY_def
          direction_string_def fsub_def double_0_85)
  have c: "clamp01 (fsub (1914029841632461 / 2 ^ 51) (adjustment_of ''R_10'' ?e2)) = 1914029841632461 / 2 ^ 51"
    by (simp add: engine_first_open_fields adjustment_of_def clamp01_def fsub_def double_0_85)
  show ?thesis unfolding 1 2 c ..
qed

lemma engine_second_fields:
  "activeTrades engine_second = [(''R_10_LONG_2000'', 0), (''R_10_LONG_3000'', 1)]"
  "objects engine_second =
     [\<lparr>id_trade = ''R_10_LONG_2000'', symbol = ''R_10'', direction = LONG, entryPrice = 100,
       currentPrice = 100, stake = 1, profit = 0, status = trade_open, openTime = 2000,
       closeTime = None, result = None\<rparr>,
      \<lparr>id_trade = ''R_10_LONG_3000'', symbol = ''R_10'', direction = LONG, entryPrice = 0,
       currentPrice = 0, stake = 1, profit = 0, status = trade_pending, openTime = 3000,
       closeTime = None, result = None\<rparr>]"
  unfolding engine_second_eq
  by (simp_all add: engine_first_open_fields direction_string_def string_of_nat.simps
      update_trade_def tick_R10_def direction_sign_def Let_def)

lemma engine_second_order: "last (out engine_second) = BuyCall 1 ''R_10'' CALL 1 5 unit_t"
  unfolding engine_second_eq
  by (simp add: engine_executeTrade_def Let_def log_def engine_first_open_fields update_trade_def
      tick_R10_def)

text \<open>
  Claim C1 does not hold of the code. \<open>analyzeSymbol\<close> looks for the key
  \<open>symbol_direction\<close>, while \<open>executeTrade\<close> stores every trade under
  \<open>symbol_direction_time\<close>, so the check finds nothing: in the sample run the second
  signal submits an order and opens a second long position on \<open>R_10\<close> while the first
  one is open.
\<close>

theorem duplicate_position_on_second_signal:
  "map (\<lambda>t. (Trade.symbol t, Trade.direction t, status t)) (getActiveTrades engine_first_open) =
     [(''R_10'', LONG, trade_open)] \<and>
   last (out engine_second) = BuyCall 1 ''R_10'' CALL 1 5 unit_t \<and>
   map fst (activeTrades engine_second) = [''R_10_LONG_2000'', ''R_10_LONG_3000''] \<and>
   map (\<lambda>t. (Trade.symbol t, Trade.direction t, status t)) (getActiveTrades engine_second) =
     [(''R_10'', LONG, trade_open), (''R_10'', LONG, trade_pending)]"
  by (simp add: getActiveTrades_def engine_first_open_fields engine_second_fields
      engine_second_order)

subsection \<open>Further facts about the sample run\<close>

lemma engine_warm_stats:
  "timers engine_warm = []"
  "stats engine_warm = \<lparr>totalTrades = 0, wins = 0, losses = 0, winRate = 0, totalProfit = 0,
      activeTradesCount = 0, isPaused = False, pauseReason = None\<rparr>"
  by (simp_all add: hist29_def engine_warm_def feed_def start_def new_TradingEngine_def SYMBOLS_def log_def
      handleTick_def updateActiveTrades_def engine_updateStats_def tick_R10_def HISTORY_SIZE_def
      Let_def DEFAULT_STAKE_def eval_nat_numeral)

lemma engine_first_stats:
  "timers engine_first = []"
  "stats engine_first = \<lparr>totalTrades = 0, wins = 0, losses = 0, winRate = 0, totalProfit = 0,
      activeTradesCount = 0, isPaused = False, pauseReason = None\<rparr>"
  unfolding engine_first_eq
  by (simp_all add: engine_warm_fields engine_warm_stats)

lemma engine_first_open_stats:
  "timers engine_first_open = []"
  "stats engine_first_open = \<lparr>totalTrades = 0, wins = 0, losses = 0, winRate = 0, totalProfit = 0,
      activeTradesCount = 1, isPaused = False, pauseReason = None\<rparr>"
  by (simp_all add: engine_first_open_def engine_executeTrade_settled_def engine_first_fields
      engine_first_stats bought_def Let_def)

lemma engine_second_stats:
  "timers engine_second = []" "symbolAdjustments engine_second = Map.empty"
  "stats engine_second = \<lparr>totalTrades = 0, wins = 0, losses = 0, winRate = 0, totalProfit = 0,
      activeTradesCount = 1, isPaused = False, pauseReason = None\<rparr>"
  unfolding engine_second_eq
  by (simp_all add: engine_first_open_fields engine_first_open_stats)

lemma engine_nine_fields:
  "map_of (activeTrades engine_nine) ''R_10_LONG_2000'' = Some 0"
  "timers engine_nine = []" "totalTrades (stats engine_nine) = 9" "wins (stats engine_nine) = 6"
  "\<not> isPaused (stats engine_nine)"
  by (simp_all add: engine_nine_def engine_first_open_fields engine_first_open_stats)


subsection \<open>Marking open positions to market\<close>

lemma mark_to_market_idem: "mark_to_market tick (mark_to_market tick t) = mark_to_market tick t"
  by (simp add: mark_to_market_def)

lemma objects_update_trade:
  "objects (update_trade tick e entry) =
     (objects e)[snd entry := mark_to_market tick (objects e ! snd entry)]"
  by (simp add: update_trade_def mark_to_market_def Let_def)

lemma objects_update_trades:
  "r < length (objects e) \<Longrightarrow>
   objects (foldl (update_trade tick) e es) ! r =
     (if r \<in> snd ` set es then mark_to_market tick (objects e ! r) else objects e ! r)"
proof (induction es arbitrary: e)
  case Nil
  then show ?case by simp
next
  case (Cons x es)
  let ?e' = "update_trade tick e x"
  have len: "r < length (objects ?e')"
    using Cons.prems by (simp add: objects_update_trade)
  have x: "objects ?e' ! r = (if r = snd x then mark_to_market tick (objects e ! r) else objects e ! r)"
    using Cons.prems by (simp add: objects_update_trade nth_list_update)
  show ?case
    using Cons.IH [OF len] x by (auto simp: mark_to_market_idem)
qed

lemma length_objects_update_trades [simp]:
  "length (objects (foldl (update_trade tick) e es)) = length (objects e)"
  by (induction es arbitrary: e) (simp_all add: objects_update_trade)

lemma objects_analyzeSymbol:
  "r < length (objects e) \<Longrightarrow> objects (analyzeSymbol now symb price e) ! r = objects e ! r"
  by (simp add: analyzeSymbol_def Let_def nth_append split: prod.splits)

lemma objects_handleTick:
  assumes "isRunning e" "r < length (objects e)"
  shows "objects (handleTick now tick e) ! r =
           (if r \<in> snd ` set (activeTrades e) then mark_to_market tick (objects e ! r)
            else objects e ! r)"
proof -
  let ?e1 = "e\<lparr>priceHistory := (priceHistory e)(TickUpdate.symbol tick \<mapsto>
      (let pushed = (case priceHistory e (TickUpdate.symbol tick) of None \<Rightarrow> [] | Some h \<Rightarrow> h) @ [quote tick]
       in if length pushed > HISTORY_SIZE then tl pushed else pushed))\<rparr>"
  have u: "objects (updateActiveTrades tick ?e1) ! r =
        (if r \<in> snd ` set (activeTrades e) then mark_to_market tick (objects e ! r) else objects e ! r)"
    using objects_update_trades [of r ?e1 tick "activeTrades e"] assms(2) by simp
  have l: "r < length (objects (updateActiveTrades tick ?e1))"
    using assms(2) by simp
  show ?thesis
    using assms(1) u objects_analyzeSymbol [OF l]
    by (simp add: handleTick_def Let_def)
qed

text \<open>
  Claim C5, as amended. On a tick handled by the running engine, every position in the
  map of active trades that is on the tick's instrument and has status open gets the
  tick's quote as its current price and \<open>(current - entry) \<times> direction-sign \<times> 100\<close> as
  its running profit, where the sign is +1 for a long and -1 for a short position; its
  entry price and status stay as they were.
\<close>

theorem tick_updates_open_positions:
  assumes "isRunning e" and "(k, r) \<in> set (activeTrades e)" and "r < length (objects e)"
    and "Trade.symbol (objects e ! r) = TickUpdate.symbol tick"
    and "status (objects e ! r) = trade_open"
  shows "currentPrice (objects (handleTick now tick e) ! r) = quote tick \<and>
         profit (objects (handleTick now tick e) ! r) =
           (quote tick - entryPrice (objects e ! r)) *
             (case Trade.direction (objects e ! r) of LONG \<Rightarrow> 1 | SHORT \<Rightarrow> -1) * 100 \<and>
         entryPrice (objects (handleTick now tick e) ! r) = entryPrice (objects e ! r) \<and>
         status (objects (handleTick now tick e) ! r) = trade_open"
proof -
  have "r \<in> snd ` set (activeTrades e)" using assms(2) by force
  then have "objects (handleTick now tick e) ! r = mark_to_market tick (objects e ! r)"
    using objects_handleTick [OF assms(1,3)] by simp
  then show ?thesis
    using assms(4,5) by (simp add: mark_to_market_def direction_sign_def)
qed

theorem tick_updates_open_positions_witness:
  "isRunning engine_first_open \<and>
   (''R_10_LONG_2000'', 0) \<in> set (activeTrades engine_first_open) \<and>
   Trade.symbol (objects engine_first_open ! 0) = TickUpdate.symbol (tick_R10 103) \<and>
   status (objects engine_first_open ! 0) = trade_open \<and>
   entryPrice (objects engine_first_open ! 0) = 100 \<and>
   Trade.direction (objects engine_first_open ! 0) = LONG \<and>
   currentPrice (objects (handleTick 3000 (tick_R10 103) engine_first_open) ! 0) = 103 \<and>
   profit (objects (handleTick 3000 (tick_R10 103) engine_first_open) ! 0) = 300"
  using tick_updates_open_positions [of engine_first_open "''R_10_LONG_2000''" 0 "tick_R10 103" 3000]
  by (simp add: engine_first_open_fields tick_R10_def)

theorem profit_scale_counterexample:
  "status (objects engine_first_open ! 0) = trade_open \<and>
   Trade.symbol (objects engine_first_open ! 0) = ''R_10'' \<and>
   (quote (tick_R10 103) - entryPrice (objects engine_first_open ! 0)) *
     direction_sign (Trade.direction (objects engine_first_open ! 0)) = 3 \<and>
   profit (objects (handleTick 3000 (tick_R10 103) engine_first_open) ! 0) = 300"
  using objects_handleTick [of engine_first_open 0 3000 "tick_R10 103"]
  by (simp add: engine_first_open_fields tick_R10_def mark_to_market_def direction_sign_def)


subsection \<open>Outcome recording and the calibration pause\<close>

lemma pauseForCalibration_fields [simp]:
  "timers (pauseForCalibration now e) = timers e @ [now + CALIBRATION_PAUSE_MS]"
  "symbolAdjustments (pauseForCalibration now e) = Map.empty"
  "activeTrades (pauseForCalibration now e) = activeTrades e"
  "objects (pauseForCalibration now e) = objects e"
  "stats (pauseForCalibration now e) =
     (stats e)\<lparr>activeTradesCount := length (activeTrades e), isPaused := True,
               pauseReason := Some ''Market Calibration - Win rate below threshold''\<rparr>"
  by (simp_all add: pauseForCalibration_def Let_def)

lemma closeTrade_found:
  assumes "map_of (activeTrades e) tradeId = Some r"
  shows "timers (closeTrade now tradeId res pl e) =
           (if pause_triggered (closed_stats res pl (stats e))
            then timers e @ [now + CALIBRATION_PAUSE_MS] else timers e)"
    and "symbolAdjustments (closeTrade now tradeId res pl e) =
           (if pause_triggered (closed_stats res pl (stats e)) then Map.empty
            else if res = loss
                 then (symbolAdjustments e)(Trade.symbol (objects e ! r) \<mapsto>
                        fadd (adjustment_of (Trade.symbol (objects e ! r)) e) (round64 (2 / 100)))
                 else symbolAdjustments e)"
    and "stats (closeTrade now tradeId res pl e) =
           (if pause_triggered (closed_stats res pl (stats e))
            then (closed_stats res pl (stats e))
                   \<lparr>activeTradesCount := length (AList.delete tradeId (activeTrades e)),
                    isPaused := True,
                    pauseReason := Some ''Market Calibration - Win rate below threshold''\<rparr>
            else (closed_stats res pl (stats e))
                   \<lparr>activeTradesCount := length (AList.delete tradeId (activeTrades e))\<rparr>)"
  using assms
  by (cases res; simp add: closeTrade_def Let_def pause_triggered_def closed_stats_def
        adjustment_of_def log_def)+

lemma closeTrade_found_trades:
  assumes "map_of (activeTrades e) tradeId = Some r"
  shows "activeTrades (closeTrade now tradeId res pl e) = AList.delete tradeId (activeTrades e)"
    and "objects (closeTrade now tradeId res pl e) =
           (objects e)[r := (objects e ! r)\<lparr>status := trade_closed, closeTime := Some now,
                                            result := Some res, profit := pl\<rparr>]"
  using assms
  by (cases res; simp add: closeTrade_def Let_def log_def)+

lemma closed_stats_fields [simp]:
  "totalTrades (closed_stats res pl s) = totalTrades s + 1"
  "wins (closed_stats res pl s) = (if res = win then wins s + 1 else wins s)"
  "winRate (closed_stats res pl s) =
     real (if res = win then wins s + 1 else wins s) / real (totalTrades s + 1)"
  "isPaused (closed_stats res pl s) = isPaused s"
  by (simp_all add: closed_stats_def)

lemma analyzeSymbol_paused: "isPaused (stats e) \<Longrightarrow> analyzeSymbol now symb price e = e"
  by (simp add: analyzeSymbol_def)

lemma out_update_trades:
  "filter is_signal_or_order (out (foldl (update_trade tick) e es)) = filter is_signal_or_order (out e)"
proof (induction es arbitrary: e)
  case Nil
  then show ?case by simp
next
  case (Cons x es)
  have "filter is_signal_or_order (out (update_trade tick e x)) = filter is_signal_or_order (out e)"
    by (simp add: update_trade_def Let_def)
  then show ?case using Cons.IH [of "update_trade tick e x"] by simp
qed

lemma out_updateActiveTrades:
  "filter is_signal_or_order (out (updateActiveTrades tick e)) = filter is_signal_or_order (out e)"
  by (simp add: updateActiveTrades_def engine_updateStats_def Let_def out_update_trades)

lemma handleTick_paused:
  assumes "isPaused (stats e)"
  shows "filter is_signal_or_order (out (handleTick now tick e)) = filter is_signal_or_order (out e)"
    and "activeTrades (handleTick now tick e) = activeTrades e"
    and "isPaused (stats (handleTick now tick e))"
  using assms
  by (simp_all add: handleTick_def Let_def analyzeSymbol_paused out_updateActiveTrades)

lemma calibration_timer_fires_resumes: "\<not> isPaused (stats (calibration_timer_fires due e))"
  by (simp add: calibration_timer_fires_def Let_def)

text \<open>
  Claim C6. Closing a trade that is in the map adds one to the trade count and sets the
  win rate to wins over trades; a calibration pause is triggered (the pause flag is
  set and a resume timer is scheduled for \<open>now\<close> plus the configured duration) exactly
  when the updated count is at least 10 and the updated win rate is below the floor.
  While the pause flag is set, \<open>analyzeSymbol\<close> changes nothing, and a tick adds no
  signal, no order and no position. The timer's callback clears the flag.
\<close>

theorem calibration_pause:
  assumes "map_of (activeTrades e) tradeId = Some r"
  shows "totalTrades (stats (closeTrade now tradeId res pl e)) = totalTrades (stats e) + 1 \<and>
         winRate (stats (closeTrade now tradeId res pl e)) =
           real (wins (stats (closeTrade now tradeId res pl e))) /
           real (totalTrades (stats (closeTrade now tradeId res pl e))) \<and>
         (timers (closeTrade now tradeId res pl e) =
            (if 10 \<le> totalTrades (stats (closeTrade now tradeId res pl e)) \<and>
                winRate (stats (closeTrade now tradeId res pl e)) < WIN_RATE_FLOOR
             then timers e @ [now + CALIBRATION_PAUSE_MS] else timers e)) \<and>
         (isPaused (stats (closeTrade now tradeId res pl e)) \<longleftrightarrow>
            (10 \<le> totalTrades (stats (closeTrade now tradeId res pl e)) \<and>
             winRate (stats (closeTrade now tradeId res pl e)) < WIN_RATE_FLOOR) \<or>
            isPaused (stats e)) \<and>
         (isPaused (stats e') \<longrightarrow>
            analyzeSymbol now' symb price e' = e' \<and>
            activeTrades (handleTick now' tick e') = activeTrades e' \<and>
            filter is_signal_or_order (out (handleTick now' tick e')) =
              filter is_signal_or_order (out e')) \<and>
         \<not> isPaused (stats (calibration_timer_fires (now + CALIBRATION_PAUSE_MS) e''))"
proof -
  note c = closeTrade_found [OF assms, of now res pl]
  have s: "totalTrades (stats (closeTrade now tradeId res pl e)) = totalTrades (stats e) + 1"
    "wins (stats (closeTrade now tradeId res pl e)) =
       (if res = win then wins (stats e) + 1 else wins (stats e))"
    "winRate (stats (closeTrade now tradeId res pl e)) =
       real (if res = win then wins (stats e) + 1 else wins (stats e)) / real (totalTrades (stats e) + 1)"
    "isPaused (stats (closeTrade now tradeId res pl e)) =
       (pause_triggered (closed_stats res pl (stats e)) \<or> isPaused (stats e))"
    by (simp_all add: c(3))
  have t: "pause_triggered (closed_stats res pl (stats e)) \<longleftrightarrow>
           10 \<le> totalTrades (stats (closeTrade now tradeId res pl e)) \<and>
           winRate (stats (closeTrade now tradeId res pl e)) < WIN_RATE_FLOOR"
    unfolding s by (simp add: pause_triggered_def)
  have 1: "totalTrades (stats (closeTrade now tradeId res pl e)) = totalTrades (stats e) + 1"
    by (rule s(1))
  have 2: "winRate (stats (closeTrade now tradeId res pl e)) =
           real (wins (stats (closeTrade now tradeId res pl e))) /
           real (totalTrades (stats (closeTrade now tradeId res pl e)))"
    unfolding s by simp
  have 3: "timers (closeTrade now tradeId res pl e) =
            (if 10 \<le> totalTrades (stats (closeTrade now tradeId res pl e)) \<and>
                winRate (stats (closeTrade now tradeId res pl e)) < WIN_RATE_FLOOR
             then timers e @ [now + CALIBRATION_PAUSE_MS] else timers e)"
    using c(1) t by simp
  have 4: "isPaused (stats (closeTrade now tradeId res pl e)) \<longleftrightarrow>
            (10 \<le> totalTrades (stats (closeTrade now tradeId res pl e)) \<and>
             winRate (stats (closeTrade now tradeId res pl e)) < WIN_RATE_FLOOR) \<or>
            isPaused (stats e)"
    using s(4) t by simp
  have 5: "isPaused (stats e') \<longrightarrow>
            analyzeSymbol now' symb price e' = e' \<and>
            activeTrades (handleTick now' tick e') = activeTrades e' \<and>
            filter is_signal_or_order (out (handleTick now' tick e')) =
              filter is_signal_or_order (out e')"
    using analyzeSymbol_paused handleTick_paused by blast
  show ?thesis
    using 1 2 3 4 5 calibration_timer_fires_resumes by blast
qed

theorem calibration_pause_witness:
  "map_of (activeTrades engine_nine) ''R_10_LONG_2000'' = Some 0 \<and>
   totalTrades (stats (closeTrade 5000 ''R_10_LONG_2000'' loss (- 1) engine_nine)) = 10 \<and>
   winRate (stats (closeTrade 5000 ''R_10_LONG_2000'' loss (- 1) engine_nine)) = 6 / 10 \<and>
   timers (closeTrade 5000 ''R_10_LONG_2000'' loss (- 1) engine_nine) = [65000] \<and>
   isPaused (stats (closeTrade 5000 ''R_10_LONG_2000'' loss (- 1) engine_nine)) \<and>
   analyzeSymbol 6000 ''R_10'' 100 (closeTrade 5000 ''R_10_LONG_2000'' loss (- 1) engine_nine) =
     closeTrade 5000 ''R_10_LONG_2000'' loss (- 1) engine_nine \<and>
   \<not> isPaused (stats (calibration_timer_fires 65000
         (closeTrade 5000 ''R_10_LONG_2000'' loss (- 1) engine_nine))) \<and>
   map_of (activeTrades engine_first_open) ''R_10_LONG_2000'' = Some 0 \<and>
   timers (closeTrade 5000 ''R_10_LONG_2000'' loss (- 1) engine_first_open) = [] \<and>
   \<not> isPaused (stats (closeTrade 5000 ''R_10_LONG_2000'' loss (- 1) engine_first_open))"
proof -
  let ?e = "closeTrade 5000 ''R_10_LONG_2000'' loss (- 1) engine_nine"
  let ?f = "closeTrade 5000 ''R_10_LONG_2000'' loss (- 1) engine_first_open"
  have w: "wins (stats ?e) = 6" "wins (stats ?f) = 0"
    using closeTrade_found(3) [of engine_nine "''R_10_LONG_2000''" 0 5000 loss "- 1"]
      closeTrade_found(3) [of engine_first_open "''R_10_LONG_2000''" 0 5000 loss "- 1"]
    by (simp_all add: engine_nine_fields engine_first_open_fields engine_first_open_stats)
  have a: "map_of (activeTrades engine_nine) ''R_10_LONG_2000'' = Some 0"
    by (rule engine_nine_fields)
  have b: "map_of (activeTrades engine_first_open) ''R_10_LONG_2000'' = Some 0"
    by (simp add: engine_first_open_fields)
  show ?thesis
    using calibration_pause [OF a, of 5000 loss "- 1" ?e 6000 "''R_10''" 100 "tick_R10 100" ?e]
      calibration_pause [OF b, of 5000 loss "- 1" ?e 6000 "''R_10''" 100 "tick_R10 100" ?e]
      w
    by (simp add: engine_nine_fields engine_first_open_fields engine_first_open_stats
        WIN_RATE_FLOOR_def CALIBRATION_PAUSE_MS_def)
qed

subsection \<open>The adaptive adjustment\<close>

lemma start_frame [simp]:
  "symbolAdjustments (start e) = symbolAdjustments e" "timers (start e) = timers e"
proof -
  have "symbolAdjustments (foldl (\<lambda>e s. log LogInfo (Some s) e) e' xs) = symbolAdjustments e' \<and>
        timers (foldl (\<lambda>e s. log LogInfo (Some s) e) e' xs) = timers e'" for e' xs
    by (induction xs arbitrary: e') simp_all
  then show "symbolAdjustments (start e) = symbolAdjustments e" "timers (start e) = timers e"
    by (simp_all add: start_def)
qed

lemma stop_frame [simp]:
  "symbolAdjustments (stop e) = symbolAdjustments e" "timers (stop e) = timers e"
  by (simp_all add: stop_def)

lemma analyzeSymbol_frame [simp]:
  "symbolAdjustments (analyzeSymbol now symb price e) = symbolAdjustments e"
  "timers (analyzeSymbol now symb price e) = timers e"
  by (simp_all add: analyzeSymbol_def Let_def split: prod.splits)

lemma handleTick_frame [simp]:
  "symbolAdjustments (handleTick now tick e) = symbolAdjustments e"
  "timers (handleTick now tick e) = timers e"
  by (simp_all add: handleTick_def Let_def)

lemma settled_frame [simp]:
  "symbolAdjustments (engine_executeTrade_settled r outcome e) = symbolAdjustments e"
  "timers (engine_executeTrade_settled r outcome e) = timers e"
  by (simp_all add: engine_executeTrade_settled_def Let_def)

lemma timer_frame [simp]:
  "symbolAdjustments (calibration_timer_fires due e) = symbolAdjustments e"
  "length (timers (calibration_timer_fires due e)) \<le> length (timers e)"
  by (simp_all add: calibration_timer_fires_def Let_def length_remove1)

lemma setStake_frame [simp]:
  "symbolAdjustments (setStake s e) = symbolAdjustments e" "timers (setStake s e) = timers e"
  by (simp_all add: setStake_def)

lemma closeTrade_missing: "map_of (activeTrades e) tradeId = None \<Longrightarrow> closeTrade now tradeId res pl e = e"
  by (simp add: closeTrade_def)

lemma adjustment_step:
  "adjustment_of symb (engine_step i e) =
     (if pause_begins i e then 0
      else if recorded_loss symb i e then fadd (adjustment_of symb e) (round64 (2 / 100))
      else adjustment_of symb e)"
proof (cases i)
  case (CloseTrade now tradeId res pl)
  show ?thesis
  proof (cases "map_of (activeTrades e) tradeId")
    case None
    then show ?thesis
      by (simp add: CloseTrade closeTrade_missing pause_begins_def recorded_loss_def)
  next
    case (Some r)
    note c = closeTrade_found [OF Some, of now res pl]
    have p: "pause_begins i e = pause_triggered (closed_stats res pl (stats e))"
      by (simp add: CloseTrade pause_begins_def c(1))
    have l: "recorded_loss symb i e = (res = loss \<and> Trade.symbol (objects e ! r) = symb)"
      by (simp add: CloseTrade recorded_loss_def Some)
    show ?thesis
      unfolding p l
      by (simp add: CloseTrade adjustment_of_def c(2))
  qed
next
  case (TimerFires due)
  have "\<not> length (timers e) < length (timers (calibration_timer_fires due e))"
    using timer_frame(2) [of due e] by linarith
  then have "\<not> pause_begins i e"
    by (simp add: TimerFires pause_begins_def)
  then show ?thesis
    by (simp add: TimerFires recorded_loss_def adjustment_of_def)
qed (simp_all add: pause_begins_def recorded_loss_def adjustment_of_def)

lemma run_counting_adjustment:
  "adjustment_of symb (fst st) = repeated_increment (snd st) \<Longrightarrow>
   adjustment_of symb (fst (run_counting symb inputs st)) =
     repeated_increment (snd (run_counting symb inputs st))"
proof (induction inputs arbitrary: st)
  case Nil
  then show ?case by simp
next
  case (Cons i inputs)
  let ?st' = "(engine_step i (fst st),
        if pause_begins i (fst st) then 0
        else if recorded_loss symb i (fst st) then Suc (snd st) else snd st)"
  have "adjustment_of symb (fst ?st') = repeated_increment (snd ?st')"
    using Cons.prems by (simp add: adjustment_step [of symb i "fst st"])
  then show ?case
    using Cons.IH [of ?st'] by simp
qed

lemma increment_nonneg: "0 \<le> round64 (2 / 100)"
  by (rule round64_nonneg) simp

lemma repeated_increment_nonneg: "0 \<le> repeated_increment n"
proof (induction n)
  case 0
  then show ?case by simp
next
  case (Suc n)
  have "0 \<le> repeated_increment n + round64 (2 / 100)"
    using Suc increment_nonneg by linarith
  then have "0 \<le> round64 (repeated_increment n + round64 (2 / 100))"
    by (rule round64_nonneg)
  then show ?case by (simp add: fadd_def)
qed

lemma repeated_increment_mono: "repeated_increment n \<le> repeated_increment (Suc n)"
proof (cases n)
  case 0
  then show ?thesis using repeated_increment_nonneg [of "Suc 0"] by simp
next
  case (Suc m)
  have "0 \<le> repeated_increment m + round64 (2 / 100)"
    using repeated_increment_nonneg [of m] increment_nonneg by linarith
  then have "round64 (repeated_increment m + round64 (2 / 100)) \<le>
        round64 (round64 (repeated_increment m + round64 (2 / 100)) + round64 (2 / 100))"
    using increment_nonneg by (rule round64_add_mono)
  then show ?thesis by (simp add: Suc fadd_def)
qed

lemma repeated_increment_values:
  "repeated_increment 1 = 5764607523034235 / 2 ^ 58" "repeated_increment 2 = 5764607523034235 / 2 ^ 57"
  "repeated_increment 3 = 1080863910568919 / 2 ^ 54" "repeated_increment 4 = 5764607523034235 / 2 ^ 56"
  "repeated_increment 5 = 3602879701896397 / 2 ^ 55" "repeated_increment 6 = 8646911284551353 / 2 ^ 56"
  by (simp_all add: eval_nat_numeral fadd_def double_0_02 double_0_02_exact double_sum_0_02_2
      double_sum_0_02_3 double_sum_0_02_4 double_sum_0_02_5 double_sum_0_02_6)

text \<open>
  Claim C7, as amended. The adjustment of every symbol is zero in a new engine. In any
  step it becomes zero if a calibration pause begins, is replaced by the double-precision
  sum of its value and \<open>0.02\<close> if instead a loss is recorded on the symbol, and otherwise
  stays as it is. After any run of a new engine it is \<open>0.02\<close> added to zero in double
  precision as many times as losses were recorded on the symbol since the last pause
  began; in the state reached it is never negative, and a step in which no pause begins
  does not decrease it. For one to five losses that value is the double nearest to
  \<open>0.02\<close>, \<open>0.04\<close>, \<open>0.06\<close>, \<open>0.08\<close> and \<open>0.1\<close>; for six it is \<open>0.12000000000000001\<close>, the
  double above the one nearest to \<open>0.12\<close>.
\<close>

theorem adaptive_adjustment:
  "adjustment_of symb new_TradingEngine = 0 \<and>
   adjustment_of symb (engine_step i e) =
     (if pause_begins i e then 0
      else if recorded_loss symb i e then fadd (adjustment_of symb e) (round64 (2 / 100))
      else adjustment_of symb e) \<and>
   adjustment_of symb (fst (run_counting symb inputs (new_TradingEngine, 0))) =
     repeated_increment (snd (run_counting symb inputs (new_TradingEngine, 0))) \<and>
   (\<not> pause_begins i (fst (run_counting symb inputs (new_TradingEngine, 0))) \<longrightarrow>
      adjustment_of symb (fst (run_counting symb inputs (new_TradingEngine, 0))) \<le>
      adjustment_of symb (engine_step i (fst (run_counting symb inputs (new_TradingEngine, 0))))) \<and>
   0 \<le> adjustment_of symb (fst (run_counting symb inputs (new_TradingEngine, 0))) \<and>
   repeated_increment 1 = round64 (2 / 100) \<and>
   repeated_increment 2 = round64 (4 / 100) \<and>
   repeated_increment 3 = round64 (6 / 100) \<and>
   repeated_increment 4 = round64 (8 / 100) \<and>
   repeated_increment 5 = round64 (10 / 100) \<and>
   repeated_increment 6 = 8646911284551353 / 2 ^ 56 \<and>
   round64 (12 / 100) = 1080863910568919 / 2 ^ 53"
proof -
  let ?e = "fst (run_counting symb inputs (new_TradingEngine, 0))"
  let ?n = "snd (run_counting symb inputs (new_TradingEngine, 0))"
  have 0: "adjustment_of symb new_TradingEngine = 0"
    by (simp add: adjustment_of_def new_TradingEngine_def)
  have r: "adjustment_of symb ?e = repeated_increment ?n"
    by (rule run_counting_adjustment) (simp add: 0)
  have m: "\<not> pause_begins i ?e \<longrightarrow> adjustment_of symb ?e \<le> adjustment_of symb (engine_step i ?e)"
    using adjustment_step [of symb i ?e] repeated_increment_mono [of ?n]
    by (simp add: r)
  have n: "0 \<le> adjustment_of symb ?e"
    unfolding r by (rule repeated_increment_nonneg)
  have v: "repeated_increment 1 = round64 (2 / 100)" "repeated_increment 2 = round64 (4 / 100)"
    "repeated_increment 3 = round64 (6 / 100)" "repeated_increment 4 = round64 (8 / 100)"
    "repeated_increment 5 = round64 (10 / 100)" "repeated_increment 6 = 8646911284551353 / 2 ^ 56"
    "round64 (12 / 100) = 1080863910568919 / 2 ^ 53"
    by (simp_all add: repeated_increment_values double_0_02 double_0_04 double_0_06 double_0_08
        double_0_1 double_0_12 fadd_def double_0_02_exact)
  show ?thesis
    using 0 r m n v adjustment_step [of symb i e] by simp
qed

subsection \<open>Six losses in a row\<close>

text \<open>
  The sample run continues: each of the ticks at times 4000 to 7000 finds the same
  indicator values and opens one more long position (at the last one the history has
  35 prices and the MACD is available; whatever it is, the long score stays ahead and
  the probability stays above the threshold). Then the six positions are closed at a
  loss.
\<close>

lemma hist_snoc_more: "hist31 @ [100] = hist32" "hist32 @ [100] = hist33" "hist33 @ [100] = hist34"
  "hist34 @ [100] = hist35"
  by (simp_all add: hist31_def hist32_def hist33_def hist34_def hist35_def eval_nat_numeral)

lemma hist_length_more: "length hist31 = 31" "length hist32 = 32" "length hist33 = 33"
  "length hist34 = 34" "length hist35 = 35"
  by (simp_all add: hist31_def hist32_def hist33_def hist34_def hist35_def)

lemma hist32_list: "hist32 = [101,100,100,100,100,100,100,100,100,100,100,100,100,100,100,100,100,100,100,100,100,100,100,100,100,100,100,100,100,100,100,100]"
  by (simp add: hist32_def eval_nat_numeral)

lemma upt32: "[1..<32] = [1,2,3,4,5,6,7,8,9,10,11,12,13,14,15,16,17,18,19,20,21,22,23,24,25,26,27,28,29,30,31]"
  by (simp add: upt_rec)

lemma rsi32: "calculateRSI hist32 14 = Some 0"
  unfolding hist32_list
  by (simp add: calculateRSI_def rsi_averages_def rsi_initial_step_def rsi_smooth_step_def Let_def)

lemma adx32: "calculateADX hist32 hist32 hist32 14 = Some (Num 100)"
  unfolding hist32_list
  by (simp add: calculateADX_def adx_loop_def adx_step_def adx_dx_def trueRanges_def plusDM_def
      minusDM_def reduce_sum_def upt32 Let_def wilder_average_def)

lemma boll32: "calculateBollingerBands hist32 20 2 = Some \<lparr>upper = 100, middle = 100, lower = 100\<rparr>"
  unfolding hist32_list
  by (simp add: calculateBollingerBands_def slice_last_def reduce_sum_def Let_def)

lemma sma32: "calculateSMA hist32 20 = Some 100"
  unfolding hist32_list by (simp add: calculateSMA_def slice_last_def reduce_sum_def)

lemma hist33_list: "hist33 = [101,100,100,100,100,100,100,100,100,100,100,100,100,100,100,100,100,100,100,100,100,100,100,100,100,100,100,100,100,100,100,100,100]"
  by (simp add: hist33_def eval_nat_numeral)

lemma upt33: "[1..<33] = [1,2,3,4,5,6,7,8,9,10,11,12,13,14,15,16,17,18,19,20,21,22,23,24,25,26,27,28,29,30,31,32]"
  by (simp add: upt_rec)

lemma rsi33: "calculateRSI hist33 14 = Some 0"
  unfolding hist33_list
  by (simp add: calculateRSI_def rsi_averages_def rsi_initial_step_def rsi_smooth_step_def Let_def)

lemma adx33: "calculateADX hist33 hist33 hist33 14 = Some (Num 100)"
  unfolding hist33_list
  by (simp add: calculateADX_def adx_loop_def adx_step_def adx_dx_def trueRanges_def plusDM_def
      minusDM_def reduce_sum_def upt33 Let_def wilder_average_def)

lemma boll33: "calculateBollingerBands hist33 20 2 = Some \<lparr>upper = 100, middle = 100, lower = 100\<rparr>"
  unfolding hist33_list
  by (simp add: calculateBollingerBands_def slice_last_def reduce_sum_def Let_def)

lemma sma33: "calculateSMA hist33 20 = Some 100"
  unfolding hist33_list by (simp add: calculateSMA_def slice_last_def reduce_sum_def)

lemma hist34_list: "hist34 = [101,100,100,100,100,100,100,100,100,100,100,100,100,100,100,100,100,100,100,100,100,100,100,100,100,100,100,100,100,100,100,100,100,100]"
  by (simp add: hist34_def eval_nat_numeral)

lemma upt34: "[1..<34] = [1,2,3,4,5,6,7,8,9,10,11,12,13,14,15,16,17,18,19,20,21,22,23,24,25,26,27,28,29,30,31,32,33]"
  by (simp add: upt_rec)

lemma rsi34: "calculateRSI hist34 14 = Some 0"
  unfolding hist34_list
  by (simp add: calculateRSI_def rsi_averages_def rsi_initial_step_def rsi_smooth_step_def Let_def)

lemma adx34: "calculateADX hist34 hist34 hist34 14 = Some (Num 100)"
  unfolding hist34_list
  by (simp add: calculateADX_def adx_loop_def adx_step_def adx_dx_def trueRanges_def plusDM_def
      minusDM_def reduce_sum_def upt34 Let_def wilder_average_def)

lemma boll34: "calculateBollingerBands hist34 20 2 = Some \<lparr>upper = 100, middle = 100, lower = 100\<rparr>"
  unfolding hist34_list
  by (simp add: calculateBollingerBands_def slice_last_def reduce_sum_def Let_def)

lemma sma34: "calculateSMA hist34 20 = Some 100"
  unfolding hist34_list by (simp add: calculateSMA_def slice_last_def reduce_sum_def)

lemma hist35_list: "hist35 = [101,100,100,100,100,100,100,100,100,100,100,100,100,100,100,100,100,100,100,100,100,100,100,100,100,100,100,100,100,100,100,100,100,100,100]"
  by (simp add: hist35_def eval_nat_numeral)

lemma upt35: "[1..<35] = [1,2,3,4,5,6,7,8,9,10,11,12,13,14,15,16,17,18,19,20,21,22,23,24,25,26,27,28,29,30,31,32,33,34]"
  by (simp add: upt_rec)

lemma rsi35: "calculateRSI hist35 14 = Some 0"
  unfolding hist35_list
  by (simp add: calculateRSI_def rsi_averages_def rsi_initial_step_def rsi_smooth_step_def Let_def)

lemma adx35: "calculateADX hist35 hist35 hist35 14 = Some (Num 100)"
  unfolding hist35_list
  by (simp add: calculateADX_def adx_loop_def adx_step_def adx_dx_def trueRanges_def plusDM_def
      minusDM_def reduce_sum_def upt35 Let_def wilder_average_def)

lemma boll35: "calculateBollingerBands hist35 20 2 = Some \<lparr>upper = 100, middle = 100, lower = 100\<rparr>"
  unfolding hist35_list
  by (simp add: calculateBollingerBands_def slice_last_def reduce_sum_def Let_def)

lemma sma35: "calculateSMA hist35 20 = Some 100"
  unfolding hist35_list by (simp add: calculateSMA_def slice_last_def reduce_sum_def)

lemma long_signal:
  assumes "calculateRSI h 14 = Some 0" "calculateADX h h h 14 = Some (Num 100)"
    "calculateBollingerBands h 20 2 = Some \<lparr>upper = 100, middle = 100, lower = 100\<rparr>"
    "calculateSMA h 20 = Some 100" "12 \<le> length h"
  shows "\<exists>p. calculateTradeProbability symb 100 (calculateAllIndicators h None None) = (p, LONG) \<and>
             MIN_PROBABILITY \<le> clamp01 (fsub p 0)"
proof -
  obtain v where v: "calculateEMA h 12 = Some v"
    using calculateEMA_available [OF assms(5)] by blast
  let ?ind = "calculateAllIndicators h None None"
  let ?l = "8106479329266893 / 2 ^ 54 :: real"
  have f: "rsi ?ind = Some 0" "adx ?ind = Some (Num 100)" "bollingerUpper ?ind = Some 100"
    "bollingerLower ?ind = Some 100" "sma ?ind = Some 100" "ema ?ind = Some v"
    using assms v by (simp_all add: calculateAllIndicators_def Let_def or_null_def)
  have 1: "score_rsi ?ind (0, 0) = (1 / 4, 0)"
    by (simp add: score_rsi_def f RSI_OVERSOLD_def fadd_def double_0_25)
  have 2: "score_adx ?ind (1 / 4, 0) = (?l, 0)"
    by (simp add: score_adx_def f ADX_TREND_THRESHOLD_def Let_def fadd_def fsub_def fdiv_def
        double_0_2 double_75 double_0_75 double_sum_0_45)
  have 3: "score_bollinger 100 ?ind (?l, 0) = (?l, 0)"
    by (simp add: score_bollinger_def f Let_def fsub_def round64_def)
  have a: "score_averages 100 ?ind sc = sc" for sc
    by (cases sc) (simp add: score_averages_def f)
  have "score_macd ?ind (?l, 0) = (?l, 0) \<or>
        score_macd ?ind (?l, 0) = (5404319552844595 / 2 ^ 53, 0) \<or>
        score_macd ?ind (?l, 0) = (?l, 5404319552844595 / 2 ^ 55)"
    by (cases "macd_snapshot ?ind")
       (simp_all add: score_macd_def fadd_def double_0_15 double_sum_0_6 double_0_15_exact)
  then consider (same) "score_macd ?ind (?l, 0) = (?l, 0)"
    | (bull) "score_macd ?ind (?l, 0) = (5404319552844595 / 2 ^ 53, 0)"
    | (bear) "score_macd ?ind (?l, 0) = (?l, 5404319552844595 / 2 ^ 55)"
    by blast
  then show ?thesis
  proof cases
    case same
    have "calculateTradeProbability symb 100 ?ind = (1914029841632461 / 2 ^ 51, LONG)"
      by (simp only: calculateTradeProbability_def 1 2 3 same a)
         (simp add: Let_def fadd_def double_0_4 double_0_95 double_sum_0_85)
    moreover have "MIN_PROBABILITY \<le> clamp01 (fsub (1914029841632461 / 2 ^ 51) 0)"
      by (simp add: MIN_PROBABILITY_def clamp01_def fsub_def double_0_85)
    ultimately show ?thesis by blast
  next
    case bull
    have "calculateTradeProbability symb 100 ?ind = (4278419646001971 / 2 ^ 52, LONG)"
      by (simp only: calculateTradeProbability_def 1 2 3 bull a)
         (simp add: Let_def fadd_def double_0_4 double_0_95 double_1)
    moreover have "MIN_PROBABILITY \<le> clamp01 (fsub (4278419646001971 / 2 ^ 52) 0)"
      by (simp add: MIN_PROBABILITY_def clamp01_def fsub_def double_0_95_exact)
    ultimately show ?thesis by blast
  next
    case bear
    have "calculateTradeProbability symb 100 ?ind = (1914029841632461 / 2 ^ 51, LONG)"
      by (simp only: calculateTradeProbability_def 1 2 3 bear a)
         (simp add: Let_def fadd_def double_0_4 double_0_95 double_sum_0_85)
    moreover have "MIN_PROBABILITY \<le> clamp01 (fsub (1914029841632461 / 2 ^ 51) 0)"
      by (simp add: MIN_PROBABILITY_def clamp01_def fsub_def double_0_85)
    ultimately show ?thesis by blast
  qed
qed

lemma symbols_update_trade:
  "map Trade.symbol (objects (update_trade tick e entry)) = map Trade.symbol (objects e)"
proof (cases "snd entry < length (objects e)")
  case True
  then show ?thesis
    by (simp add: objects_update_trade map_update mark_to_market_def list_update_same_conv)
next
  case False
  then show ?thesis by (simp add: objects_update_trade list_update_beyond)
qed

lemma symbols_update_trades:
  "map Trade.symbol (objects (foldl (update_trade tick) e es)) = map Trade.symbol (objects e)"
  by (induction es arbitrary: e) (simp_all add: symbols_update_trade)

lemma tick_opens_long:
  assumes "isRunning e" "\<not> isPaused (stats e)" "priceHistory e ''R_10'' = Some h"
    "29 \<le> length h" "length h < 100"
    "calculateRSI (h @ [100]) 14 = Some 0"
    "calculateADX (h @ [100]) (h @ [100]) (h @ [100]) 14 = Some (Num 100)"
    "calculateBollingerBands (h @ [100]) 20 2 = Some \<lparr>upper = 100, middle = 100, lower = 100\<rparr>"
    "calculateSMA (h @ [100]) 20 = Some 100"
    "symbolAdjustments e ''R_10'' = None"
    "map_of (activeTrades e) ''R_10_LONG'' = None"
  shows "isRunning (handleTick now (tick_R10 100) e)"
    and "stats (handleTick now (tick_R10 100) e) =
           (stats e)\<lparr>activeTradesCount := length (activeTrades e)\<rparr>"
    and "priceHistory (handleTick now (tick_R10 100) e) ''R_10'' = Some (h @ [100])"
    and "activeTrades (handleTick now (tick_R10 100) e) =
           AList.update (''R_10_LONG_'' @ string_of_nat now) (length (objects e)) (activeTrades e)"
    and "map Trade.symbol (objects (handleTick now (tick_R10 100) e)) =
           map Trade.symbol (objects e) @ [''R_10'']"
proof -
  let ?e1 = "e\<lparr>priceHistory := (priceHistory e)(''R_10'' \<mapsto> h @ [100])\<rparr>"
  let ?e2 = "updateActiveTrades (tick_R10 100) ?e1"
  have 1: "handleTick now (tick_R10 100) e = analyzeSymbol now ''R_10'' 100 ?e2"
    using handleTick_analysis [of e "tick_R10 100" h now] assms(1,3,4,5)
    by (simp add: tick_R10_def HISTORY_SIZE_def)
  obtain p where p: "calculateTradeProbability ''R_10'' 100 (calculateAllIndicators (h @ [100]) None None) = (p, LONG)"
    "MIN_PROBABILITY \<le> clamp01 (fsub p 0)"
    using long_signal [OF assms(6,7,8,9), of "''R_10''"] assms(4) by auto
  have adj: "adjustment_of ''R_10'' ?e2 = 0"
    using assms(10) by (simp add: adjustment_of_def)
  have 2: "analyzeSymbol now ''R_10'' 100 ?e2 =
           engine_executeTrade now
             \<lparr>TradeSignal.symbol = ''R_10'', TradeSignal.direction = LONG,
               probability = clamp01 (fsub p (adjustment_of ''R_10'' ?e2)),
               indicators = calculateAllIndicators (h @ [100]) None None, timestamp = now\<rparr>
             ((log LogSignal (Some ''R_10'') ?e2)
                \<lparr>out := out ?e2 @ [Log LogSignal (Some ''R_10''),
                   SignalEvent \<lparr>TradeSignal.symbol = ''R_10'', TradeSignal.direction = LONG,
                     probability = clamp01 (fsub p (adjustment_of ''R_10'' ?e2)),
                     indicators = calculateAllIndicators (h @ [100]) None None, timestamp = now\<rparr>]\<rparr>)"
    by (rule analyzeSymbol_signal [OF _ _ p(1)])
       (use assms(2,11) p(2) adj in \<open>simp_all add: direction_string_def\<close>)
  show "isRunning (handleTick now (tick_R10 100) e)"
    unfolding 1 2 using assms(1) by simp
  show "stats (handleTick now (tick_R10 100) e) =
           (stats e)\<lparr>activeTradesCount := length (activeTrades e)\<rparr>"
    unfolding 1 2 by simp
  show "priceHistory (handleTick now (tick_R10 100) e) ''R_10'' = Some (h @ [100])"
    unfolding 1 2 by simp
  show "activeTrades (handleTick now (tick_R10 100) e) =
           AList.update (''R_10_LONG_'' @ string_of_nat now) (length (objects e)) (activeTrades e)"
    unfolding 1 2 by (simp add: direction_string_def)
  show "map Trade.symbol (objects (handleTick now (tick_R10 100) e)) =
           map Trade.symbol (objects e) @ [''R_10'']"
    unfolding 1 2 by (simp add: symbols_update_trades)
qed

lemma engine_second_state:
  "isRunning engine_second" "priceHistory engine_second ''R_10'' = Some hist31"
  "map Trade.symbol (objects engine_second) = [''R_10'', ''R_10'']"
  using tick_opens_long(1,3) [of engine_first_open hist30 3000]
  by (simp_all add: engine_second_def engine_first_open_fields hist_snoc hist_length rsi31 adx31 boll31
      sma31 engine_second_fields [unfolded engine_second_def])

lemma engine_third_state:
  "isRunning engine_third" "priceHistory engine_third ''R_10'' = Some hist32"
    "stats engine_third = \<lparr>totalTrades = 0, wins = 0, losses = 0, winRate = 0, totalProfit = 0,
      activeTradesCount = 2, isPaused = False, pauseReason = None\<rparr>"
    "symbolAdjustments engine_third = Map.empty" "timers engine_third = []"
    "activeTrades engine_third =
       [(''R_10_LONG_2000'', 0), (''R_10_LONG_3000'', 1), (''R_10_LONG_4000'', 2)]"
    "map Trade.symbol (objects engine_third) = [''R_10'', ''R_10'', ''R_10'']"
proof -
  have l: "length (objects engine_second) = 2" by (simp add: engine_second_fields)
  note t = tick_opens_long [of engine_second hist31 4000, unfolded hist_snoc_more,
      OF engine_second_state(1) _ engine_second_state(2) _ _ rsi32 adx32 boll32 sma32]
  have p: "\<not> isPaused (stats engine_second)" "29 \<le> length hist31" "length hist31 < 100"
    "symbolAdjustments engine_second ''R_10'' = None"
    "map_of (activeTrades engine_second) ''R_10_LONG'' = None"
    by (simp_all add: engine_second_stats engine_second_fields hist_length_more)
  note u = t [OF p]
  show "isRunning engine_third" "priceHistory engine_third ''R_10'' = Some hist32"
    "stats engine_third = \<lparr>totalTrades = 0, wins = 0, losses = 0, winRate = 0, totalProfit = 0,
      activeTradesCount = 2, isPaused = False, pauseReason = None\<rparr>"
    "symbolAdjustments engine_third = Map.empty" "timers engine_third = []"
    "activeTrades engine_third =
       [(''R_10_LONG_2000'', 0), (''R_10_LONG_3000'', 1), (''R_10_LONG_4000'', 2)]"
    "map Trade.symbol (objects engine_third) = [''R_10'', ''R_10'', ''R_10'']"
    unfolding engine_third_def
    by (simp_all add: u l engine_second_stats engine_second_fields engine_second_state string_of_nat.simps)
qed

lemma engine_fourth_state:
  "isRunning engine_fourth" "priceHistory engine_fourth ''R_10'' = Some hist33"
    "stats engine_fourth = \<lparr>totalTrades = 0, wins = 0, losses = 0, winRate = 0, totalProfit = 0,
      activeTradesCount = 3, isPaused = False, pauseReason = None\<rparr>"
    "symbolAdjustments engine_fourth = Map.empty" "timers engine_fourth = []"
    "activeTrades engine_fourth =
       [(''R_10_LONG_2000'', 0), (''R_10_LONG_3000'', 1), (''R_10_LONG_4000'', 2),
        (''R_10_LONG_5000'', 3)]"
    "map Trade.symbol (objects engine_fourth) = [''R_10'', ''R_10'', ''R_10'', ''R_10'']"
proof -
  have l: "length (objects engine_third) = 3" using arg_cong [OF engine_third_state(7), of length] by simp
  note t = tick_opens_long [of engine_third hist32 5000, unfolded hist_snoc_more,
      OF engine_third_state(1) _ engine_third_state(2) _ _ rsi33 adx33 boll33 sma33]
  have p: "\<not> isPaused (stats engine_third)" "29 \<le> length hist32" "length hist32 < 100"
    "symbolAdjustments engine_third ''R_10'' = None"
    "map_of (activeTrades engine_third) ''R_10_LONG'' = None"
    by (simp_all add: engine_third_state hist_length_more)
  note u = t [OF p]
  show "isRunning engine_fourth" "priceHistory engine_fourth ''R_10'' = Some hist33"
    "stats engine_fourth = \<lparr>totalTrades = 0, wins = 0, losses = 0, winRate = 0, totalProfit = 0,
      activeTradesCount = 3, isPaused = False, pauseReason = None\<rparr>"
    "symbolAdjustments engine_fourth = Map.empty" "timers engine_fourth = []"
    "activeTrades engine_fourth =
       [(''R_10_LONG_2000'', 0), (''R_10_LONG_3000'', 1), (''R_10_LONG_4000'', 2),
        (''R_10_LONG_5000'', 3)]"
    "map Trade.symbol (objects engine_fourth) = [''R_10'', ''R_10'', ''R_10'', ''R_10'']"
    unfolding engine_fourth_def
    by (simp_all add: u l engine_third_state string_of_nat.simps)
qed

lemma engine_fifth_state:
  "isRunning engine_fifth" "priceHistory engine_fifth ''R_10'' = Some hist34"
    "stats engine_fifth = \<lparr>totalTrades = 0, wins = 0, losses = 0, winRate = 0, totalProfit = 0,
      activeTradesCount = 4, isPaused = False, pauseReason = None\<rparr>"
    "symbolAdjustments engine_fifth = Map.empty" "timers engine_fifth = []"
    "activeTrades engine_fifth =
       [(''R_10_LONG_2000'', 0), (''R_10_LONG_3000'', 1), (''R_10_LONG_4000'', 2),
        (''R_10_LONG_5000'', 3), (''R_10_LONG_6000'', 4)]"
    "map Trade.symbol (objects engine_fifth) = [''R_10'', ''R_10'', ''R_10'', ''R_10'', ''R_10'']"
proof -
  have l: "length (objects engine_fourth) = 4" using arg_cong [OF engine_fourth_state(7), of length] by simp
  note t = tick_opens_long [of engine_fourth hist33 6000, unfolded hist_snoc_more,
      OF engine_fourth_state(1) _ engine_fourth_state(2) _ _ rsi34 adx34 boll34 sma34]
  have p: "\<not> isPaused (stats engine_fourth)" "29 \<le> length hist33" "length hist33 < 100"
    "symbolAdjustments engine_fourth ''R_10'' = None"
    "map_of (activeTrades engine_fourth) ''R_10_LONG'' = None"
    by (simp_all add: engine_fourth_state hist_length_more)
  note u = t [OF p]
  show "isRunning engine_fifth" "priceHistory engine_fifth ''R_10'' = Some hist34"
    "stats engine_fifth = \<lparr>totalTrades = 0, wins = 0, losses = 0, winRate = 0, totalProfit = 0,
      activeTradesCount = 4, isPaused = False, pauseReason = None\<rparr>"
    "symbolAdjustments engine_fifth = Map.empty" "timers engine_fifth = []"
    "activeTrades engine_fifth =
       [(''R_10_LONG_2000'', 0), (''R_10_LONG_3000'', 1), (''R_10_LONG_4000'', 2),
        (''R_10_LONG_5000'', 3), (''R_10_LONG_6000'', 4)]"
    "map Trade.symbol (objects engine_fifth) = [''R_10'', ''R_10'', ''R_10'', ''R_10'', ''R_10'']"
    unfolding engine_fifth_def
    by (simp_all add: u l engine_fourth_state string_of_nat.simps)
qed

lemma engine_sixth_state:
  "isRunning engine_sixth" "priceHistory engine_sixth ''R_10'' = Some hist35"
    "stats engine_sixth = \<lparr>totalTrades = 0, wins = 0, losses = 0, winRate = 0, totalProfit = 0,
      activeTradesCount = 5, isPaused = False, pauseReason = None\<rparr>"
    "symbolAdjustments engine_sixth = Map.empty" "timers engine_sixth = []"
    "activeTrades engine_sixth =
       [(''R_10_LONG_2000'', 0), (''R_10_LONG_3000'', 1), (''R_10_LONG_4000'', 2),
        (''R_10_LONG_5000'', 3), (''R_10_LONG_6000'', 4), (''R_10_LONG_7000'', 5)]"
    "map Trade.symbol (objects engine_sixth) = [''R_10'', ''R_10'', ''R_10'', ''R_10'', ''R_10'', ''R_10'']"
proof -
  have l: "length (objects engine_fifth) = 5" using arg_cong [OF engine_fifth_state(7), of length] by simp
  note t = tick_opens_long [of engine_fifth hist34 7000, unfolded hist_snoc_more,
      OF engine_fifth_state(1) _ engine_fifth_state(2) _ _ rsi35 adx35 boll35 sma35]
  have p: "\<not> isPaused (stats engine_fifth)" "29 \<le> length hist34" "length hist34 < 100"
    "symbolAdjustments engine_fifth ''R_10'' = None"
    "map_of (activeTrades engine_fifth) ''R_10_LONG'' = None"
    by (simp_all add: engine_fifth_state hist_length_more)
  note u = t [OF p]
  show "isRunning engine_sixth" "priceHistory engine_sixth ''R_10'' = Some hist35"
    "stats engine_sixth = \<lparr>totalTrades = 0, wins = 0, losses = 0, winRate = 0, totalProfit = 0,
      activeTradesCount = 5, isPaused = False, pauseReason = None\<rparr>"
    "symbolAdjustments engine_sixth = Map.empty" "timers engine_sixth = []"
    "activeTrades engine_sixth =
       [(''R_10_LONG_2000'', 0), (''R_10_LONG_3000'', 1), (''R_10_LONG_4000'', 2),
        (''R_10_LONG_5000'', 3), (''R_10_LONG_6000'', 4), (''R_10_LONG_7000'', 5)]"
    "map Trade.symbol (objects engine_sixth) = [''R_10'', ''R_10'', ''R_10'', ''R_10'', ''R_10'', ''R_10'']"
    unfolding engine_sixth_def
    by (simp_all add: u l engine_fifth_state string_of_nat.simps)
qed

lemma run_engine_append: "run_engine (xs @ ys) e = run_engine ys (run_engine xs e)"
  by (induction xs arbitrary: e) simp_all

lemma run_engine_ticks: "run_engine (map (\<lambda>q. Tick now (tick_R10 q)) qs) e = feed now qs e"
  by (induction qs arbitrary: e) (simp_all add: feed_def)

lemma opening_run_state: "run_engine opening_run new_TradingEngine = engine_sixth"
  by (simp add: opening_run_def run_engine_append run_engine_ticks engine_sixth_def engine_fifth_def
      engine_fourth_def engine_third_def engine_second_def engine_first_open_def engine_first_def
      engine_warm_def)

lemma run_counting_append:
  "run_counting symb (xs @ ys) st = run_counting symb ys (run_counting symb xs st)"
  by (induction xs arbitrary: st) simp_all

lemma no_close_step:
  assumes "\<not> closes_trade i"
  shows "\<not> pause_begins i e" "\<not> recorded_loss symb i e"
proof -
  show "\<not> recorded_loss symb i e"
    using assms by (cases i) (simp_all add: recorded_loss_def)
  show "\<not> pause_begins i e"
  proof (cases i)
    case (TimerFires due)
    have "\<not> length (timers e) < length (timers (calibration_timer_fires due e))"
      using timer_frame(2) [of due e] by linarith
    then show ?thesis by (simp add: TimerFires pause_begins_def)
  qed (use assms in \<open>simp_all add: pause_begins_def\<close>)
qed

lemma run_counting_no_close:
  "\<forall>i \<in> set inputs. \<not> closes_trade i \<Longrightarrow>
   run_counting symb inputs (e, n) = (run_engine inputs e, n)"
  by (induction inputs arbitrary: e) (simp_all add: no_close_step)

lemma opening_run_counting:
  "run_counting ''R_10'' opening_run (new_TradingEngine, 0) = (engine_sixth, 0)"
proof -
  have "\<forall>i \<in> set opening_run. \<not> closes_trade i"
    by (auto simp: opening_run_def)
  then show ?thesis
    using run_counting_no_close [of opening_run "''R_10''" new_TradingEngine 0]
    by (simp add: opening_run_state)
qed

lemma symbols_closeTrade:
  "map Trade.symbol (objects (closeTrade now tradeId res pl e)) = map Trade.symbol (objects e)"
proof (cases "map_of (activeTrades e) tradeId")
  case None
  then show ?thesis by (simp add: closeTrade_missing)
next
  case (Some r)
  show ?thesis
  proof (cases "r < length (objects e)")
    case True
    then show ?thesis
      by (simp add: closeTrade_found_trades(2) [OF Some] map_update list_update_same_conv)
  next
    case False
    then show ?thesis
      by (simp add: closeTrade_found_trades(2) [OF Some] list_update_beyond)
  qed
qed

text \<open>A loss recorded on a trade of the symbol while fewer than nine trades are on record.\<close>

lemma loss_step:
  assumes "map_of (activeTrades e) k = Some r" "r < length (objects e)"
    "map Trade.symbol (objects e) ! r = symb" "totalTrades (stats e) < 9"
  shows "run_counting symb [CloseTrade now k loss pl] (e, n) = (closeTrade now k loss pl e, Suc n)"
    and "activeTrades (closeTrade now k loss pl e) = AList.delete k (activeTrades e)"
    and "totalTrades (stats (closeTrade now k loss pl e)) = totalTrades (stats e) + 1"
    and "timers (closeTrade now k loss pl e) = timers e"
    and "adjustment_of symb (closeTrade now k loss pl e) =
           fadd (adjustment_of symb e) (round64 (2 / 100))"
proof -
  note c = closeTrade_found [OF assms(1), of now loss pl]
  have t: "\<not> pause_triggered (closed_stats loss pl (stats e))"
    using assms(4) by (simp add: pause_triggered_def)
  have s: "Trade.symbol (objects e ! r) = symb"
    using assms(2,3) by simp
  show "timers (closeTrade now k loss pl e) = timers e"
    using c(1) t by simp
  then have p: "\<not> pause_begins (CloseTrade now k loss pl) e"
    by (simp add: pause_begins_def)
  have l: "recorded_loss symb (CloseTrade now k loss pl) e"
    using assms(1) s by (simp add: recorded_loss_def)
  show "run_counting symb [CloseTrade now k loss pl] (e, n) = (closeTrade now k loss pl e, Suc n)"
    using p l by simp
  show "activeTrades (closeTrade now k loss pl e) = AList.delete k (activeTrades e)"
    by (rule closeTrade_found_trades(1) [OF assms(1)])
  show "totalTrades (stats (closeTrade now k loss pl e)) = totalTrades (stats e) + 1"
    using c(3) t by simp
  show "adjustment_of symb (closeTrade now k loss pl e) =
           fadd (adjustment_of symb e) (round64 (2 / 100))"
    using c(2) t s by (simp add: adjustment_of_def)
qed

lemma run_counting_single:
  "run_counting symb (i # inputs) st = run_counting symb inputs (run_counting symb [i] st)"
  by simp

lemma engine_sixth_adjustment: "adjustment_of ''R_10'' engine_sixth = 0"
  by (simp add: adjustment_of_def engine_sixth_state)

lemma five_losses_state:
  "run_counting ''R_10'' five_closes (engine_sixth, 0) = (engine_five_losses, 5)"
  "activeTrades engine_five_losses = [(''R_10_LONG_7000'', 5)]"
  "map Trade.symbol (objects engine_five_losses) = [''R_10'', ''R_10'', ''R_10'', ''R_10'', ''R_10'', ''R_10'']"
  "totalTrades (stats engine_five_losses) = 5" "timers engine_five_losses = []"
  "adjustment_of ''R_10'' engine_five_losses = 3602879701896397 / 2 ^ 55"
proof -
  let ?c1 = "closeTrade 8000 ''R_10_LONG_2000'' loss (- 1) engine_sixth"
  let ?c2 = "closeTrade 9000 ''R_10_LONG_3000'' loss (- 1) ?c1"
  let ?c3 = "closeTrade 10000 ''R_10_LONG_4000'' loss (- 1) ?c2"
  let ?c4 = "closeTrade 11000 ''R_10_LONG_5000'' loss (- 1) ?c3"
  let ?c5 = "closeTrade 12000 ''R_10_LONG_6000'' loss (- 1) ?c4"
  have y0: "map Trade.symbol (objects engine_sixth) = [''R_10'', ''R_10'', ''R_10'', ''R_10'', ''R_10'', ''R_10'']"
    by (rule engine_sixth_state(7))
  have a0: "activeTrades engine_sixth = [(''R_10_LONG_2000'', 0), (''R_10_LONG_3000'', 1), (''R_10_LONG_4000'', 2), (''R_10_LONG_5000'', 3), (''R_10_LONG_6000'', 4), (''R_10_LONG_7000'', 5)]" "totalTrades (stats engine_sixth) = 0"
    "timers engine_sixth = []" "adjustment_of ''R_10'' engine_sixth = 0"
    by (simp_all add: engine_sixth_state engine_sixth_adjustment)
  have n0: "length (objects engine_sixth) = 6"
    using arg_cong [OF y0, of length] by simp
  have m0: "map_of (activeTrades engine_sixth) ''R_10_LONG_2000'' = Some 0" "0 < length (objects engine_sixth)"
    "map Trade.symbol (objects engine_sixth) ! 0 = ''R_10''" "totalTrades (stats engine_sixth) < 9"
    by (simp_all add: a0 y0 n0)
  note s1 = loss_step [OF m0, where now = 8000 and pl = "- 1"]
  have y1: "map Trade.symbol (objects ?c1) = [''R_10'', ''R_10'', ''R_10'', ''R_10'', ''R_10'', ''R_10'']"
    by (simp add: symbols_closeTrade y0)
  have a1: "activeTrades ?c1 = [(''R_10_LONG_3000'', 1), (''R_10_LONG_4000'', 2), (''R_10_LONG_5000'', 3), (''R_10_LONG_6000'', 4), (''R_10_LONG_7000'', 5)]" "totalTrades (stats ?c1) = 1"
    "timers ?c1 = []" "adjustment_of ''R_10'' ?c1 = 5764607523034235 / 2 ^ 58"
    by (simp_all add: s1(2,3,4,5) a0 fadd_def double_0_02 double_0_02_exact double_sum_0_02_2
        double_sum_0_02_3 double_sum_0_02_4 double_sum_0_02_5)
  have n1: "length (objects ?c1) = 6"
    using arg_cong [OF y1, of length] by simp
  have m1: "map_of (activeTrades ?c1) ''R_10_LONG_3000'' = Some 1" "1 < length (objects ?c1)"
    "map Trade.symbol (objects ?c1) ! 1 = ''R_10''" "totalTrades (stats ?c1) < 9"
    by (simp_all add: a1 y1 n1)
  note s2 = loss_step [OF m1, where now = 9000 and pl = "- 1"]
  have y2: "map Trade.symbol (objects ?c2) = [''R_10'', ''R_10'', ''R_10'', ''R_10'', ''R_10'', ''R_10'']"
    by (simp add: symbols_closeTrade y0)
  have a2: "activeTrades ?c2 = [(''R_10_LONG_4000'', 2), (''R_10_LONG_5000'', 3), (''R_10_LONG_6000'', 4), (''R_10_LONG_7000'', 5)]" "totalTrades (stats ?c2) = 2"
    "timers ?c2 = []" "adjustment_of ''R_10'' ?c2 = 5764607523034235 / 2 ^ 57"
    by (simp_all add: s2(2,3,4,5) a1 fadd_def double_0_02 double_0_02_exact double_sum_0_02_2
        double_sum_0_02_3 double_sum_0_02_4 double_sum_0_02_5)
  have n2: "length (objects ?c2) = 6"
    using arg_cong [OF y2, of length] by simp
  have m2: "map_of (activeTrades ?c2) ''R_10_LONG_4000'' = Some 2" "2 < length (objects ?c2)"
    "map Trade.symbol (objects ?c2) ! 2 = ''R_10''" "totalTrades (stats ?c2) < 9"
    by (simp_all add: a2 y2 n2)
  note s3 = loss_step [OF m2, where now = 10000 and pl = "- 1"]
  have y3: "map Trade.symbol (objects ?c3) = [''R_10'', ''R_10'', ''R_10'', ''R_10'', ''R_10'', ''R_10'']"
    by (simp add: symbols_closeTrade y0)
  have a3: "activeTrades ?c3 = [(''R_10_LONG_5000'', 3), (''R_10_LONG_6000'', 4), (''R_10_LONG_7000'', 5)]" "totalTrades (stats ?c3) = 3"
    "timers ?c3 = []" "adjustment_of ''R_10'' ?c3 = 1080863910568919 / 2 ^ 54"
    by (simp_all add: s3(2,3,4,5) a2 fadd_def double_0_02 double_0_02_exact double_sum_0_02_2
        double_sum_0_02_3 double_sum_0_02_4 double_sum_0_02_5)
  have n3: "length (objects ?c3) = 6"
    using arg_cong [OF y3, of length] by simp
  have m3: "map_of (activeTrades ?c3) ''R_10_LONG_5000'' = Some 3" "3 < length (objects ?c3)"
    "map Trade.symbol (objects ?c3) ! 3 = ''R_10''" "totalTrades (stats ?c3) < 9"
    by (simp_all add: a3 y3 n3)
  note s4 = loss_step [OF m3, where now = 11000 and pl = "- 1"]
  have y4: "map Trade.symbol (objects ?c4) = [''R_10'', ''R_10'', ''R_10'', ''R_10'', ''R_10'', ''R_10'']"
    by (simp add: symbols_closeTrade y0)
  have a4: "activeTrades ?c4 = [(''R_10_LONG_6000'', 4), (''R_10_LONG_7000'', 5)]" "totalTrades (stats ?c4) = 4"
    "timers ?c4 = []" "adjustment_of ''R_10'' ?c4 = 5764607523034235 / 2 ^ 56"
    by (simp_all add: s4(2,3,4,5) a3 fadd_def double_0_02 double_0_02_exact double_sum_0_02_2
        double_sum_0_02_3 double_sum_0_02_4 double_sum_0_02_5)
  have n4: "length (objects ?c4) = 6"
    using arg_cong [OF y4, of length] by simp
  have m4: "map_of (activeTrades ?c4) ''R_10_LONG_6000'' = Some 4" "4 < length (objects ?c4)"
    "map Trade.symbol (objects ?c4) ! 4 = ''R_10''" "totalTrades (stats ?c4) < 9"
    by (simp_all add: a4 y4 n4)
  note s5 = loss_step [OF m4, where now = 12000 and pl = "- 1"]
  have y5: "map Trade.symbol (objects ?c5) = [''R_10'', ''R_10'', ''R_10'', ''R_10'', ''R_10'', ''R_10'']"
    by (simp add: symbols_closeTrade y0)
  have a5: "activeTrades ?c5 = [(''R_10_LONG_7000'', 5)]" "totalTrades (stats ?c5) = 5"
    "timers ?c5 = []" "adjustment_of ''R_10'' ?c5 = 3602879701896397 / 2 ^ 55"
    by (simp_all add: s5(2,3,4,5) a4 fadd_def double_0_02 double_0_02_exact double_sum_0_02_2
        double_sum_0_02_3 double_sum_0_02_4 double_sum_0_02_5)
  have e: "engine_five_losses = ?c5"
    by (simp add: engine_five_losses_def five_closes_def)
  have "run_counting ''R_10'' five_closes (engine_sixth, 0) = (?c5, Suc (Suc (Suc (Suc (Suc 0)))))"
    unfolding five_closes_def
    by (simp only: run_counting_single [of _ _ "_ # _"] s1(1) s2(1) s3(1) s4(1) s5(1))
  moreover have "Suc (Suc (Suc (Suc (Suc 0)))) = 5"
    by simp
  ultimately have "run_counting ''R_10'' five_closes (engine_sixth, 0) = (?c5, 5)"
    by (simp only:)
  then show "run_counting ''R_10'' five_closes (engine_sixth, 0) = (engine_five_losses, 5)"
    unfolding e .
  show "activeTrades engine_five_losses = [(''R_10_LONG_7000'', 5)]"
    "map Trade.symbol (objects engine_five_losses) = [''R_10'', ''R_10'', ''R_10'', ''R_10'', ''R_10'', ''R_10'']"
    "totalTrades (stats engine_five_losses) = 5" "timers engine_five_losses = []"
    "adjustment_of ''R_10'' engine_five_losses = 3602879701896397 / 2 ^ 55"
    unfolding e by (simp_all add: a5 y5)
qed

lemma five_losses_counting:
  "run_counting ''R_10'' five_losses_run (new_TradingEngine, 0) = (engine_five_losses, 5)"
  by (simp add: five_losses_run_def run_counting_append opening_run_counting five_losses_state)

lemma sixth_loss:
  "run_counting ''R_10'' [sixth_close] (engine_five_losses, 5) =
     (engine_step sixth_close engine_five_losses, 6)"
  "\<not> pause_begins sixth_close engine_five_losses"
  "recorded_loss ''R_10'' sixth_close engine_five_losses"
  "adjustment_of ''R_10'' (engine_step sixth_close engine_five_losses) = 8646911284551353 / 2 ^ 56"
proof -
  have n: "length (objects engine_five_losses) = 6"
    using arg_cong [OF five_losses_state(3), of length] by simp
  have m: "map_of (activeTrades engine_five_losses) ''R_10_LONG_7000'' = Some 5"
    "5 < length (objects engine_five_losses)"
    "map Trade.symbol (objects engine_five_losses) ! 5 = ''R_10''"
    "totalTrades (stats engine_five_losses) < 9"
    by (simp_all add: five_losses_state n)
  note s = loss_step [OF m, where now = 13000 and pl = "- 1"]
  show "run_counting ''R_10'' [sixth_close] (engine_five_losses, 5) =
     (engine_step sixth_close engine_five_losses, 6)"
    using s(1) [of 5] by (simp add: sixth_close_def)
  show "\<not> pause_begins sixth_close engine_five_losses"
    by (simp add: pause_begins_def sixth_close_def s(4))
  show "recorded_loss ''R_10'' sixth_close engine_five_losses"
    using m(1,2,3) by (simp add: recorded_loss_def sixth_close_def)
  show "adjustment_of ''R_10'' (engine_step sixth_close engine_five_losses) = 8646911284551353 / 2 ^ 56"
    by (simp add: sixth_close_def s(5) five_losses_state fadd_def double_0_02 double_sum_0_02_6)
qed

lemma six_losses_counting:
  "run_counting ''R_10'' six_losses_run (new_TradingEngine, 0) =
     (engine_step sixth_close engine_five_losses, 6)"
  by (simp only: six_losses_run_def run_counting_append five_losses_counting sixth_loss(1))

lemma engine_nine_pause: "pause_begins close_first engine_nine"
proof -
  have m9: "map_of (activeTrades engine_nine) ''R_10_LONG_2000'' = Some 0"
    by (rule engine_nine_fields)
  note c9 = closeTrade_found [OF m9, of 5000 loss "- 1"]
  show ?thesis
    by (simp add: pause_begins_def close_first_def c9(1) engine_nine_fields pause_triggered_def
        WIN_RATE_FLOOR_def)
qed

theorem adaptive_adjustment_witness:
  "snd (run_counting ''R_10'' five_losses_run (new_TradingEngine, 0)) = 5 \<and>
   repeated_increment 5 = 3602879701896397 / 2 ^ 55 \<and>
   adjustment_of ''R_10'' (fst (run_counting ''R_10'' five_losses_run (new_TradingEngine, 0))) =
     3602879701896397 / 2 ^ 55 \<and>
   \<not> pause_begins sixth_close (fst (run_counting ''R_10'' five_losses_run (new_TradingEngine, 0))) \<and>
   recorded_loss ''R_10'' sixth_close
     (fst (run_counting ''R_10'' five_losses_run (new_TradingEngine, 0))) \<and>
   adjustment_of ''R_10''
     (engine_step sixth_close (fst (run_counting ''R_10'' five_losses_run (new_TradingEngine, 0)))) =
     8646911284551353 / 2 ^ 56 \<and>
   adjustment_of ''R_10'' (fst (run_counting ''R_10'' five_losses_run (new_TradingEngine, 0))) \<le>
     adjustment_of ''R_10''
       (engine_step sixth_close (fst (run_counting ''R_10'' five_losses_run (new_TradingEngine, 0)))) \<and>
   pause_begins close_first engine_nine \<and>
   adjustment_of ''R_10'' (engine_step close_first engine_nine) = 0"
  using adaptive_adjustment [of "''R_10''" sixth_close engine_five_losses five_losses_run]
    adaptive_adjustment [of "''R_10''" close_first engine_nine five_losses_run]
    sixth_loss(2,3) engine_nine_pause
  by (simp add: five_losses_counting five_losses_state repeated_increment_values fadd_def
      double_0_02 double_sum_0_02_6)

text \<open>
  Claim C7 as it was stated does not hold: after six losses recorded in a row on \<open>R_10\<close>
  with no pause in between, the adjustment is \<open>0.12000000000000001\<close>; it is neither the
  double that \<open>6 * 0.02\<close> evaluates to nor the number \<open>6 \<times> 0.02\<close>.
\<close>

theorem adjustment_six_losses_counterexample:
  "snd (run_counting ''R_10'' six_losses_run (new_TradingEngine, 0)) = 6 \<and>
   adjustment_of ''R_10'' (fst (run_counting ''R_10'' six_losses_run (new_TradingEngine, 0))) =
     8646911284551353 / 2 ^ 56 \<and>
   round64 (6 * round64 (2 / 100)) = 1080863910568919 / 2 ^ 53 \<and>
   adjustment_of ''R_10'' (fst (run_counting ''R_10'' six_losses_run (new_TradingEngine, 0))) \<noteq>
     round64 (6 * round64 (2 / 100)) \<and>
   adjustment_of ''R_10'' (fst (run_counting ''R_10'' six_losses_run (new_TradingEngine, 0))) \<noteq>
     6 * (2 / 100)"
  by (simp add: six_losses_counting sixth_loss(4) double_0_02 double_product_0_12)

subsection \<open>The duplicate check in reachable states\<close>

text \<open>
  The sample run is no accident: the key that \<open>analyzeSymbol\<close> looks up ends in a
  letter, and every key in the map ends in a digit.
\<close>

lemma digit_char: "n < 10 \<Longrightarrow> ''0123456789'' ! n \<in> set ''0123456789''"
  by (rule nth_mem) simp

lemma string_of_nat_last:
  "string_of_nat n \<noteq> [] \<and> last (string_of_nat n) \<in> set ''0123456789''"
proof -
  have m: "n mod 10 < 10" by simp
  show ?thesis
    using digit_char [of n] digit_char [OF m]
    by (subst (1 2) string_of_nat.simps) (simp del: set_simps)
qed

lemma trade_id_dated:
  "s @ ''_'' @ direction_string d @ ''_'' @ string_of_nat now \<noteq> [] \<and>
   last (s @ ''_'' @ direction_string d @ ''_'' @ string_of_nat now) \<in> set ''0123456789''"
  using string_of_nat_last [of now] by simp

lemma check_key_not_dated: "last (s @ ''_'' @ direction_string d) \<notin> set ''0123456789''"
  by (cases d) (simp_all add: direction_string_def)

lemma dated_keys_check:
  assumes "dated_keys e"
  shows "map_of (activeTrades e) (symb @ ''_'' @ direction_string dir) = None"
proof (rule ccontr)
  assume "map_of (activeTrades e) (symb @ ''_'' @ direction_string dir) \<noteq> None"
  then have "symb @ ''_'' @ direction_string dir \<in> fst ` set (activeTrades e)"
    by (simp add: map_of_eq_None_iff)
  then have "last (symb @ ''_'' @ direction_string dir) \<in> set ''0123456789''"
    using assms unfolding dated_keys_def by blast
  then show False using check_key_not_dated by blast
qed

lemma dated_keys_update:
  assumes "dated_keys e" "k \<noteq> [] \<and> last k \<in> set ''0123456789''"
    "activeTrades e' = AList.update k r (activeTrades e)"
  shows "dated_keys e'"
proof -
  have "fst ` set (activeTrades e') = insert k (fst ` set (activeTrades e))"
    by (simp add: assms(3) dom_update)
  then show ?thesis using assms(1,2) unfolding dated_keys_def by auto
qed

lemma dated_keys_delete:
  assumes "dated_keys e" "activeTrades e' = AList.delete k (activeTrades e)"
  shows "dated_keys e'"
proof -
  have "fst ` set (activeTrades e') \<subseteq> fst ` set (activeTrades e)"
    by (simp add: assms(2) dom_delete_subset)
  then show ?thesis using assms(1) unfolding dated_keys_def by blast
qed

lemma dated_keys_same: "dated_keys e \<Longrightarrow> activeTrades e' = activeTrades e \<Longrightarrow> dated_keys e'"
  by (simp add: dated_keys_def)

lemma activeTrades_analyzeSymbol:
  "activeTrades (analyzeSymbol now symb price e) = activeTrades e \<or>
   activeTrades (analyzeSymbol now symb price e) =
      AList.update (symb @ ''_'' @ direction_string
          (snd (calculateTradeProbability symb price
             (calculateAllIndicators (case priceHistory e symb of None \<Rightarrow> [] | Some h \<Rightarrow> h) None None)))
          @ ''_'' @ string_of_nat now) (length (objects e)) (activeTrades e)"
  by (simp add: analyzeSymbol_def Let_def split: prod.splits)

lemma dated_keys_analyzeSymbol:
  assumes "dated_keys e"
  shows "dated_keys (analyzeSymbol now symb price e)"
  using activeTrades_analyzeSymbol [of now symb price e]
proof
  assume "activeTrades (analyzeSymbol now symb price e) = activeTrades e"
  then show ?thesis using assms dated_keys_same by blast
next
  assume "activeTrades (analyzeSymbol now symb price e) =
      AList.update (symb @ ''_'' @ direction_string
          (snd (calculateTradeProbability symb price
             (calculateAllIndicators (case priceHistory e symb of None \<Rightarrow> [] | Some h \<Rightarrow> h) None None)))
          @ ''_'' @ string_of_nat now) (length (objects e)) (activeTrades e)"
  then show ?thesis
    by (rule dated_keys_update [OF assms trade_id_dated])
qed

lemma start_activeTrades [simp]: "activeTrades (start e) = activeTrades e"
proof -
  have "activeTrades (foldl (\<lambda>e s. log LogInfo (Some s) e) e' xs) = activeTrades e'" for e' xs
    by (induction xs arbitrary: e') simp_all
  then show ?thesis by (simp add: start_def)
qed

lemma dated_keys_handleTick:
  assumes d: "dated_keys e"
  shows "dated_keys (handleTick now tick e)"
proof (cases "isRunning e")
  case True
  define history where "history =
      (let pushed = (case priceHistory e (TickUpdate.symbol tick) of None \<Rightarrow> [] | Some h \<Rightarrow> h) @ [quote tick]
       in if length pushed > HISTORY_SIZE then tl pushed else pushed)"
  define e2 where "e2 = updateActiveTrades tick (e\<lparr>priceHistory := (priceHistory e)(TickUpdate.symbol tick \<mapsto> history)\<rparr>)"
  have h: "handleTick now tick e =
      (if length history \<ge> 30 then analyzeSymbol now (TickUpdate.symbol tick) (quote tick) e2 else e2)"
    using True unfolding handleTick_def history_def e2_def Let_def by simp
  have 2: "dated_keys e2"
    using d by (rule dated_keys_same) (simp add: e2_def)
  then have "dated_keys (analyzeSymbol now (TickUpdate.symbol tick) (quote tick) e2)"
    by (rule dated_keys_analyzeSymbol)
  then show ?thesis using 2 by (simp add: h)
next
  case False
  then show ?thesis using d by (simp add: handleTick_def)
qed

lemma dated_keys_settled:
  assumes d: "dated_keys e"
  shows "dated_keys (engine_executeTrade_settled r outcome e)"
proof -
  have "activeTrades (engine_executeTrade_settled r outcome e) = activeTrades e \<or>
        activeTrades (engine_executeTrade_settled r outcome e) =
          AList.delete (id_trade (objects e ! r)) (activeTrades e)"
    by (simp add: engine_executeTrade_settled_def Let_def)
  then show ?thesis
    using d dated_keys_same dated_keys_delete by blast
qed

lemma dated_keys_closeTrade:
  assumes d: "dated_keys e"
  shows "dated_keys (closeTrade now tradeId res pl e)"
proof (cases "map_of (activeTrades e) tradeId")
  case None
  then show ?thesis using d by (simp add: closeTrade_missing)
next
  case (Some r)
  show ?thesis
    using d closeTrade_found_trades(1) [OF Some, of now res pl] by (rule dated_keys_delete)
qed

lemma dated_keys_step: "dated_keys e \<Longrightarrow> dated_keys (engine_step i e)"
proof (cases i)
  case Start
  assume "dated_keys e"
  then show ?thesis by (simp add: Start dated_keys_def)
next
  case Stop
  assume "dated_keys e"
  then show ?thesis by (simp add: Stop dated_keys_def stop_def)
next
  case (TimerFires due)
  assume "dated_keys e"
  then show ?thesis by (simp add: TimerFires dated_keys_def calibration_timer_fires_def Let_def)
next
  case (SetStake s)
  assume "dated_keys e"
  then show ?thesis by (simp add: SetStake dated_keys_def setStake_def)
qed (simp_all add: dated_keys_handleTick dated_keys_settled dated_keys_closeTrade)

lemma dated_keys_run: "dated_keys e \<Longrightarrow> dated_keys (run_engine inputs e)"
  by (induction inputs arbitrary: e) (simp_all add: dated_keys_step)

text \<open>In every state that a new engine can reach, the check of \<open>analyzeSymbol\<close> finds no
  key, whatever positions are open.\<close>

lemma duplicate_check_never_blocks:
  "map_of (activeTrades (run_engine inputs new_TradingEngine)) (symb @ ''_'' @ direction_string dir) = None"
proof -
  have "dated_keys new_TradingEngine"
    by (simp add: dated_keys_def new_TradingEngine_def)
  then show ?thesis
    by (intro dated_keys_check dated_keys_run)
qed

subsection \<open>The references of the map in reachable states\<close>

lemma snd_set_update: "snd ` set (AList.update k v al) \<subseteq> insert v (snd ` set al)"
  by (induction al) auto

lemma snd_set_delete: "snd ` set (AList.delete k al) \<subseteq> snd ` set al"
  by (induction al) auto

lemma valid_refs_grow:
  assumes "valid_refs e" "activeTrades e' = activeTrades e \<or>
      activeTrades e' = AList.delete k (activeTrades e)" "length (objects e) \<le> length (objects e')"
  shows "valid_refs e'"
proof -
  have "snd ` set (activeTrades e') \<subseteq> snd ` set (activeTrades e)"
    using assms(2) snd_set_delete [of k "activeTrades e"] by (elim disjE) simp_all
  then show ?thesis
    using assms(1,3) unfolding valid_refs_def by fastforce
qed

lemma valid_refs_new:
  assumes "valid_refs e" "activeTrades e' = AList.update k (length (objects e)) (activeTrades e)"
    "length (objects e') = Suc (length (objects e))"
  shows "valid_refs e'"
proof -
  have "snd ` set (activeTrades e') \<subseteq> insert (length (objects e)) (snd ` set (activeTrades e))"
    using assms(2) snd_set_update by metis
  then show ?thesis
    using assms(1,3) unfolding valid_refs_def by fastforce
qed

lemma valid_refs_analyzeSymbol:
  assumes "valid_refs e"
  shows "valid_refs (analyzeSymbol now symb price e)"
proof -
  let ?k = "symb @ ''_'' @ direction_string
          (snd (calculateTradeProbability symb price
             (calculateAllIndicators (case priceHistory e symb of None \<Rightarrow> [] | Some h \<Rightarrow> h) None None)))
          @ ''_'' @ string_of_nat now"
  have "(activeTrades (analyzeSymbol now symb price e) = activeTrades e \<and>
         objects (analyzeSymbol now symb price e) = objects e) \<or>
        (activeTrades (analyzeSymbol now symb price e) =
           AList.update ?k (length (objects e)) (activeTrades e) \<and>
         length (objects (analyzeSymbol now symb price e)) = Suc (length (objects e)))"
    by (simp add: analyzeSymbol_def Let_def split: prod.splits)
  then show ?thesis
    using assms valid_refs_grow [of e "analyzeSymbol now symb price e" ?k]
      valid_refs_new [of e "analyzeSymbol now symb price e" ?k]
    by auto
qed

lemma valid_refs_handleTick:
  assumes v: "valid_refs e"
  shows "valid_refs (handleTick now tick e)"
proof (cases "isRunning e")
  case True
  define history where "history =
      (let pushed = (case priceHistory e (TickUpdate.symbol tick) of None \<Rightarrow> [] | Some h \<Rightarrow> h) @ [quote tick]
       in if length pushed > HISTORY_SIZE then tl pushed else pushed)"
  define e2 where "e2 = updateActiveTrades tick (e\<lparr>priceHistory := (priceHistory e)(TickUpdate.symbol tick \<mapsto> history)\<rparr>)"
  have h: "handleTick now tick e =
      (if length history \<ge> 30 then analyzeSymbol now (TickUpdate.symbol tick) (quote tick) e2 else e2)"
    using True unfolding handleTick_def history_def e2_def Let_def by simp
  have 2: "valid_refs e2"
    using v by (rule valid_refs_grow [where k = "[]"]) (simp_all add: e2_def)
  then have "valid_refs (analyzeSymbol now (TickUpdate.symbol tick) (quote tick) e2)"
    by (rule valid_refs_analyzeSymbol)
  then show ?thesis using 2 by (simp add: h)
next
  case False
  then show ?thesis using v by (simp add: handleTick_def)
qed

lemma valid_refs_settled:
  assumes v: "valid_refs e"
  shows "valid_refs (engine_executeTrade_settled r outcome e)"
  using v
  by (rule valid_refs_grow [where k = "id_trade (objects e ! r)"])
     (simp_all add: engine_executeTrade_settled_def Let_def)

lemma valid_refs_closeTrade:
  assumes v: "valid_refs e"
  shows "valid_refs (closeTrade now tradeId res pl e)"
proof (cases "map_of (activeTrades e) tradeId")
  case None
  then show ?thesis using v by (simp add: closeTrade_missing)
next
  case (Some r)
  show ?thesis
    using v
    by (rule valid_refs_grow [where k = tradeId])
       (simp_all add: closeTrade_found_trades [OF Some])
qed

lemma objects_start [simp]: "objects (start e) = objects e"
proof -
  have "objects (foldl (\<lambda>e s. log LogInfo (Some s) e) e' xs) = objects e'" for e' xs
    by (induction xs arbitrary: e') simp_all
  then show ?thesis by (simp add: start_def)
qed

lemma valid_refs_step: "valid_refs e \<Longrightarrow> valid_refs (engine_step i e)"
proof (cases i)
  case Start
  assume "valid_refs e"
  then show ?thesis by (simp add: Start valid_refs_def)
next
  case Stop
  assume "valid_refs e"
  then show ?thesis by (simp add: Stop valid_refs_def stop_def)
next
  case (TimerFires due)
  assume "valid_refs e"
  then show ?thesis by (simp add: TimerFires valid_refs_def calibration_timer_fires_def Let_def)
next
  case (SetStake s)
  assume "valid_refs e"
  then show ?thesis by (simp add: SetStake valid_refs_def setStake_def)
qed (simp_all add: valid_refs_handleTick valid_refs_settled valid_refs_closeTrade)

text \<open>In every state that a new engine can reach, each reference in the map of active
  trades denotes a trade object.\<close>

lemma valid_refs_reachable: "valid_refs (run_engine inputs new_TradingEngine)"
proof -
  have "valid_refs e \<Longrightarrow> valid_refs (run_engine inputs e)" for e
    by (induction inputs arbitrary: e) (simp_all add: valid_refs_step)
  moreover have "valid_refs new_TradingEngine"
    by (simp add: valid_refs_def new_TradingEngine_def)
  ultimately show ?thesis by blast
qed

end
